theory Spec2Isabelle
  imports Complex_Main "HOL-Library.AList" "HOL-Library.Multiset"
begin

section \<open>Numbers\<close>

text \<open>
  The source computes with JavaScript numbers. Numbers that are decoded from a request
  (amounts, sensor readings, probabilities) are finite and are modelled as \<open>real\<close>.
  Numbers that the program computes by division, and the profile fields it stores such
  results in, can be infinite or NaN; they are modelled by \<open>jsnum\<close>: an exact real, one
  of the two infinities, or NaN. Rounding and overflow of the 64-bit format are not
  modelled, and the two zeros are identified (a zero divisor counts as \<open>+0\<close>), which
  can change the sign of an infinity but never whether a value is NaN.
\<close>

datatype jsnum = Num real | PosInf | NegInf | NaN

fun jsneg :: "jsnum \<Rightarrow> jsnum" where
  "jsneg (Num a) = Num (- a)"
| "jsneg PosInf = NegInf"
| "jsneg NegInf = PosInf"
| "jsneg NaN = NaN"

fun jsadd :: "jsnum \<Rightarrow> jsnum \<Rightarrow> jsnum" where
  "jsadd NaN y = NaN"
| "jsadd x NaN = NaN"
| "jsadd (Num a) (Num b) = Num (a + b)"
| "jsadd PosInf NegInf = NaN"
| "jsadd NegInf PosInf = NaN"
| "jsadd PosInf y = PosInf"
| "jsadd x PosInf = PosInf"
| "jsadd NegInf y = NegInf"
| "jsadd x NegInf = NegInf"

definition jssub :: "jsnum \<Rightarrow> jsnum \<Rightarrow> jsnum" where
  "jssub x y = jsadd x (jsneg y)"

text \<open>The sign of an infinite product or quotient: \<open>True\<close> for a non-negative factor.\<close>

fun jspositive :: "jsnum \<Rightarrow> bool" where
  "jspositive (Num a) = (0 \<le> a)"
| "jspositive PosInf = True"
| "jspositive NegInf = False"
| "jspositive NaN = True"

definition jsinf :: "bool \<Rightarrow> jsnum" where
  "jsinf pos = (if pos then PosInf else NegInf)"

fun jsmul :: "jsnum \<Rightarrow> jsnum \<Rightarrow> jsnum" where
  "jsmul NaN y = NaN"
| "jsmul x NaN = NaN"
| "jsmul (Num a) (Num b) = Num (a * b)"
| "jsmul (Num a) y = (if a = 0 then NaN else jsinf (jspositive (Num a) = jspositive y))"
| "jsmul x (Num b) = (if b = 0 then NaN else jsinf (jspositive x = jspositive (Num b)))"
| "jsmul x y = jsinf (jspositive x = jspositive y)"

fun jsdiv :: "jsnum \<Rightarrow> jsnum \<Rightarrow> jsnum" where
  "jsdiv NaN y = NaN"
| "jsdiv x NaN = NaN"
| "jsdiv (Num a) (Num b) =
     (if b \<noteq> 0 then Num (a / b)
      else if a = 0 then NaN
      else jsinf (0 < a))"
| "jsdiv (Num a) y = Num 0"
| "jsdiv x (Num b) = jsinf (jspositive x = jspositive (Num b))"
| "jsdiv x y = NaN"

fun jsabs :: "jsnum \<Rightarrow> jsnum" where
  "jsabs (Num a) = Num \<bar>a\<bar>"
| "jsabs PosInf = PosInf"
| "jsabs NegInf = PosInf"
| "jsabs NaN = NaN"

fun jssqrt :: "jsnum \<Rightarrow> jsnum" where
  "jssqrt (Num a) = (if a < 0 then NaN else Num (sqrt a))"
| "jssqrt PosInf = PosInf"
| "jssqrt NegInf = NaN"
| "jssqrt NaN = NaN"

text \<open>\<open>jsgt x y\<close> is \<open>x > y\<close> and \<open>jslt x y\<close> is \<open>x < y\<close>: false as soon as one side is NaN.\<close>

fun jsgt :: "jsnum \<Rightarrow> jsnum \<Rightarrow> bool" where
  "jsgt NaN y = False"
| "jsgt x NaN = False"
| "jsgt (Num a) (Num b) = (b < a)"
| "jsgt x PosInf = False"
| "jsgt NegInf y = False"
| "jsgt PosInf y = True"
| "jsgt x NegInf = True"

definition jslt :: "jsnum \<Rightarrow> jsnum \<Rightarrow> bool" where
  "jslt x y = jsgt y x"

text \<open>\<open>Math.min\<close> of two numbers: NaN when either is.\<close>

definition jsmin :: "jsnum \<Rightarrow> jsnum \<Rightarrow> jsnum" where
  "jsmin x y = (if x = NaN \<or> y = NaN then NaN else if jsgt x y then y else x)"

text \<open>
  \<open>xs.reduce((a, b) => a + b, 0) / xs.length\<close> over an array of finite numbers: the
  mean, and NaN (\<open>0 / 0\<close>) for the empty array.
\<close>

definition average :: "real list \<Rightarrow> jsnum" where
  "average xs = jsdiv (Num (sum_list xs)) (Num (real (length xs)))"

text \<open>
  A \<open>Date\<close> is its number of milliseconds since the epoch. \<open>getHours\<close> is the hour of
  the day, with the host's zone offset taken as zero. A field that is declared a \<open>Date\<close>
  and filled from a parsed request body holds a string, never a \<open>Date\<close> object: such
  fields are a \<open>Date option\<close>, with \<open>None\<close> for a value that is not a \<open>Date\<close>, and a
  method call on it (\<open>getTime\<close>, \<open>getHours\<close>) throws a TypeError.
\<close>

type_synonym Date = int

definition getHours :: "Date \<Rightarrow> int" where
  "getHours d = (d div 3600000) mod 24"

section \<open>Shared data model (types.ts, data-ingestion.ts)\<close>

record Location =
  lat :: real
  lng :: real
  country :: string
  city :: string

record Merchant =
  m_id :: string
  m_name :: string
  category :: string

record TransactionData =
  tx_id :: string
  tx_userId :: string
  amount :: real
  tx_timestamp :: "Date option"
  location :: Location
  merchant :: Merchant
  deviceId :: string
  paymentMethod :: string

record KeystrokeDynamics =
  dwellTimes :: "real list"
  flightTimes :: "real list"
  typingSpeed :: real

record MouseMovements =
  velocity :: "real list"
  acceleration :: "real list"
  clickPatterns :: "real list"

record DeviceSensors =
  accelerometer :: "real list"
  gyroscope :: "real list"
  orientation :: real

text \<open>
  A biometric sample as the endpoints receive it from a request body: each of the three
  groups may be missing (\<open>None\<close>), in which case reading a member of it throws a
  TypeError.
\<close>

record BiometricData =
  sessionId :: string
  bio_userId :: string
  keystrokeDynamics :: "KeystrokeDynamics option"
  mouseMovements :: "MouseMovements option"
  deviceSensors :: "DeviceSensors option"
  bio_timestamp :: Date

datatype error = TypeError | InvalidFeedback

text \<open>
  The source types risk levels, severities and priorities alike, as
  \<open>"low" | "medium" | "high"\<close>: one datatype serves the three.
\<close>

datatype Level = low | medium | high

type_synonym RiskLevel = Level

type_synonym Severity = Level

type_synonym Priority = Level

datatype MovementPattern = smooth | jerky | mixed

text \<open>
  The description of an anomaly is a template literal in the source. Each constructor is
  one template and carries the values the source interpolates into it; their decimal
  rendering (\<open>toFixed(1)\<close>) is not modelled.
\<close>

datatype AnomalyDescription =
    UnusualKeyDwellTime jsnum jsnum
  | UnusualKeyFlightTime jsnum jsnum
  | UnusualTypingSpeed real jsnum
  | UnusualMouseVelocity jsnum jsnum
  | UnusualMouseAcceleration
  | MovementPatternChanged MovementPattern MovementPattern
  | UnusualDeviceMovement
  | UnusualDeviceRotation
  | OrientationDiffers

text \<open>The entries of an explanation list, in the same way.\<close>

datatype Explanation =
    HighTransactionAmount real
  | UnusualTime int
  | LargeATMWithdrawal real
  | UnusualTypingPattern
  | AnomalousBehavioralPatterns
  | Biometric AnomalyDescription

section \<open>Active learning feedback system (feedback-system)\<close>

datatype Label = fraud | legitimate | unknown

datatype EvidenceType = manual_review | customer_dispute | bank_confirmation | automated_verification

text \<open>
  \<open>transactionId\<close>, \<open>actualLabel\<close> and \<open>reviewerId\<close> are the fields the source validates;
  \<open>None\<close> is a field that is not there. \<open>reviewTimestamp\<close> is declared a \<open>Date\<close>, but the
  feedback route hands the parsed request body on as it is, and there the field is a
  string: \<open>None\<close> is a value that is not a \<open>Date\<close> object, on which \<open>getTime\<close> throws a
  TypeError.
\<close>

record FeedbackData =
  fb_transactionId :: "string option"
  actualLabel :: "Label option"
  fb_confidence :: real
  reviewerId :: "string option"
  reviewTimestamp :: "Date option"
  fb_notes :: "string option"
  evidenceType :: EvidenceType

datatype UpdateType = incremental | full_retrain

record ModelUpdateRequest =
  feedbackBatch :: "FeedbackData list"
  updateType :: UpdateType
  priority :: Priority
  scheduledTime :: "Date option"

record ActiveLearningQuery =
  q_transactionId :: string
  uncertaintyScore :: real
  diversityScore :: real
  importanceScore :: real
  queryReason :: "string list"
  suggestedReviewers :: "string list"

record ModelPerformanceMetrics =
  accuracy :: real
  precision :: real
  recall :: real
  f1Score :: real
  falsePositiveRate :: real
  falseNegativeRate :: real
  auc :: real
  perf_lastUpdated :: Date
  sampleSize :: int

text \<open>The response of the scoring endpoint, as the client declares it.\<close>

record FraudDetectionResponse =
  resp_transactionId :: string
  resp_fraudProbability :: real
  resp_riskLevel :: RiskLevel
  resp_explanation :: "Explanation list"
  resp_biometricAnomalies :: nat
  resp_graphNodes :: nat
  resp_confidence :: real

text \<open>
  A JavaScript \<open>Map\<close> keeps its keys in insertion order: it is an association list with
  distinct keys, \<open>AList.update\<close> is \<open>set\<close> (in place for a key that is there, at the
  end for a new one) and \<open>AList.delete\<close> is \<open>delete\<close>.
\<close>

record FeedbackSystem =
  feedbackHistory :: "(string \<times> FeedbackData) list"
  pendingReviews :: "(string \<times> ActiveLearningQuery) list"
  modelPerformance :: ModelPerformanceMetrics
  updateQueue :: "ModelUpdateRequest list"
  reviewerWorkload :: "(string \<times> nat) list"

definition map_has :: "'k \<Rightarrow> ('k \<times> 'v) list \<Rightarrow> bool" where
  "map_has k m = (map_of m k \<noteq> None)"

text \<open>The constructor: the five reviewers with no work, an empty queue.\<close>

definition initializeReviewers :: "(string \<times> nat) list" where
  "initializeReviewers =
     foldl (\<lambda>m reviewer. AList.update reviewer 0 m) []
       [''analyst_001'', ''analyst_002'', ''analyst_003'', ''senior_analyst_001'', ''ml_engineer_001'']"

definition newFeedbackSystem :: "Date \<Rightarrow> FeedbackSystem" where
  "newFeedbackSystem now =
     \<lparr> feedbackHistory = [],
       pendingReviews = [],
       modelPerformance =
         \<lparr> accuracy = 0.92, precision = 0.89, recall = 0.94, f1Score = 0.91,
           falsePositiveRate = 0.08, falseNegativeRate = 0.06, auc = 0.96,
           perf_lastUpdated = now, sampleSize = 1000 \<rparr>,
       updateQueue = [],
       reviewerWorkload = initializeReviewers \<rparr>"

text \<open>\<open>!s\<close> for a string that may be missing: true when it is missing or empty.\<close>

definition falsy :: "string option \<Rightarrow> bool" where
  "falsy s = (case s of None \<Rightarrow> True | Some v \<Rightarrow> v = [])"

text \<open>
  The \<open>filter\<close> of \<open>shouldTriggerImmediateUpdate\<close> over the stored records: the records of
  the last hour, or the TypeError of the first record whose \<open>reviewTimestamp\<close> is not a
  \<open>Date\<close>.
\<close>

fun recentFeedback :: "Date \<Rightarrow> FeedbackData list \<Rightarrow> error + FeedbackData list" where
  "recentFeedback now [] = Inr []"
| "recentFeedback now (f # fs) =
     (case reviewTimestamp f of
        None \<Rightarrow> Inl TypeError
      | Some t \<Rightarrow>
         (case recentFeedback now fs of
            Inl e \<Rightarrow> Inl e
          | Inr rest \<Rightarrow> Inr (if now - t < 3600000 then f # rest else rest)))"

definition shouldTriggerImmediateUpdate :: "Date \<Rightarrow> FeedbackData \<Rightarrow> FeedbackSystem \<Rightarrow> error + bool" where
  "shouldTriggerImmediateUpdate now feedback s =
     (if fb_confidence feedback > 0.9 \<and> evidenceType feedback = bank_confirmation then Inr True
      else
        case recentFeedback now (map snd (feedbackHistory s)) of
          Inl e \<Rightarrow> Inl e
        | Inr recent \<Rightarrow> Inr (length recent \<ge> 10))"

definition priorityOrder :: "Priority \<Rightarrow> int" where
  "priorityOrder p = (case p of high \<Rightarrow> 3 | medium \<Rightarrow> 2 | low \<Rightarrow> 1)"

text \<open>
  \<open>Array.prototype.sort\<close> is stable, and so is \<open>sort_key\<close>; the comparator
  \<open>priorityOrder[b.priority] - priorityOrder[a.priority]\<close> sorts by descending priority.
\<close>

definition queueModelUpdate ::
  "Date \<Rightarrow> FeedbackData list \<Rightarrow> UpdateType \<Rightarrow> Priority \<Rightarrow> FeedbackSystem \<Rightarrow> FeedbackSystem" where
  "queueModelUpdate now batch ut prio s =
     (let updateRequest =
            \<lparr> feedbackBatch = batch, updateType = ut, priority = prio,
              scheduledTime =
                Some (now + (if prio = high then 0
                             else if prio = medium then 300000 else 1800000)) \<rparr>
      in s\<lparr> updateQueue :=
               sort_key (\<lambda>u. - priorityOrder (priority u)) (updateQueue s @ [updateRequest]) \<rparr>)"

text \<open>
  \<open>submitFeedback\<close>: the state after the call, and \<open>Inl\<close> the error when it throws.
  \<open>now\<close> is the clock during the call. The validation throws before anything is
  written; \<open>shouldTriggerImmediateUpdate\<close> throws after the record is stored, the pending
  review deleted and the workload counted.
\<close>

definition missingRequiredFields :: "FeedbackData \<Rightarrow> bool" where
  "missingRequiredFields feedback =
     (falsy (fb_transactionId feedback) \<or> actualLabel feedback = None \<or> falsy (reviewerId feedback))"

definition workloadOf :: "(string \<times> nat) list \<Rightarrow> string \<Rightarrow> nat" where
  "workloadOf m rid = (case map_of m rid of None \<Rightarrow> 0 | Some w \<Rightarrow> w)"

definition submitFeedback ::
  "Date \<Rightarrow> FeedbackData \<Rightarrow> FeedbackSystem \<Rightarrow> FeedbackSystem \<times> (error + unit)" where
  "submitFeedback now feedback s =
     (if missingRequiredFields feedback
      then (s, Inl InvalidFeedback)
      else
        let tid = the (fb_transactionId feedback);
            rid = the (reviewerId feedback);
            s1 = s\<lparr> feedbackHistory := AList.update tid feedback (feedbackHistory s) \<rparr>;
            s2 = s1\<lparr> pendingReviews := AList.delete tid (pendingReviews s1) \<rparr>;
            currentWorkload = workloadOf (reviewerWorkload s2) rid;
            s3 = s2\<lparr> reviewerWorkload := AList.update rid (currentWorkload + 1) (reviewerWorkload s2) \<rparr>
        in (case shouldTriggerImmediateUpdate now feedback s3 of
              Inl e \<Rightarrow> (s3, Inl e)
            | Inr shouldTriggerUpdate \<Rightarrow>
                if shouldTriggerUpdate
                then (queueModelUpdate now [feedback] incremental high s3, Inr ())
                else (s3, Inr ())))"

text \<open>
  \<open>submitBatchFeedback\<close> submits the records in order; the first one that throws ends the
  call, with the earlier records stored and no batch update queued.
\<close>

fun submitAll :: "Date \<Rightarrow> FeedbackData list \<Rightarrow> FeedbackSystem \<Rightarrow> FeedbackSystem \<times> (error + unit)" where
  "submitAll now [] s = (s, Inr ())"
| "submitAll now (feedback # rest) s =
     (case submitFeedback now feedback s of
        (s', Inl e) \<Rightarrow> (s', Inl e)
      | (s', Inr u) \<Rightarrow> submitAll now rest s')"

definition submitBatchFeedback ::
  "Date \<Rightarrow> FeedbackData list \<Rightarrow> FeedbackSystem \<Rightarrow> FeedbackSystem \<times> (error + unit)" where
  "submitBatchFeedback now batch s =
     (case submitAll now batch s of
        (s', Inl e) \<Rightarrow> (s', Inl e)
      | (s', Inr u) \<Rightarrow>
          if length batch \<ge> 5
          then (queueModelUpdate now batch incremental medium s', Inr ())
          else (s', Inr ()))"

text \<open>
  \<open>identifyUncertainTransactions\<close>. \<open>transactions[i]\<close> is \<open>undefined\<close> past the end of
  the array, and reading a member of it throws a TypeError: the scores that read the
  transaction take it as an option. Once the history has ten records,
  \<open>calculateDiversityScore\<close> calls \<open>getHours\<close> on the transaction's timestamp.
\<close>

definition calculateUncertaintyScore :: "FraudDetectionResponse \<Rightarrow> real" where
  "calculateUncertaintyScore prediction =
     (let distanceFromMiddle = \<bar>resp_fraudProbability prediction - 0.5\<bar>;
          uncertaintyScore = 1 - distanceFromMiddle * 2;
          confidenceUncertainty = 1 - resp_confidence prediction
      in max uncertaintyScore confidenceUncertainty)"

definition calculateDiversityScore :: "FeedbackSystem \<Rightarrow> TransactionData option \<Rightarrow> error + real" where
  "calculateDiversityScore s transaction =
     (let values = map snd (feedbackHistory s);
          recentTransactions = map fb_transactionId (drop (length values - 100) values)
      in if length recentTransactions < 10 then Inr 0.8
         else case transaction of
           None \<Rightarrow> Inl TypeError
         | Some t \<Rightarrow>
            (case tx_timestamp t of
               None \<Rightarrow> Inl TypeError
             | Some stamp \<Rightarrow>
                 let hour = getHours stamp;
                     isUnusualTime = (hour < 6 \<or> hour > 22);
                     isHighAmount = (amount t > 1000);
                     isUnusualMerchant = (category (merchant t) = ''atm'');
                     d0 = 0.3;
                     d1 = (if isUnusualTime then d0 + 0.2 else d0);
                     d2 = (if isHighAmount then d1 + 0.3 else d1);
                     d3 = (if isUnusualMerchant then d2 + 0.2 else d2)
                 in Inr (min 1 d3)))"

definition calculateImportanceScore ::
  "TransactionData option \<Rightarrow> FraudDetectionResponse \<Rightarrow> error + real" where
  "calculateImportanceScore transaction prediction =
     (case transaction of
        None \<Rightarrow> Inl TypeError
      | Some t \<Rightarrow>
          let i0 = 0;
              i1 = (if amount t > 5000 then i0 + 0.4 else if amount t > 1000 then i0 + 0.2 else i0);
              i2 = (if resp_riskLevel prediction = high then i1 + 0.3
                    else if resp_riskLevel prediction = medium then i1 + 0.1 else i1);
              i3 = (if length (resp_explanation prediction) > 2 then i2 + 0.2 else i2);
              i4 = (if category (merchant t) \<in> set [''bank'', ''atm'', ''financial''] then i3 + 0.1 else i3)
          in Inr (min 1 i4))"

definition generateQueryReasons ::
  "FraudDetectionResponse \<Rightarrow> TransactionData \<Rightarrow> real \<Rightarrow> real \<Rightarrow> string list" where
  "generateQueryReasons prediction transaction uncertainty diversity =
     (if uncertainty > 0.7 then [''Model uncertainty: prediction confidence is low''] else [])
     @ (if \<bar>resp_fraudProbability prediction - 0.5\<bar> < 0.1
        then [''Borderline case: fraud probability near decision threshold''] else [])
     @ (if diversity > 0.6 then [''Novel transaction pattern: different from training data''] else [])
     @ (if amount transaction > 5000 then [''High-value transaction: requires manual verification''] else [])
     @ (if length (resp_explanation prediction) > 3
        then [''Complex case: multiple risk factors identified''] else [])
     @ (if resp_biometricAnomalies prediction > 2
        then [''Behavioral anomalies: unusual user interaction patterns''] else [])"

text \<open>\<open>[...new Set(xs)]\<close>: the first occurrence of each element, in order.\<close>

fun uniq :: "'a list \<Rightarrow> 'a list" where
  "uniq [] = []"
| "uniq (x # xs) = x # uniq (removeAll x xs)"

definition suggestReviewers ::
  "FeedbackSystem \<Rightarrow> FraudDetectionResponse \<Rightarrow> TransactionData \<Rightarrow> string list" where
  "suggestReviewers s prediction transaction =
     (let sortedReviewers = sort_key snd (reviewerWorkload s);
          reviewers =
            (if resp_riskLevel prediction = high \<or> amount transaction > 10000
             then [''senior_analyst_001''] else [])
            @ (if resp_biometricAnomalies prediction > 2 then [''ml_engineer_001''] else [])
            @ map fst (take 2 sortedReviewers)
      in uniq reviewers)"

definition combinedScore :: "ActiveLearningQuery \<Rightarrow> real" where
  "combinedScore q = uncertaintyScore q * 0.4 + diversityScore q * 0.3 + importanceScore q * 0.3"

text \<open>
  The body of the loop over the predictions, for one prediction and \<open>transactions[i]\<close>:
  \<open>None\<close> when the prediction is skipped or stays under the threshold, the query
  otherwise. Where the query is built the transaction is there: \<open>calculateImportanceScore\<close>
  has read it.
\<close>

definition reviewQuery ::
  "FeedbackSystem \<Rightarrow> FraudDetectionResponse \<Rightarrow> TransactionData option \<Rightarrow>
   error + ActiveLearningQuery option" where
  "reviewQuery s prediction transaction =
     (if map_has (resp_transactionId prediction) (feedbackHistory s) then Inr None
      else
        let uncertainty = calculateUncertaintyScore prediction
        in case calculateDiversityScore s transaction of
             Inl e \<Rightarrow> Inl e
           | Inr diversity \<Rightarrow>
              (case calculateImportanceScore transaction prediction of
                 Inl e \<Rightarrow> Inl e
               | Inr importance \<Rightarrow>
                   if uncertainty * 0.4 + diversity * 0.3 + importance * 0.3 > 0.6
                   then Inr (Some
                     \<lparr> q_transactionId = resp_transactionId prediction,
                       uncertaintyScore = uncertainty,
                       diversityScore = diversity,
                       importanceScore = importance,
                       queryReason =
                         generateQueryReasons prediction (the transaction) uncertainty diversity,
                       suggestedReviewers = suggestReviewers s prediction (the transaction) \<rparr>)
                   else Inr None))"

text \<open>
  The loop: \<open>txs\<close> is what is left of \<open>transactions\<close> from the current index on,
  \<open>queries\<close> the queries pushed so far. A throw leaves the entries already written to
  \<open>pendingReviews\<close> in place.
\<close>

fun identifyLoop ::
  "FeedbackSystem \<Rightarrow> FraudDetectionResponse list \<Rightarrow> TransactionData list \<Rightarrow>
   ActiveLearningQuery list \<Rightarrow> FeedbackSystem \<times> (error + ActiveLearningQuery list)" where
  "identifyLoop s [] txs queries = (s, Inr queries)"
| "identifyLoop s (prediction # ps) txs queries =
     (case reviewQuery s prediction (case txs of [] \<Rightarrow> None | t # _ \<Rightarrow> Some t) of
        Inl e \<Rightarrow> (s, Inl e)
      | Inr None \<Rightarrow> identifyLoop s ps (tl txs) queries
      | Inr (Some query) \<Rightarrow>
          identifyLoop
            (s\<lparr> pendingReviews :=
                 AList.update (resp_transactionId prediction) query (pendingReviews s) \<rparr>)
            ps (tl txs) (queries @ [query]))"

definition identifyUncertainTransactions ::
  "FeedbackSystem \<Rightarrow> FraudDetectionResponse list \<Rightarrow> TransactionData list \<Rightarrow> BiometricData list \<Rightarrow>
   FeedbackSystem \<times> (error + ActiveLearningQuery list)" where
  "identifyUncertainTransactions s predictions transactions biometrics =
     (case identifyLoop s predictions transactions [] of
        (s', Inl e) \<Rightarrow> (s', Inl e)
      | (s', Inr queries) \<Rightarrow> (s', Inr (take 10 (sort_key (\<lambda>q. - combinedScore q) queries))))"

text \<open>
  The periodic tick. Every update whose time has come is executed and taken out of the
  queue (the source removes it by object identity, that is, exactly the entries it
  executed); \<open>executeModelUpdate\<close> never throws. \<open>r\<close> is the draw of \<open>Math.random\<close>.
\<close>

definition updateModelPerformanceFromFeedback ::
  "Date \<Rightarrow> FeedbackData list \<Rightarrow> ModelPerformanceMetrics \<Rightarrow> ModelPerformanceMetrics" where
  "updateModelPerformanceFromFeedback now batch m =
     (let improvementFactor = min 0.02 (real (length batch) * 0.001);
          acc = min 0.99 (accuracy m + improvementFactor);
          prec = min 0.99 (precision m + improvementFactor * 0.8);
          rec = min 0.99 (recall m + improvementFactor * 1.2)
      in m\<lparr> accuracy := acc, precision := prec, recall := rec,
            f1Score := (2 * prec * rec) / (prec + rec),
            perf_lastUpdated := now,
            sampleSize := sampleSize m + int (length batch) \<rparr>)"

definition processUpdateQueue :: "Date \<Rightarrow> FeedbackSystem \<Rightarrow> FeedbackSystem" where
  "processUpdateQueue now s =
     (let ready = (\<lambda>u. case scheduledTime u of None \<Rightarrow> True | Some t \<Rightarrow> t \<le> now);
          readyUpdates = filter ready (updateQueue s)
      in s\<lparr> modelPerformance :=
               foldl (\<lambda>m u. updateModelPerformanceFromFeedback now (feedbackBatch u) m)
                 (modelPerformance s) readyUpdates,
             updateQueue := filter (\<lambda>u. \<not> ready u) (updateQueue s) \<rparr>)"

definition updateModelPerformance :: "real \<Rightarrow> FeedbackSystem \<Rightarrow> FeedbackSystem" where
  "updateModelPerformance r s =
     (let m = modelPerformance s;
          randomVariation = (r - 0.5) * 0.01;
          acc = max 0.85 (min 0.99 (accuracy m + randomVariation));
          prec = max 0.8 (min 0.99 (precision m + randomVariation));
          rec = max 0.85 (min 0.99 (recall m + randomVariation))
      in s\<lparr> modelPerformance :=
               m\<lparr> accuracy := acc, precision := prec, recall := rec,
                  f1Score := (2 * prec * rec) / (prec + rec),
                  falsePositiveRate := 1 - prec,
                  falseNegativeRate := 1 - rec \<rparr> \<rparr>)"

text \<open>\<open>later s s'\<close>: the system gets from \<open>s\<close> to \<open>s'\<close> by calls of its operations.\<close>

inductive later :: "FeedbackSystem \<Rightarrow> FeedbackSystem \<Rightarrow> bool" where
  later_refl: "later s s"
| later_submit: "later s s' \<Longrightarrow> later s (fst (submitFeedback now feedback s'))"
| later_batch: "later s s' \<Longrightarrow> later s (fst (submitBatchFeedback now batch s'))"
| later_identify:
    "later s s' \<Longrightarrow> later s (fst (identifyUncertainTransactions s' predictions transactions biometrics))"
| later_tick: "later s s' \<Longrightarrow> later s (updateModelPerformance r (processUpdateQueue now s'))"

text \<open>The transaction ids that have a feedback record, and those that await review.\<close>

definition historyIds :: "FeedbackSystem \<Rightarrow> string set" where
  "historyIds s = fst ` set (feedbackHistory s)"

definition pendingIds :: "FeedbackSystem \<Rightarrow> string set" where
  "pendingIds s = fst ` set (pendingReviews s)"

section \<open>Graph construction (data-ingestion.ts)\<close>

datatype NodeType = type_user | type_device | type_merchant | type_location

text \<open>The four shapes of \<open>properties\<close> that \<open>buildTransactionGraph\<close> writes.\<close>

datatype NodeProperties =
    UserProperties string
  | MerchantProperties string string
  | DeviceProperties string
  | LocationProperties Location

record GraphNode =
  node_id :: string
  node_type :: NodeType
  properties :: NodeProperties

record GraphEdge =
  source :: string
  target :: string
  edge_type :: string
  weight :: real
  edge_timestamp :: "Date option"

record Graph =
  nodes :: "GraphNode list"
  edges :: "GraphEdge list"

definition locationId :: "TransactionData \<Rightarrow> string" where
  "locationId tx = city (location tx) @ ''_'' @ country (location tx)"

definition userNode :: "TransactionData \<Rightarrow> GraphNode" where
  "userNode tx =
     \<lparr> node_id = tx_userId tx, node_type = type_user, properties = UserProperties (tx_userId tx) \<rparr>"

definition merchantNode :: "TransactionData \<Rightarrow> GraphNode" where
  "merchantNode tx =
     \<lparr> node_id = m_id (merchant tx), node_type = type_merchant,
       properties = MerchantProperties (m_name (merchant tx)) (category (merchant tx)) \<rparr>"

definition deviceNode :: "TransactionData \<Rightarrow> GraphNode" where
  "deviceNode tx =
     \<lparr> node_id = deviceId tx, node_type = type_device, properties = DeviceProperties (deviceId tx) \<rparr>"

definition locationNode :: "TransactionData \<Rightarrow> GraphNode" where
  "locationNode tx =
     \<lparr> node_id = locationId tx, node_type = type_location,
       properties = LocationProperties (location tx) \<rparr>"

text \<open>The state of the \<open>forEach\<close>: the two arrays and \<open>nodeMap\<close>.\<close>

record GraphState =
  g_nodes :: "GraphNode list"
  g_edges :: "GraphEdge list"
  nodeMap :: "string \<rightharpoonup> GraphNode"

text \<open>\<open>if (!nodeMap.has(id)) { nodes.push(node); nodeMap.set(id, node) }\<close>\<close>

definition addNode :: "GraphNode \<Rightarrow> GraphState \<Rightarrow> GraphState" where
  "addNode node st =
     (if nodeMap st (node_id node) = None
      then st\<lparr> g_nodes := g_nodes st @ [node], nodeMap := (nodeMap st)(node_id node \<mapsto> node) \<rparr>
      else st)"

definition txNodes :: "TransactionData \<Rightarrow> GraphNode list" where
  "txNodes tx = [userNode tx, merchantNode tx, deviceNode tx, locationNode tx]"

definition txEdges :: "TransactionData \<Rightarrow> GraphEdge list" where
  "txEdges tx =
     [ \<lparr> source = tx_userId tx, target = m_id (merchant tx), edge_type = ''transacted_with'',
         weight = amount tx, edge_timestamp = tx_timestamp tx \<rparr>,
       \<lparr> source = tx_userId tx, target = deviceId tx, edge_type = ''used_device'',
         weight = 1, edge_timestamp = tx_timestamp tx \<rparr>,
       \<lparr> source = deviceId tx, target = locationId tx, edge_type = ''located_at'',
         weight = 1, edge_timestamp = tx_timestamp tx \<rparr> ]"

definition graphStep :: "GraphState \<Rightarrow> TransactionData \<Rightarrow> GraphState" where
  "graphStep st tx =
     (let st1 = addNode (userNode tx) st;
          st2 = addNode (merchantNode tx) st1;
          st3 = addNode (deviceNode tx) st2;
          st4 = addNode (locationNode tx) st3
      in st4\<lparr> g_edges := g_edges st4 @ txEdges tx \<rparr>)"

definition buildTransactionGraph :: "TransactionData list \<Rightarrow> Graph" where
  "buildTransactionGraph transactions =
     (let st = foldl graphStep \<lparr> g_nodes = [], g_edges = [], nodeMap = Map.empty \<rparr> transactions
      in \<lparr> nodes = g_nodes st, edges = g_edges st \<rparr>)"

text \<open>
  The transactions agree on their nodes: any two nodes they give rise to that have the
  same id are the same node.
\<close>

definition agreeOnNodes :: "TransactionData list \<Rightarrow> bool" where
  "agreeOnNodes transactions =
     (let candidates = concat (map txNodes transactions)
      in list_all (\<lambda>a. list_all (\<lambda>b. node_id a = node_id b \<longrightarrow> a = b) candidates) candidates)"

text \<open>The ids in \<open>nodeMap\<close> are the ids of the nodes pushed so far.\<close>

definition graphInv :: "GraphState \<Rightarrow> bool" where
  "graphInv st = (dom (nodeMap st) = node_id ` set (g_nodes st))"

section \<open>Behavioural biometrics (biometrics-processor.ts)\<close>

text \<open>
  Profile fields that \<open>updateUserProfile\<close> assigns hold computed numbers (\<open>jsnum\<close>); the
  fields that are only ever written by \<open>generateBaselineProfile\<close> are finite.
\<close>

record KeystrokeProfile =
  avgDwellTime :: jsnum
  avgFlightTime :: jsnum
  dwellTimeVariance :: real
  flightTimeVariance :: real
  typingRhythm :: "real list"
  preferredTypingSpeed :: jsnum
  keyPressurePattern :: "real list"

record MouseProfile =
  avgVelocity :: jsnum
  avgAcceleration :: jsnum
  clickRhythm :: "real list"
  movementPattern :: MovementPattern
  preferredClickSpeed :: real
  scrollBehavior :: "real list"

datatype Handedness = left_handed | right_handed | ambidextrous

record DeviceProfile =
  orientationPreference :: real
  accelerometerBaseline :: "jsnum list"
  gyroscopeBaseline :: "jsnum list"
  deviceStability :: real
  handedness :: Handedness

record BiometricProfile =
  prof_userId :: string
  keystrokeProfile :: KeystrokeProfile
  mouseProfile :: MouseProfile
  deviceProfile :: DeviceProfile
  sessionCount :: int
  prof_lastUpdated :: Date
  prof_confidence :: real

datatype AnomalyType = keystroke | mouse | device | session

record BiometricAnomaly =
  an_type :: AnomalyType
  severity :: Severity
  description :: AnomalyDescription
  an_confidence :: jsnum
  deviationScore :: jsnum

record BiometricsProcessor =
  userProfiles :: "string \<rightharpoonup> BiometricProfile"
  sessionData :: "string \<rightharpoonup> BiometricData list"

text \<open>
  \<open>generateBaselineProfile\<close>: \<open>rnd k\<close> is the \<open>k\<close>-th draw of \<open>Math.random\<close> during the
  call, in the order in which the object literal evaluates them.
\<close>

definition generateBaselineProfile :: "string \<Rightarrow> (nat \<Rightarrow> real) \<Rightarrow> Date \<Rightarrow> BiometricProfile" where
  "generateBaselineProfile uid rnd now =
     \<lparr> prof_userId = uid,
       keystrokeProfile =
         \<lparr> avgDwellTime = Num (80 + rnd 0 * 40),
           avgFlightTime = Num (60 + rnd 1 * 30),
           dwellTimeVariance = 15 + rnd 2 * 10,
           flightTimeVariance = 12 + rnd 3 * 8,
           typingRhythm = map rnd [4..<14],
           preferredTypingSpeed = Num (45 + rnd 14 * 35),
           keyPressurePattern = map rnd [15..<20] \<rparr>,
       mouseProfile =
         \<lparr> avgVelocity = Num (300 + rnd 20 * 200),
           avgAcceleration = Num (150 + rnd 21 * 100),
           clickRhythm = map (\<lambda>k. rnd k * 200 + 100) [22..<27],
           movementPattern = (if rnd 27 > 0.5 then smooth else jerky),
           preferredClickSpeed = 200 + rnd 28 * 100,
           scrollBehavior = map rnd [29..<32] \<rparr>,
       deviceProfile =
         \<lparr> orientationPreference = rnd 32 * 360,
           accelerometerBaseline = map (\<lambda>k. Num (rnd k * 0.2 - 0.1)) [33..<36],
           gyroscopeBaseline = map (\<lambda>k. Num (rnd k * 10 - 5)) [36..<39],
           deviceStability = rnd 39 * 0.5 + 0.5,
           handedness = (if rnd 40 > 0.8 then left_handed else right_handed) \<rparr>,
       sessionCount = \<lfloor>rnd 41 * 100\<rfloor> + 50,
       prof_lastUpdated = now,
       prof_confidence = 0.8 + rnd 42 * 0.2 \<rparr>"

text \<open>\<open>Math.abs(observed - baseline) / baseline\<close>, the deviation the analyses compute.\<close>

definition relativeDeviation :: "jsnum \<Rightarrow> jsnum \<Rightarrow> jsnum" where
  "relativeDeviation observed baseline = jsdiv (jsabs (jssub observed baseline)) baseline"

text \<open>The anomaly that the keystroke and mouse analyses push for a deviation over its threshold.\<close>

definition deviationAnomaly ::
  "AnomalyType \<Rightarrow> jsnum \<Rightarrow> real \<Rightarrow> real \<Rightarrow> AnomalyDescription \<Rightarrow> BiometricAnomaly list" where
  "deviationAnomaly ty deviation threshold highThreshold descr =
     (if jsgt deviation (Num threshold)
      then [\<lparr> an_type = ty,
              severity = (if jsgt deviation (Num highThreshold) then high else medium),
              description = descr,
              an_confidence = jsmin (Num 0.95) deviation,
              deviationScore = deviation \<rparr>]
      else [])"

definition keystrokeAnomalies :: "KeystrokeDynamics \<Rightarrow> KeystrokeProfile \<Rightarrow> BiometricAnomaly list" where
  "keystrokeAnomalies ks kp =
     (let avgDwell = average (dwellTimes ks);
          avgFlight = average (flightTimes ks);
          dwellTimeDeviation = relativeDeviation avgDwell (avgDwellTime kp);
          flightTimeDeviation = relativeDeviation avgFlight (avgFlightTime kp);
          typingSpeedDeviation = relativeDeviation (Num (typingSpeed ks)) (preferredTypingSpeed kp)
      in deviationAnomaly keystroke dwellTimeDeviation 0.4 0.7
           (UnusualKeyDwellTime avgDwell (avgDwellTime kp))
         @ deviationAnomaly keystroke flightTimeDeviation 0.4 0.7
           (UnusualKeyFlightTime avgFlight (avgFlightTime kp))
         @ deviationAnomaly keystroke typingSpeedDeviation 0.5 0.8
           (UnusualTypingSpeed (typingSpeed ks) (preferredTypingSpeed kp)))"

definition analyzeKeystrokeDynamics :: "BiometricData \<Rightarrow> BiometricProfile \<Rightarrow> error + BiometricAnomaly list" where
  "analyzeKeystrokeDynamics data profile =
     (case keystrokeDynamics data of
        None \<Rightarrow> Inl TypeError
      | Some ks \<Rightarrow> Inr (keystrokeAnomalies ks (keystrokeProfile profile)))"

definition calculateVariance :: "real list \<Rightarrow> jsnum" where
  "calculateVariance values =
     (let mean = average values;
          squaredDiffs = map (\<lambda>v. jsmul (jssub (Num v) mean) (jssub (Num v) mean)) values
      in jsdiv (foldl jsadd (Num 0) squaredDiffs) (Num (real (length values))))"

definition classifyMovementPattern :: "real list \<Rightarrow> real list \<Rightarrow> MovementPattern" where
  "classifyMovementPattern vel acc =
     (let velocityVariance = calculateVariance vel;
          accelerationVariance = calculateVariance acc
      in if jslt velocityVariance (Num 50000) \<and> jslt accelerationVariance (Num 25000) then smooth
         else if jsgt velocityVariance (Num 150000) \<or> jsgt accelerationVariance (Num 75000) then jerky
         else mixed)"

text \<open>\<open>clickDeviation\<close> is computed by the source and never read.\<close>

definition clickDeviation :: "MouseMovements \<Rightarrow> MouseProfile \<Rightarrow> jsnum" where
  "clickDeviation ms mp =
     relativeDeviation (average (clickPatterns ms)) (Num (preferredClickSpeed mp))"

definition mouseAnomalies :: "MouseMovements \<Rightarrow> MouseProfile \<Rightarrow> BiometricAnomaly list" where
  "mouseAnomalies ms mp =
     (let avgVel = average (velocity ms);
          avgAcc = average (acceleration ms);
          velocityDeviation = relativeDeviation avgVel (avgVelocity mp);
          accelerationDeviation = relativeDeviation avgAcc (avgAcceleration mp);
          currentPattern = classifyMovementPattern (velocity ms) (acceleration ms)
      in deviationAnomaly mouse velocityDeviation 0.5 0.8 (UnusualMouseVelocity avgVel (avgVelocity mp))
         @ deviationAnomaly mouse accelerationDeviation 0.5 0.8 UnusualMouseAcceleration
         @ (if currentPattern \<noteq> movementPattern mp
            then [\<lparr> an_type = mouse, severity = medium,
                    description = MovementPatternChanged (movementPattern mp) currentPattern,
                    an_confidence = Num 0.7, deviationScore = Num 0.6 \<rparr>]
            else []))"

definition analyzeMouseMovements :: "BiometricData \<Rightarrow> BiometricProfile \<Rightarrow> error + BiometricAnomaly list" where
  "analyzeMouseMovements data profile =
     (case mouseMovements data of
        None \<Rightarrow> Inl TypeError
      | Some ms \<Rightarrow> Inr (mouseAnomalies ms (mouseProfile profile)))"

definition calculateVectorDeviation :: "real list \<Rightarrow> jsnum list \<Rightarrow> jsnum" where
  "calculateVectorDeviation current baseline =
     (if length current \<noteq> length baseline then Num 1
      else
        let sumSquaredDiff =
              foldl (\<lambda>sum (val, b). jsadd sum (jsmul (jssub (Num val) b) (jssub (Num val) b)))
                (Num 0) (zip current baseline)
        in jssqrt (jsdiv sumSquaredDiff (Num (real (length current)))))"

definition orientationDeviation :: "DeviceSensors \<Rightarrow> DeviceProfile \<Rightarrow> real" where
  "orientationDeviation ds dp = \<bar>orientation ds - orientationPreference dp\<bar> / 360"

definition deviceAnomalies :: "DeviceSensors \<Rightarrow> DeviceProfile \<Rightarrow> BiometricAnomaly list" where
  "deviceAnomalies ds dp =
     (let accelDeviation = calculateVectorDeviation (accelerometer ds) (accelerometerBaseline dp);
          gyroDeviation = calculateVectorDeviation (gyroscope ds) (gyroscopeBaseline dp)
      in deviationAnomaly device accelDeviation 0.5 0.8 UnusualDeviceMovement
         @ deviationAnomaly device gyroDeviation 0.5 0.8 UnusualDeviceRotation
         @ (if orientationDeviation ds dp > 0.3
            then [\<lparr> an_type = device, severity = low, description = OrientationDiffers,
                    an_confidence = Num 0.6, deviationScore = Num (orientationDeviation ds dp) \<rparr>]
            else []))"

definition analyzeDeviceSensors :: "BiometricData \<Rightarrow> BiometricProfile \<Rightarrow> error + BiometricAnomaly list" where
  "analyzeDeviceSensors data profile =
     (case deviceSensors data of
        None \<Rightarrow> Inl TypeError
      | Some ds \<Rightarrow> Inr (deviceAnomalies ds (deviceProfile profile)))"

text \<open>
  Array reads and writes as JavaScript does them: a read past the end is \<open>undefined\<close>,
  which is NaN in arithmetic; a write past the end extends the array (the holes it may
  leave read as \<open>undefined\<close> too).
\<close>

definition readSample :: "real list \<Rightarrow> nat \<Rightarrow> jsnum" where
  "readSample xs i = (if i < length xs then Num (xs ! i) else NaN)"

definition readBaseline :: "jsnum list \<Rightarrow> nat \<Rightarrow> jsnum" where
  "readBaseline xs i = (if i < length xs then xs ! i else NaN)"

definition writeBaseline :: "jsnum list \<Rightarrow> nat \<Rightarrow> jsnum \<Rightarrow> jsnum list" where
  "writeBaseline xs i v =
     (if i < length xs then xs[i := v] else xs @ replicate (i - length xs) NaN @ [v])"

text \<open>The exponential moving average \<open>(1 - alpha) * old + alpha * observed\<close>.\<close>

definition ema :: "real \<Rightarrow> jsnum \<Rightarrow> jsnum \<Rightarrow> jsnum" where
  "ema alpha old observed = jsadd (jsmul (Num (1 - alpha)) old) (jsmul (Num alpha) observed)"

definition emaVector :: "real \<Rightarrow> jsnum list \<Rightarrow> real list \<Rightarrow> jsnum list" where
  "emaVector alpha baseline current =
     foldl (\<lambda>b i. writeBaseline b i (ema alpha (readBaseline b i) (readSample current i)))
       baseline [0..<3]"

text \<open>
  \<open>updateUserProfile\<close>, on the three groups of the sample (the caller has read them
  already, so they are there).
\<close>

definition updateUserProfile ::
  "KeystrokeDynamics \<Rightarrow> MouseMovements \<Rightarrow> DeviceSensors \<Rightarrow> Date \<Rightarrow> BiometricProfile \<Rightarrow> BiometricProfile" where
  "updateUserProfile ks ms ds now profile =
     (let alpha = 0.1;
          kp = keystrokeProfile profile;
          mp = mouseProfile profile;
          dp = deviceProfile profile
      in profile
           \<lparr> keystrokeProfile :=
               kp\<lparr> avgDwellTime := ema alpha (avgDwellTime kp) (average (dwellTimes ks)),
                   avgFlightTime := ema alpha (avgFlightTime kp) (average (flightTimes ks)),
                   preferredTypingSpeed := ema alpha (preferredTypingSpeed kp) (Num (typingSpeed ks)) \<rparr>,
             mouseProfile :=
               mp\<lparr> avgVelocity := ema alpha (avgVelocity mp) (average (velocity ms)),
                   avgAcceleration := ema alpha (avgAcceleration mp) (average (acceleration ms)) \<rparr>,
             deviceProfile :=
               dp\<lparr> accelerometerBaseline := emaVector alpha (accelerometerBaseline dp) (accelerometer ds),
                   gyroscopeBaseline := emaVector alpha (gyroscopeBaseline dp) (gyroscope ds) \<rparr>,
             sessionCount := sessionCount profile + 1,
             prof_lastUpdated := now,
             prof_confidence := min 0.95 (prof_confidence profile + 0.01) \<rparr>)"

text \<open>The profile the analyses of a sample run against: the stored one, or a fresh baseline.\<close>

definition profileFor :: "BiometricsProcessor \<Rightarrow> BiometricData \<Rightarrow> (nat \<Rightarrow> real) \<Rightarrow> Date \<Rightarrow> BiometricProfile" where
  "profileFor p data rnd now =
     (case userProfiles p (bio_userId data) of
        None \<Rightarrow> generateBaselineProfile (bio_userId data) rnd now
      | Some profile \<Rightarrow> profile)"

text \<open>
  \<open>processBiometricData\<close>: the processor after the call, and the anomalies or the error
  thrown. The profile object is shared with the map, so the update shows in the map. A
  throw in an analysis comes after the profile was created and the sample logged, and
  before the update; the update runs when the three analyses have read their groups.
\<close>

definition processBiometricData ::
  "BiometricsProcessor \<Rightarrow> BiometricData \<Rightarrow> (nat \<Rightarrow> real) \<Rightarrow> Date \<Rightarrow>
   BiometricsProcessor \<times> (error + BiometricAnomaly list)" where
  "processBiometricData p data rnd now =
     (let userProfile = profileFor p data rnd now;
          p1 = p\<lparr> userProfiles := (userProfiles p)(bio_userId data \<mapsto> userProfile) \<rparr>;
          logged = (case sessionData p1 (sessionId data) of None \<Rightarrow> [] | Some l \<Rightarrow> l);
          p2 = p1\<lparr> sessionData := (sessionData p1)(sessionId data \<mapsto> logged @ [data]) \<rparr>
      in case analyzeKeystrokeDynamics data userProfile of
           Inl e \<Rightarrow> (p2, Inl e)
         | Inr keystrokeFound \<Rightarrow>
            (case analyzeMouseMovements data userProfile of
               Inl e \<Rightarrow> (p2, Inl e)
             | Inr mouseFound \<Rightarrow>
                (case analyzeDeviceSensors data userProfile of
                   Inl e \<Rightarrow> (p2, Inl e)
                 | Inr deviceFound \<Rightarrow>
                     (p2\<lparr> userProfiles := (userProfiles p2)(bio_userId data \<mapsto>
                            updateUserProfile (the (keystrokeDynamics data)) (the (mouseMovements data))
                              (the (deviceSensors data)) now userProfile) \<rparr>,
                      Inr (keystrokeFound @ mouseFound @ deviceFound)))))"

section \<open>Fraud scoring (gnn-model.ts)\<close>

record FraudPrediction =
  pred_transactionId :: string
  pred_fraudProbability :: real
  pred_riskLevel :: RiskLevel
  pred_explanation :: "Explanation list"
  pred_confidence :: real

text \<open>
  \<open>computeFraudScore\<close>. \<open>now\<close> is the clock (\<open>new Date()\<close>) and \<open>noise\<close> the draw of
  \<open>Math.random\<close>. The source also passes a feature vector, built from the transaction,
  the sample and the graph embeddings, which the function never reads: it is left out,
  and with it the embeddings.
\<close>

definition computeFraudScore :: "Date \<Rightarrow> real \<Rightarrow> TransactionData \<Rightarrow> real" where
  "computeFraudScore now noise transaction =
     (let score0 = 0;
          score1 = (if amount transaction > 1000 then score0 + 0.3 else score0);
          score2 = (if amount transaction > 5000 then score1 + 0.4 else score1);
          hour = getHours now;
          score3 = (if hour < 6 \<or> hour > 22 then score2 + 0.2 else score2);
          score4 = (if category (merchant transaction) = ''atm'' \<and> amount transaction > 500
                    then score3 + 0.3 else score3)
      in score4 + noise * 0.2)"

definition generateExplanation :: "Date \<Rightarrow> TransactionData \<Rightarrow> KeystrokeDynamics \<Rightarrow> real \<Rightarrow> Explanation list" where
  "generateExplanation now transaction ks fraudProb =
     (let hour = getHours now;
          explanations =
            (if amount transaction > 1000 then [HighTransactionAmount (amount transaction)] else [])
            @ (if hour < 6 \<or> hour > 22 then [UnusualTime hour] else [])
            @ (if category (merchant transaction) = ''atm'' \<and> amount transaction > 500
               then [LargeATMWithdrawal (amount transaction)] else [])
            @ (if typingSpeed ks < 30 then [UnusualTypingPattern] else [])
      in if fraudProb > 0.5 \<and> length explanations = 0
         then explanations @ [AnomalousBehavioralPatterns]
         else explanations)"

definition riskLevelOf :: "real \<Rightarrow> RiskLevel" where
  "riskLevelOf probability =
     (if probability > 0.7 then high else if probability > 0.4 then medium else low)"

text \<open>
  \<open>predictFraud\<close>. Building the feature vector reads the three groups of the sample and
  throws a TypeError when one is missing. \<open>draw\<close> is the second draw of \<open>Math.random\<close>,
  for the confidence.
\<close>

definition predictFraud ::
  "Date \<Rightarrow> real \<Rightarrow> real \<Rightarrow> TransactionData \<Rightarrow> BiometricData \<Rightarrow> error + FraudPrediction" where
  "predictFraud now noise draw transaction biometric =
     (case (keystrokeDynamics biometric, mouseMovements biometric, deviceSensors biometric) of
        (Some ks, Some ms, Some ds) \<Rightarrow>
          let fraudScore = computeFraudScore now noise transaction;
              fraudProbability = max 0 (min 1 fraudScore)
          in Inr \<lparr> pred_transactionId = tx_id transaction,
                   pred_fraudProbability = fraudProbability,
                   pred_riskLevel = riskLevelOf fraudProbability,
                   pred_explanation = generateExplanation now transaction ks fraudProbability,
                   pred_confidence = draw * 0.3 + 0.7 \<rparr>
      | _ \<Rightarrow> Inl TypeError)"

section \<open>The scoring endpoints\<close>

text \<open>\<open>Math.round(x * 100) / 100\<close>\<close>

definition roundCents :: "real \<Rightarrow> real" where
  "roundCents x = real_of_int \<lfloor>x * 100 + 1 / 2\<rfloor> / 100"

text \<open>The probability adjusted by the anomalies, as both endpoints compute it.\<close>

definition adjustProbability :: "real \<Rightarrow> BiometricAnomaly list \<Rightarrow> real" where
  "adjustProbability probability anomalies =
     (let highSeverityAnomalies = filter (\<lambda>a. severity a = high) anomalies;
          mediumSeverityAnomalies = filter (\<lambda>a. severity a = medium) anomalies
      in min 1 (probability + real (length highSeverityAnomalies) * 0.2
                  + real (length mediumSeverityAnomalies) * 0.1))"

datatype 'a http = BadRequest | InternalServerError | Ok 'a

text \<open>
  The single-transaction endpoint (\<open>POST /api/fraud-detection\<close>). \<open>rnd\<close> are the draws
  for a fresh baseline profile, \<open>noise\<close> and \<open>draw\<close> those of the scorer.
\<close>

definition scoreTransaction ::
  "BiometricsProcessor \<Rightarrow> Date \<Rightarrow> (nat \<Rightarrow> real) \<Rightarrow> real \<Rightarrow> real \<Rightarrow>
   TransactionData option \<Rightarrow> BiometricData option \<Rightarrow> TransactionData list option \<Rightarrow>
   BiometricsProcessor \<times> FraudDetectionResponse http" where
  "scoreTransaction p now rnd noise draw transaction biometric recentTransactions =
     (case (transaction, biometric) of
        (Some tx, Some bio) \<Rightarrow>
          (case processBiometricData p bio rnd now of
             (p', Inl e) \<Rightarrow> (p', InternalServerError)
           | (p', Inr biometricAnomalies) \<Rightarrow>
               let graph = buildTransactionGraph (case recentTransactions of None \<Rightarrow> [] | Some ts \<Rightarrow> ts)
               in (case predictFraud now noise draw tx bio of
                    Inl e \<Rightarrow> (p', InternalServerError)
                  | Inr fraudPrediction \<Rightarrow>
                      let combinedExplanation =
                            pred_explanation fraudPrediction
                            @ map (\<lambda>anomaly. Biometric (description anomaly)) biometricAnomalies;
                          adjustedProbability =
                            adjustProbability (pred_fraudProbability fraudPrediction) biometricAnomalies;
                          finalRiskLevel = riskLevelOf adjustedProbability
                      in (p', Ok \<lparr> resp_transactionId = tx_id tx,
                                   resp_fraudProbability = roundCents adjustedProbability,
                                   resp_riskLevel = finalRiskLevel,
                                   resp_explanation = combinedExplanation,
                                   resp_biometricAnomalies = length biometricAnomalies,
                                   resp_graphNodes = length (nodes graph),
                                   resp_confidence = pred_confidence fraudPrediction \<rparr>)))
      | _ \<Rightarrow> (p, BadRequest))"

text \<open>
  The batch endpoint (\<open>POST /api/fraud-detection/batch\<close>). An item of \<open>results\<close> is an
  object with \<open>transactionId\<close>, \<open>fraudProbability\<close> and \<open>riskLevel\<close>, with \<open>error\<close> for a
  degraded item and with the explanation, the anomaly count and the confidence otherwise.
\<close>

record BatchResult =
  br_transactionId :: string
  br_error :: "string option"
  br_fraudProbability :: real
  br_riskLevel :: RiskLevel
  br_explanation :: "Explanation list option"
  br_biometricAnomalies :: "nat option"
  br_confidence :: "real option"

record BatchSummary =
  totalTransactions :: nat
  highRisk :: nat
  mediumRisk :: nat
  lowRisk :: nat
  errors :: nat

record BatchResponse =
  results :: "BatchResult list"
  summary :: BatchSummary

definition degraded :: "string \<Rightarrow> string \<Rightarrow> BatchResult" where
  "degraded tid message =
     \<lparr> br_transactionId = tid, br_error = Some message, br_fraudProbability = 0.5,
       br_riskLevel = medium, br_explanation = None, br_biometricAnomalies = None,
       br_confidence = None \<rparr>"

text \<open>The callback of \<open>transactions.map\<close> for one transaction and \<open>biometrics?.[index]\<close>.\<close>

definition processItem ::
  "BiometricsProcessor \<Rightarrow> Date \<Rightarrow> (nat \<Rightarrow> real) \<Rightarrow> real \<Rightarrow> real \<Rightarrow>
   TransactionData \<Rightarrow> BiometricData option \<Rightarrow> BiometricsProcessor \<times> BatchResult" where
  "processItem p now rnd noise draw transaction biometric =
     (case biometric of
        None \<Rightarrow> (p, degraded (tx_id transaction) ''Missing biometric data'')
      | Some bio \<Rightarrow>
          (case processBiometricData p bio rnd now of
             (p', Inl e) \<Rightarrow> (p', degraded (tx_id transaction) ''Processing failed'')
           | (p', Inr biometricAnomalies) \<Rightarrow>
              (case predictFraud now noise draw transaction bio of
                 Inl e \<Rightarrow> (p', degraded (tx_id transaction) ''Processing failed'')
               | Inr fraudPrediction \<Rightarrow>
                   let adjustedProbability =
                         adjustProbability (pred_fraudProbability fraudPrediction) biometricAnomalies;
                       finalRiskLevel = riskLevelOf adjustedProbability
                   in (p', \<lparr> br_transactionId = tx_id transaction,
                             br_error = None,
                             br_fraudProbability = roundCents adjustedProbability,
                             br_riskLevel = finalRiskLevel,
                             br_explanation = Some
                               (pred_explanation fraudPrediction
                                @ map (\<lambda>anomaly. Biometric (description anomaly)) biometricAnomalies),
                             br_biometricAnomalies = Some (length biometricAnomalies),
                             br_confidence = Some (pred_confidence fraudPrediction) \<rparr>))))"

text \<open>
  The items in index order. The processor is the only state the items share and each
  item uses it in one synchronous stretch, so running the items one after the other
  gives what \<open>Promise.all\<close> gives. \<open>rnd i\<close>, \<open>noise i\<close> and \<open>draw i\<close> are the random
  draws of item \<open>i\<close>; \<open>biometrics[i]\<close> past the end of the array is \<open>undefined\<close>.
\<close>

definition biometricAt :: "BiometricData option list \<Rightarrow> nat \<Rightarrow> BiometricData option" where
  "biometricAt biometrics i = (if i < length biometrics then biometrics ! i else None)"

fun processItems ::
  "BiometricsProcessor \<Rightarrow> Date \<Rightarrow> (nat \<Rightarrow> nat \<Rightarrow> real) \<Rightarrow> (nat \<Rightarrow> real) \<Rightarrow> (nat \<Rightarrow> real) \<Rightarrow>
   BiometricData option list \<Rightarrow> nat \<Rightarrow> TransactionData list \<Rightarrow> BiometricsProcessor \<times> BatchResult list" where
  "processItems p now rnd noise draw biometrics i [] = (p, [])"
| "processItems p now rnd noise draw biometrics i (transaction # rest) =
     (let (p', result) =
            processItem p now (rnd i) (noise i) (draw i) transaction (biometricAt biometrics i);
          (p'', others) = processItems p' now rnd noise draw biometrics (i + 1) rest
      in (p'', result # others))"

text \<open>
  What the \<open>try\<close> block of an item does: whether one of its two steps throws, and the
  processor as item \<open>k\<close> of a batch finds it.
\<close>

definition processingThrows ::
  "BiometricsProcessor \<Rightarrow> Date \<Rightarrow> (nat \<Rightarrow> real) \<Rightarrow> real \<Rightarrow> real \<Rightarrow>
   TransactionData \<Rightarrow> BiometricData \<Rightarrow> bool" where
  "processingThrows p now rnd noise draw transaction bio =
     (case snd (processBiometricData p bio rnd now) of
        Inl e \<Rightarrow> True
      | Inr biometricAnomalies \<Rightarrow>
          (case predictFraud now noise draw transaction bio of Inl e \<Rightarrow> True | Inr pr \<Rightarrow> False))"

definition processorBefore ::
  "BiometricsProcessor \<Rightarrow> Date \<Rightarrow> (nat \<Rightarrow> nat \<Rightarrow> real) \<Rightarrow> (nat \<Rightarrow> real) \<Rightarrow> (nat \<Rightarrow> real) \<Rightarrow>
   BiometricData option list \<Rightarrow> TransactionData list \<Rightarrow> nat \<Rightarrow> BiometricsProcessor" where
  "processorBefore p now rnd noise draw biometrics txs k =
     fst (processItems p now rnd noise draw biometrics 0 (take k txs))"

definition summarize :: "nat \<Rightarrow> BatchResult list \<Rightarrow> BatchSummary" where
  "summarize n rs =
     \<lparr> totalTransactions = n,
       highRisk = length (filter (\<lambda>r. br_riskLevel r = high) rs),
       mediumRisk = length (filter (\<lambda>r. br_riskLevel r = medium) rs),
       lowRisk = length (filter (\<lambda>r. br_riskLevel r = low) rs),
       errors = length (filter (\<lambda>r. \<not> falsy (br_error r)) rs) \<rparr>"

definition scoreBatch ::
  "BiometricsProcessor \<Rightarrow> Date \<Rightarrow> (nat \<Rightarrow> nat \<Rightarrow> real) \<Rightarrow> (nat \<Rightarrow> real) \<Rightarrow> (nat \<Rightarrow> real) \<Rightarrow>
   TransactionData list option \<Rightarrow> BiometricData option list \<Rightarrow> TransactionData list option \<Rightarrow>
   BiometricsProcessor \<times> BatchResponse http" where
  "scoreBatch p now rnd noise draw transactions biometrics recentTransactions =
     (case transactions of
        None \<Rightarrow> (p, BadRequest)
      | Some txs \<Rightarrow>
          if length txs = 0 then (p, BadRequest)
          else
            let allTransactions = (case recentTransactions of None \<Rightarrow> [] | Some ts \<Rightarrow> ts) @ txs;
                graph = buildTransactionGraph allTransactions;
                (p', rs) = processItems p now rnd noise draw biometrics 0 txs
            in (p', Ok \<lparr> results = rs, summary = summarize (length txs) rs \<rparr>))"

text \<open>
  For stating what \<open>calculateVectorDeviation\<close> computes on finite vectors: the sum of the
  squared differences of the components.
\<close>

definition squaredDistance :: "real list \<Rightarrow> real list \<Rightarrow> real" where
  "squaredDistance current baseline = (\<Sum>(c, b) \<leftarrow> zip current baseline. (c - b) * (c - b))"

text \<open>
  The device deviations as the specification words them, for comparison with the code: a
  deviation relative to the baseline (\<open>|observed - baseline| / baseline\<close> per component,
  combined as a root mean square), and a circular orientation deviation (the shorter way
  round the circle, normalized by 360).
\<close>

definition spec_relativeRmsDeviation :: "real list \<Rightarrow> real list \<Rightarrow> real" where
  "spec_relativeRmsDeviation current baseline =
     sqrt ((\<Sum>(c, b) \<leftarrow> zip current baseline. (\<bar>c - b\<bar> / b) * (\<bar>c - b\<bar> / b)) / real (length current))"

definition spec_circularDeviation :: "real \<Rightarrow> real \<Rightarrow> real" where
  "spec_circularDeviation observed preference =
     (let d = \<bar>observed - preference\<bar> in min d (360 - d)) / 360"

text \<open>
  For stating which numbers are well defined: \<open>isFinite\<close> (as \<open>Number.isFinite\<close>), a
  profile whose baselines are finite and whose divisors are not zero, the numbers that
  \<open>updateUserProfile\<close> stores, and the numbers the analyses of a sample compute.
\<close>

fun isFinite :: "jsnum \<Rightarrow> bool" where
  "isFinite (Num a) = True"
| "isFinite x = False"

definition finiteNonzero :: "jsnum \<Rightarrow> bool" where
  "finiteNonzero x = (isFinite x \<and> x \<noteq> Num 0)"

definition soundProfile :: "BiometricProfile \<Rightarrow> bool" where
  "soundProfile profile =
     (finiteNonzero (avgDwellTime (keystrokeProfile profile))
      \<and> finiteNonzero (avgFlightTime (keystrokeProfile profile))
      \<and> finiteNonzero (preferredTypingSpeed (keystrokeProfile profile))
      \<and> finiteNonzero (avgVelocity (mouseProfile profile))
      \<and> finiteNonzero (avgAcceleration (mouseProfile profile))
      \<and> preferredClickSpeed (mouseProfile profile) \<noteq> 0
      \<and> 3 \<le> length (accelerometerBaseline (deviceProfile profile))
      \<and> list_all isFinite (accelerometerBaseline (deviceProfile profile))
      \<and> 3 \<le> length (gyroscopeBaseline (deviceProfile profile))
      \<and> list_all isFinite (gyroscopeBaseline (deviceProfile profile)))"

definition storedNumbers :: "BiometricProfile \<Rightarrow> jsnum list" where
  "storedNumbers profile =
     [avgDwellTime (keystrokeProfile profile), avgFlightTime (keystrokeProfile profile),
      preferredTypingSpeed (keystrokeProfile profile), avgVelocity (mouseProfile profile),
      avgAcceleration (mouseProfile profile)]
     @ accelerometerBaseline (deviceProfile profile) @ gyroscopeBaseline (deviceProfile profile)"

definition sessionNumbers :: "KeystrokeDynamics \<Rightarrow> MouseMovements \<Rightarrow> DeviceSensors \<Rightarrow> BiometricProfile \<Rightarrow> jsnum list" where
  "sessionNumbers ks ms ds profile =
     [average (dwellTimes ks), average (flightTimes ks),
      average (velocity ms), average (acceleration ms), average (clickPatterns ms),
      calculateVariance (velocity ms), calculateVariance (acceleration ms),
      relativeDeviation (average (dwellTimes ks)) (avgDwellTime (keystrokeProfile profile)),
      relativeDeviation (average (flightTimes ks)) (avgFlightTime (keystrokeProfile profile)),
      relativeDeviation (Num (typingSpeed ks)) (preferredTypingSpeed (keystrokeProfile profile)),
      relativeDeviation (average (velocity ms)) (avgVelocity (mouseProfile profile)),
      relativeDeviation (average (acceleration ms)) (avgAcceleration (mouseProfile profile)),
      clickDeviation ms (mouseProfile profile),
      calculateVectorDeviation (accelerometer ds) (accelerometerBaseline (deviceProfile profile)),
      calculateVectorDeviation (gyroscope ds) (gyroscopeBaseline (deviceProfile profile)),
      Num (orientationDeviation ds (deviceProfile profile))]"

section \<open>Example inputs\<close>

definition exampleFeedback :: FeedbackData where
  "exampleFeedback =
     \<lparr> fb_transactionId = Some ''txn_1'', actualLabel = Some fraud, fb_confidence = 0.95,
       reviewerId = Some ''analyst_001'', reviewTimestamp = Some 0, fb_notes = None,
       evidenceType = bank_confirmation \<rparr>"

definition exampleTransaction :: TransactionData where
  "exampleTransaction =
     \<lparr> tx_id = ''txn_2'', tx_userId = ''user_001'', amount = 6000, tx_timestamp = Some 7200000,
       location = \<lparr> lat = 40.7128, lng = -74.006, country = ''US'', city = ''New York'' \<rparr>,
       merchant = \<lparr> m_id = ''merch_005'', m_name = ''ATM_001'', category = ''atm'' \<rparr>,
       deviceId = ''device_1'', paymentMethod = ''debit_card'' \<rparr>"

definition examplePrediction :: FraudDetectionResponse where
  "examplePrediction =
     \<lparr> resp_transactionId = ''txn_2'', resp_fraudProbability = 0.5, resp_riskLevel = medium,
       resp_explanation = [HighTransactionAmount 6000, LargeATMWithdrawal 6000],
       resp_biometricAnomalies = 0, resp_graphNodes = 4, resp_confidence = 0.8 \<rparr>"

definition renamedMerchant :: TransactionData where
  "renamedMerchant =
     exampleTransaction\<lparr> tx_id := ''txn_3'',
       merchant := \<lparr> m_id = ''merch_005'', m_name = ''ATM_002'', category = ''atm'' \<rparr> \<rparr>"

definition otherTransaction :: TransactionData where
  "otherTransaction =
     \<lparr> tx_id = ''txn_4'', tx_userId = ''user_002'', amount = 25, tx_timestamp = Some 50400000,
       location = \<lparr> lat = 41.8781, lng = -87.6298, country = ''US'', city = ''Chicago'' \<rparr>,
       merchant = \<lparr> m_id = ''merch_002'', m_name = ''Starbucks'', category = ''food'' \<rparr>,
       deviceId = ''device_1'', paymentMethod = ''credit_card'' \<rparr>"

definition exampleProfile :: BiometricProfile where
  "exampleProfile =
     \<lparr> prof_userId = ''user_001'',
       keystrokeProfile =
         \<lparr> avgDwellTime = Num 100, avgFlightTime = Num 80, dwellTimeVariance = 20,
           flightTimeVariance = 15, typingRhythm = replicate 10 (1 / 2),
           preferredTypingSpeed = Num 60, keyPressurePattern = replicate 5 (1 / 2) \<rparr>,
       mouseProfile =
         \<lparr> avgVelocity = Num 400, avgAcceleration = Num 200, clickRhythm = replicate 5 200,
           movementPattern = smooth, preferredClickSpeed = 250, scrollBehavior = replicate 3 (1 / 2) \<rparr>,
       deviceProfile =
         \<lparr> orientationPreference = 90,
           accelerometerBaseline = [Num 0, Num 0, Num 0],
           gyroscopeBaseline = [Num 0, Num 0, Num 0],
           deviceStability = 0.8, handedness = right_handed \<rparr>,
       sessionCount = 60, prof_lastUpdated = 0, prof_confidence = 0.9 \<rparr>"

definition exampleKeystrokes :: KeystrokeDynamics where
  "exampleKeystrokes = \<lparr> dwellTimes = [90, 110], flightTimes = [80], typingSpeed = 60 \<rparr>"

definition exampleMouse :: MouseMovements where
  "exampleMouse = \<lparr> velocity = [400, 400], acceleration = [200, 200], clickPatterns = [250] \<rparr>"

definition exampleSensors :: DeviceSensors where
  "exampleSensors = \<lparr> accelerometer = [0, 0, 0], gyroscope = [0, 0, 0], orientation = 90 \<rparr>"

definition exampleSample :: BiometricData where
  "exampleSample =
     \<lparr> sessionId = ''session_1'', bio_userId = ''user_001'',
       keystrokeDynamics = Some exampleKeystrokes,
       mouseMovements = Some exampleMouse,
       deviceSensors = Some exampleSensors,
       bio_timestamp = 0 \<rparr>"

definition exampleProcessor :: BiometricsProcessor where
  "exampleProcessor =
     \<lparr> userProfiles = [''user_001'' \<mapsto> exampleProfile], sessionData = Map.empty \<rparr>"

definition retailTransaction :: TransactionData where
  "retailTransaction =
     \<lparr> tx_id = ''txn_5'', tx_userId = ''user_001'', amount = 6000, tx_timestamp = Some 43200000,
       location = \<lparr> lat = 34.0522, lng = -118.2437, country = ''US'', city = ''Los Angeles'' \<rparr>,
       merchant = \<lparr> m_id = ''merch_001'', m_name = ''Amazon'', category = ''retail'' \<rparr>,
       deviceId = ''device_2'', paymentMethod = ''credit_card'' \<rparr>"

definition brokenSample :: BiometricData where
  "brokenSample = exampleSample\<lparr> mouseMovements := None \<rparr>"

definition tiltedSensors :: DeviceSensors where
  "tiltedSensors = \<lparr> accelerometer = [1, 1, 1], gyroscope = [0, 0, 0], orientation = 90 \<rparr>"

definition driftSample :: BiometricData where
  "driftSample =
     exampleSample
       \<lparr> keystrokeDynamics := Some \<lparr> dwellTimes = [200, 200], flightTimes = [80], typingSpeed = 60 \<rparr>,
         mouseMovements := Some \<lparr> velocity = [400, 400], acceleration = [200, 200], clickPatterns = [350] \<rparr>,
         deviceSensors := Some \<lparr> accelerometer = [0, 0, 0], gyroscope = [0, 0, 0], orientation = 180 \<rparr> \<rparr>"

definition emptyKeystrokes :: KeystrokeDynamics where
  "emptyKeystrokes = \<lparr> dwellTimes = [], flightTimes = [], typingSpeed = 60 \<rparr>"

definition emptyMouse :: MouseMovements where
  "emptyMouse = \<lparr> velocity = [], acceleration = [], clickPatterns = [] \<rparr>"

text \<open>
  Feedback as the route delivers it, parsed from a request body: \<open>reviewTimestamp\<close> is
  not a \<open>Date\<close>.
\<close>

definition jsonRecord :: "string \<Rightarrow> FeedbackData" where
  "jsonRecord tid =
     \<lparr> fb_transactionId = Some tid, actualLabel = Some legitimate, fb_confidence = 0.8,
       reviewerId = Some ''analyst_001'', reviewTimestamp = None, fb_notes = None,
       evidenceType = manual_review \<rparr>"

definition jsonBatch :: "FeedbackData list" where
  "jsonBatch = map jsonRecord [''txn_1'', ''txn_2'', ''txn_3'', ''txn_4'', ''txn_5'']"

section \<open>Feedback: validation and storage\<close>

lemma recentFeedback_result:
  "recentFeedback now fs
   = (if list_all (\<lambda>f. reviewTimestamp f \<noteq> None) fs
      then Inr (filter (\<lambda>f. now - the (reviewTimestamp f) < 3600000) fs)
      else Inl TypeError)"
  by (induction fs) (auto split: option.splits)

lemma shouldTriggerImmediateUpdate_result:
  "shouldTriggerImmediateUpdate now feedback s = Inl e
   \<longleftrightarrow> e = TypeError
       \<and> \<not> (fb_confidence feedback > 0.9 \<and> evidenceType feedback = bank_confirmation)
       \<and> \<not> list_all (\<lambda>f. reviewTimestamp f \<noteq> None) (map snd (feedbackHistory s))"
  by (auto simp: shouldTriggerImmediateUpdate_def recentFeedback_result)

text \<open>The state after a call that passes the validation, whether it returns or throws.\<close>

lemma submitFeedback_state:
  "\<not> missingRequiredFields feedback \<Longrightarrow>
   feedbackHistory (fst (submitFeedback now feedback s))
     = AList.update (the (fb_transactionId feedback)) feedback (feedbackHistory s)
   \<and> pendingReviews (fst (submitFeedback now feedback s))
     = AList.delete (the (fb_transactionId feedback)) (pendingReviews s)
   \<and> reviewerWorkload (fst (submitFeedback now feedback s))
     = AList.update (the (reviewerId feedback))
         (workloadOf (reviewerWorkload s) (the (reviewerId feedback)) + 1) (reviewerWorkload s)"
  by (simp add: submitFeedback_def Let_def queueModelUpdate_def split: sum.splits)

lemma submitFeedback_result:
  "\<not> missingRequiredFields feedback \<Longrightarrow>
   snd (submitFeedback now feedback s)
   = (if fb_confidence feedback > 0.9 \<and> evidenceType feedback = bank_confirmation
         \<or> list_all (\<lambda>f. reviewTimestamp f \<noteq> None)
              (map snd (AList.update (the (fb_transactionId feedback)) feedback (feedbackHistory s)))
      then Inr () else Inl TypeError)"
  by (auto simp: submitFeedback_def Let_def shouldTriggerImmediateUpdate_def recentFeedback_result)

text \<open>
  C3. \<open>submitFeedback\<close> throws the invalid-feedback error when \<open>transactionId\<close>,
  \<open>actualLabel\<close> or \<open>reviewerId\<close> is missing (for the two strings the source's test
  \<open>!x\<close> also takes the empty string as missing), and then the whole state (history,
  pending reviews, workload counters, update queue) is as before. Otherwise the history
  maps the id to the new record (replacing an earlier one), the id is no longer pending,
  the reviewer's counter is one higher and no other counter moves. The call then returns,
  except when it goes on to read the timestamps of the stored records (the record is not
  bank-confirmed with confidence above 0.9) and one of them is not a \<open>Date\<close>: then it
  throws a TypeError, with the three writes done.
\<close>

theorem submitFeedback_contract:
  "(missingRequiredFields feedback \<longrightarrow> submitFeedback now feedback s = (s, Inl InvalidFeedback))
   \<and> (\<not> missingRequiredFields feedback \<longrightarrow>
        (\<exists>tid rid s'. fb_transactionId feedback = Some tid \<and> reviewerId feedback = Some rid
           \<and> fst (submitFeedback now feedback s) = s'
           \<and> map_of (feedbackHistory s') = (map_of (feedbackHistory s))(tid \<mapsto> feedback)
           \<and> map_of (pendingReviews s') = (map_of (pendingReviews s))(tid := None)
           \<and> workloadOf (reviewerWorkload s') rid = workloadOf (reviewerWorkload s) rid + 1
           \<and> (\<forall>other. other \<noteq> rid \<longrightarrow>
                 workloadOf (reviewerWorkload s') other = workloadOf (reviewerWorkload s) other)
           \<and> snd (submitFeedback now feedback s)
               = (if fb_confidence feedback > 0.9 \<and> evidenceType feedback = bank_confirmation
                     \<or> list_all (\<lambda>f. reviewTimestamp f \<noteq> None) (map snd (feedbackHistory s'))
                  then Inr () else Inl TypeError)))"
proof (intro conjI impI)
  assume "missingRequiredFields feedback"
  then show "submitFeedback now feedback s = (s, Inl InvalidFeedback)"
    by (simp add: submitFeedback_def)
next
  assume v: "\<not> missingRequiredFields feedback"
  then obtain tid rid where ids: "fb_transactionId feedback = Some tid" "reviewerId feedback = Some rid"
    by (auto simp: missingRequiredFields_def falsy_def split: option.splits)
  let ?s' = "fst (submitFeedback now feedback s)"
  have st: "feedbackHistory ?s' = AList.update tid feedback (feedbackHistory s)"
      "pendingReviews ?s' = AList.delete tid (pendingReviews s)"
      "reviewerWorkload ?s' = AList.update rid (workloadOf (reviewerWorkload s) rid + 1) (reviewerWorkload s)"
    using submitFeedback_state [OF v, of now s] ids by simp_all
  have r: "snd (submitFeedback now feedback s)
           = (if fb_confidence feedback > 0.9 \<and> evidenceType feedback = bank_confirmation
                 \<or> list_all (\<lambda>f. reviewTimestamp f \<noteq> None) (map snd (feedbackHistory ?s'))
              then Inr () else Inl TypeError)"
    using submitFeedback_result [OF v, of now s] ids st(1) by simp
  have "map_of (feedbackHistory ?s') = (map_of (feedbackHistory s))(tid \<mapsto> feedback)
        \<and> map_of (pendingReviews ?s') = (map_of (pendingReviews s))(tid := None)
        \<and> workloadOf (reviewerWorkload ?s') rid = workloadOf (reviewerWorkload s) rid + 1
        \<and> (\<forall>other. other \<noteq> rid \<longrightarrow>
              workloadOf (reviewerWorkload ?s') other = workloadOf (reviewerWorkload s) other)"
    by (simp add: st workloadOf_def update_conv' delete_conv')
  then show "\<exists>tid rid s'. fb_transactionId feedback = Some tid \<and> reviewerId feedback = Some rid
           \<and> fst (submitFeedback now feedback s) = s'
           \<and> map_of (feedbackHistory s') = (map_of (feedbackHistory s))(tid \<mapsto> feedback)
           \<and> map_of (pendingReviews s') = (map_of (pendingReviews s))(tid := None)
           \<and> workloadOf (reviewerWorkload s') rid = workloadOf (reviewerWorkload s) rid + 1
           \<and> (\<forall>other. other \<noteq> rid \<longrightarrow>
                 workloadOf (reviewerWorkload s') other = workloadOf (reviewerWorkload s) other)
           \<and> snd (submitFeedback now feedback s)
               = (if fb_confidence feedback > 0.9 \<and> evidenceType feedback = bank_confirmation
                     \<or> list_all (\<lambda>f. reviewTimestamp f \<noteq> None) (map snd (feedbackHistory s'))
                  then Inr () else Inl TypeError)"
    using ids r by blast
qed

lemma ex_missing: "\<not> missingRequiredFields exampleFeedback"
  by (simp add: missingRequiredFields_def exampleFeedback_def falsy_def)

text \<open>
  A record without \<open>reviewerId\<close> is rejected and the system stays as it was; the complete
  record is stored, raises the counter of \<open>analyst_001\<close> from 0 to 1, and the call
  returns.
\<close>

theorem submitFeedback_contract_witness:
  "missingRequiredFields (exampleFeedback\<lparr>reviewerId := None\<rparr>)
   \<and> submitFeedback 0 (exampleFeedback\<lparr>reviewerId := None\<rparr>) (newFeedbackSystem 0)
       = (newFeedbackSystem 0, Inl InvalidFeedback)
   \<and> \<not> missingRequiredFields exampleFeedback
   \<and> workloadOf (reviewerWorkload (fst (submitFeedback 0 exampleFeedback (newFeedbackSystem 0)))) ''analyst_001'' = 1
   \<and> map_of (feedbackHistory (fst (submitFeedback 0 exampleFeedback (newFeedbackSystem 0)))) ''txn_1''
       = Some exampleFeedback
   \<and> snd (submitFeedback 0 exampleFeedback (newFeedbackSystem 0)) = Inr ()"
  using submitFeedback_contract [of "exampleFeedback\<lparr>reviewerId := None\<rparr>" 0 "newFeedbackSystem 0"]
    submitFeedback_contract [of exampleFeedback 0 "newFeedbackSystem 0"]
  by (auto simp: missingRequiredFields_def exampleFeedback_def falsy_def newFeedbackSystem_def
      workloadOf_def initializeReviewers_def)

section \<open>Feedback: resolved transactions stay resolved\<close>

lemma map_has_keys: "map_has k m \<longleftrightarrow> k \<in> fst ` set m"
  by (simp add: map_has_def map_of_eq_None_iff)

lemma pendingIds_delete: "fst ` set (AList.delete k al) = fst ` set al - {k}"
  by (auto simp: AList.delete_eq)

lemma submitFeedback_ids:
  "historyIds s \<subseteq> historyIds (fst (submitFeedback now feedback s))
   \<and> pendingIds (fst (submitFeedback now feedback s)) \<subseteq> pendingIds s"
proof (cases "missingRequiredFields feedback")
  case True
  then show ?thesis by (simp add: submitFeedback_def)
next
  case False
  show ?thesis
    using submitFeedback_state [OF False, of now s]
    by (auto simp: historyIds_def pendingIds_def dom_update pendingIds_delete)
qed

lemma submitFeedback_stored:
  "\<not> missingRequiredFields feedback \<Longrightarrow>
   the (fb_transactionId feedback) \<in> historyIds (fst (submitFeedback now feedback s))
   \<and> the (fb_transactionId feedback) \<notin> pendingIds (fst (submitFeedback now feedback s))"
  using submitFeedback_state [of feedback now s]
  by (auto simp: historyIds_def pendingIds_def dom_update pendingIds_delete)

lemma submitAll_ids:
  "historyIds s \<subseteq> historyIds (fst (submitAll now batch s))
   \<and> pendingIds (fst (submitAll now batch s)) \<subseteq> pendingIds s"
proof (induction batch arbitrary: s)
  case Nil
  then show ?case by simp
next
  case (Cons feedback rest)
  obtain s' r where sf: "submitFeedback now feedback s = (s', r)"
    by (cases "submitFeedback now feedback s")
  have ids: "historyIds s \<subseteq> historyIds s' \<and> pendingIds s' \<subseteq> pendingIds s"
    using submitFeedback_ids [of s now feedback] sf by simp
  show ?case
  proof (cases r)
    case (Inl e)
    then show ?thesis using sf ids by simp
  next
    case (Inr u)
    then show ?thesis using sf ids Cons.IH [of s'] by auto
  qed
qed

lemma submitBatchFeedback_ids:
  "historyIds s \<subseteq> historyIds (fst (submitBatchFeedback now batch s))
   \<and> pendingIds (fst (submitBatchFeedback now batch s)) \<subseteq> pendingIds s"
proof -
  obtain s' r where sa: "submitAll now batch s = (s', r)"
    by (cases "submitAll now batch s")
  have ids: "historyIds s \<subseteq> historyIds s' \<and> pendingIds s' \<subseteq> pendingIds s"
    using submitAll_ids [of s now batch] sa by simp
  have "historyIds (fst (submitBatchFeedback now batch s)) = historyIds s'
        \<and> pendingIds (fst (submitBatchFeedback now batch s)) = pendingIds s'"
    using sa by (cases r) (simp_all add: submitBatchFeedback_def queueModelUpdate_def
        historyIds_def pendingIds_def)
  then show ?thesis using ids by simp
qed

lemma ids_pending_update:
  "pendingIds (s\<lparr>pendingReviews := AList.update k q (pendingReviews s)\<rparr>) = insert k (pendingIds s)"
  "historyIds (s\<lparr>pendingReviews := pr\<rparr>) = historyIds s"
  by (simp_all add: pendingIds_def historyIds_def dom_update)

lemma reviewQuery_Some:
  "reviewQuery s prediction transaction = Inr (Some query) \<Longrightarrow>
   q_transactionId query = resp_transactionId prediction
   \<and> resp_transactionId prediction \<notin> historyIds s"
  by (auto simp: reviewQuery_def Let_def historyIds_def map_has_keys split: if_splits sum.splits)

lemma identifyLoop_history:
  "feedbackHistory (fst (identifyLoop s ps txs queries)) = feedbackHistory s"
proof (induction s ps txs queries rule: identifyLoop.induct)
  case (1 s txs queries)
  then show ?case by simp
next
  case (2 s prediction ps txs queries)
  let ?t = "case txs of [] \<Rightarrow> None | t # _ \<Rightarrow> Some t"
  show ?case
  proof (cases "reviewQuery s prediction ?t")
    case (Inl e)
    then show ?thesis by simp
  next
    case (Inr r)
    show ?thesis
    proof (cases r)
      case None
      then show ?thesis using Inr "2.IH"(1) by simp
    next
      case (Some query)
      have rq: "reviewQuery s prediction ?t = Inr r"
        using Inr by simp
      show ?thesis using Inr Some "2.IH"(2) [OF rq Some] by simp
    qed
  qed
qed

lemma identifyLoop_pending:
  "pendingIds (fst (identifyLoop s ps txs queries)) \<subseteq> pendingIds s \<union> (- historyIds s)"
proof (induction s ps txs queries rule: identifyLoop.induct)
  case (1 s txs queries)
  then show ?case by simp
next
  case (2 s prediction ps txs queries)
  let ?t = "case txs of [] \<Rightarrow> None | t # _ \<Rightarrow> Some t"
  show ?case
  proof (cases "reviewQuery s prediction ?t")
    case (Inl e)
    then show ?thesis by simp
  next
    case (Inr r)
    show ?thesis
    proof (cases r)
      case None
      then show ?thesis using Inr "2.IH"(1) by simp
    next
      case (Some query)
      let ?s' = "s\<lparr>pendingReviews := AList.update (resp_transactionId prediction) query (pendingReviews s)\<rparr>"
      have k: "resp_transactionId prediction \<notin> historyIds s"
        using reviewQuery_Some Inr Some by blast
      have rq: "reviewQuery s prediction ?t = Inr r"
        using Inr by simp
      have ih: "pendingIds (fst (identifyLoop ?s' ps (tl txs) (queries @ [query])))
                \<subseteq> pendingIds ?s' \<union> (- historyIds ?s')"
        by (rule "2.IH"(2) [OF rq Some])
      have eq: "identifyLoop s (prediction # ps) txs queries
                = identifyLoop ?s' ps (tl txs) (queries @ [query])"
        using Inr Some by simp
      have "pendingIds ?s' \<union> (- historyIds ?s') \<subseteq> pendingIds s \<union> (- historyIds s)"
        using k by (simp add: ids_pending_update)
      with ih show ?thesis
        unfolding eq by (rule order_trans)
    qed
  qed
qed

lemma identifyLoop_queries:
  "snd (identifyLoop s ps txs queries) = Inr out \<Longrightarrow>
   q_transactionId ` set out \<subseteq> q_transactionId ` set queries \<union> (- historyIds s)"
proof (induction s ps txs queries arbitrary: out rule: identifyLoop.induct)
  case (1 s txs queries)
  then show ?case by auto
next
  case (2 s prediction ps txs queries)
  let ?t = "case txs of [] \<Rightarrow> None | t # _ \<Rightarrow> Some t"
  show ?case
  proof (cases "reviewQuery s prediction ?t")
    case (Inl e)
    then show ?thesis using "2.prems" by simp
  next
    case (Inr r)
    show ?thesis
    proof (cases r)
      case None
      then show ?thesis using Inr "2.IH"(1) "2.prems" by simp
    next
      case (Some query)
      let ?s' = "s\<lparr>pendingReviews := AList.update (resp_transactionId prediction) query (pendingReviews s)\<rparr>"
      have q: "q_transactionId query \<notin> historyIds s"
        using reviewQuery_Some Inr Some by metis
      have rq: "reviewQuery s prediction ?t = Inr r"
        using Inr by simp
      have eq: "identifyLoop s (prediction # ps) txs queries
                = identifyLoop ?s' ps (tl txs) (queries @ [query])"
        using Inr Some by simp
      have out: "snd (identifyLoop ?s' ps (tl txs) (queries @ [query])) = Inr out"
        using "2.prems" unfolding eq .
      have ih: "q_transactionId ` set out
                \<subseteq> q_transactionId ` set (queries @ [query]) \<union> (- historyIds ?s')"
        by (rule "2.IH"(2) [OF rq Some out])
      have "q_transactionId ` set (queries @ [query]) \<union> (- historyIds ?s')
            \<subseteq> q_transactionId ` set queries \<union> (- historyIds s)"
        using q by (simp add: ids_pending_update)
      with ih show ?thesis
        by (rule order_trans)
    qed
  qed
qed

lemma identify_output:
  assumes "snd (identifyUncertainTransactions s ps ts bs) = Inr out"
  shows "length out \<le> 10 \<and> q_transactionId ` set out \<inter> historyIds s = {}"
proof -
  obtain s' r where il: "identifyLoop s ps ts [] = (s', r)"
    by (cases "identifyLoop s ps ts []")
  from assms il obtain queries where r: "r = Inr queries"
    and out: "out = take 10 (sort_key (\<lambda>q. - combinedScore q) queries)"
    by (cases r) (auto simp: identifyUncertainTransactions_def)
  have "q_transactionId ` set queries \<subseteq> - historyIds s"
    using identifyLoop_queries [of s ps ts "[]" queries] il r by simp
  moreover have "set out \<subseteq> set queries"
    using out set_take_subset [of 10 "sort_key (\<lambda>q. - combinedScore q) queries"] by simp
  ultimately show ?thesis using out by auto
qed

lemma identify_ids:
  "historyIds (fst (identifyUncertainTransactions s ps ts bs)) = historyIds s
   \<and> pendingIds (fst (identifyUncertainTransactions s ps ts bs)) \<subseteq> pendingIds s \<union> (- historyIds s)"
proof -
  obtain s' r where il: "identifyLoop s ps ts [] = (s', r)"
    by (cases "identifyLoop s ps ts []")
  have "fst (identifyUncertainTransactions s ps ts bs) = s'"
    using il by (cases r) (simp_all add: identifyUncertainTransactions_def)
  then show ?thesis
    using identifyLoop_history [of s ps ts "[]"] identifyLoop_pending [of s ps ts "[]"] il
    by (simp add: historyIds_def)
qed

lemma tick_ids:
  "historyIds (updateModelPerformance r (processUpdateQueue now s)) = historyIds s
   \<and> pendingIds (updateModelPerformance r (processUpdateQueue now s)) = pendingIds s"
  by (simp add: updateModelPerformance_def processUpdateQueue_def Let_def historyIds_def pendingIds_def)

lemma later_resolved:
  "later s s' \<Longrightarrow> tid \<in> historyIds s \<Longrightarrow> tid \<notin> pendingIds s \<Longrightarrow>
   tid \<in> historyIds s' \<and> tid \<notin> pendingIds s'"
proof (induction rule: later.induct)
  case (later_refl s)
  then show ?case by simp
next
  case (later_submit s s' now feedback)
  then show ?case using submitFeedback_ids [of s' now feedback] by auto
next
  case (later_batch s s' now batch)
  then show ?case using submitBatchFeedback_ids [of s' now batch] by auto
next
  case (later_identify s s' predictions transactions biometrics)
  then show ?case using identify_ids [of s' predictions transactions biometrics] by auto
next
  case (later_tick s s' r now)
  then show ?case using tick_ids [of r now s'] by simp
qed

text \<open>
  C2. Every call of \<open>identifyUncertainTransactions\<close> that returns gives at most 10
  queries. Once \<open>submitFeedback\<close> has stored a record for a transaction id (the record
  has passed the validation; whether the call then returns or throws on a timestamp
  makes no difference), then in every state the system reaches later, by any calls of
  its operations, returning or throwing, the id is not in the pending-review queue and
  no call of \<open>identifyUncertainTransactions\<close> returns a query for it.
\<close>

theorem identifyUncertain_resolved:
  "(\<forall>out. snd (identifyUncertainTransactions s ps ts bs) = Inr out \<longrightarrow> length out \<le> 10)
   \<and> (\<not> missingRequiredFields feedback \<and> later (fst (submitFeedback now feedback s0)) s
        \<longrightarrow> the (fb_transactionId feedback) \<notin> fst ` set (pendingReviews s)
          \<and> (\<forall>out. snd (identifyUncertainTransactions s ps ts bs) = Inr out
                \<longrightarrow> the (fb_transactionId feedback) \<notin> q_transactionId ` set out))"
proof -
  have a: "\<forall>out. snd (identifyUncertainTransactions s ps ts bs) = Inr out \<longrightarrow> length out \<le> 10"
    using identify_output by blast
  have b: "the (fb_transactionId feedback) \<notin> fst ` set (pendingReviews s)
          \<and> (\<forall>out. snd (identifyUncertainTransactions s ps ts bs) = Inr out
                \<longrightarrow> the (fb_transactionId feedback) \<notin> q_transactionId ` set out)"
    if ok: "\<not> missingRequiredFields feedback"
      and lt: "later (fst (submitFeedback now feedback s0)) s"
  proof -
    have "the (fb_transactionId feedback) \<in> historyIds s
          \<and> the (fb_transactionId feedback) \<notin> pendingIds s"
      using later_resolved [OF lt] submitFeedback_stored [OF ok] by blast
    then show ?thesis
      using identify_output [of s ps ts bs] by (auto simp: pendingIds_def)
  qed
  show ?thesis using a b by blast
qed


lemma ex_identify:
  "snd (identifyUncertainTransactions (newFeedbackSystem 0) [examplePrediction] [exampleTransaction] [])
   = Inr [\<lparr> q_transactionId = ''txn_2'', uncertaintyScore = 1, diversityScore = 0.8,
             importanceScore = 0.6,
             queryReason = [''Model uncertainty: prediction confidence is low'',
                            ''Borderline case: fraud probability near decision threshold'',
                            ''Novel transaction pattern: different from training data'',
                            ''High-value transaction: requires manual verification''],
             suggestedReviewers = [''analyst_001'', ''analyst_002''] \<rparr>]"
  by (simp add: identifyUncertainTransactions_def reviewQuery_def map_has_def newFeedbackSystem_def
      examplePrediction_def exampleTransaction_def calculateUncertaintyScore_def
      calculateDiversityScore_def calculateImportanceScore_def generateQueryReasons_def
      suggestReviewers_def initializeReviewers_def Let_def)

text \<open>
  Feedback for \<open>txn_1\<close> is stored; a later call with predictions for \<open>txn_1\<close> and
  \<open>txn_2\<close> queues \<open>txn_2\<close> only, and \<open>txn_1\<close> is not pending afterwards.
\<close>

theorem identifyUncertain_resolved_witness:
  "\<not> missingRequiredFields exampleFeedback
   \<and> later (fst (submitFeedback 0 exampleFeedback (newFeedbackSystem 0)))
        (fst (identifyUncertainTransactions (fst (submitFeedback 0 exampleFeedback (newFeedbackSystem 0)))
               [examplePrediction\<lparr>resp_transactionId := ''txn_1''\<rparr>, examplePrediction]
               [exampleTransaction, exampleTransaction] []))
   \<and> ''txn_1'' \<notin> fst ` set (pendingReviews
        (fst (identifyUncertainTransactions (fst (submitFeedback 0 exampleFeedback (newFeedbackSystem 0)))
               [examplePrediction\<lparr>resp_transactionId := ''txn_1''\<rparr>, examplePrediction]
               [exampleTransaction, exampleTransaction] [])))
   \<and> length [\<lparr> q_transactionId = ''txn_2'', uncertaintyScore = 1, diversityScore = 0.8,
             importanceScore = 0.6,
             queryReason = [''Model uncertainty: prediction confidence is low'',
                            ''Borderline case: fraud probability near decision threshold'',
                            ''Novel transaction pattern: different from training data'',
                            ''High-value transaction: requires manual verification''],
             suggestedReviewers = [''analyst_001'', ''analyst_002''] \<rparr>] \<le> (10::nat)"
proof -
  let ?s1 = "fst (submitFeedback 0 exampleFeedback (newFeedbackSystem 0))"
  let ?ps = "[examplePrediction\<lparr>resp_transactionId := ''txn_1''\<rparr>, examplePrediction]"
  let ?ts = "[exampleTransaction, exampleTransaction]"
  let ?s2 = "fst (identifyUncertainTransactions ?s1 ?ps ?ts [])"
  have ok: "\<not> missingRequiredFields exampleFeedback"
    by (rule ex_missing)
  have lt: "later ?s1 ?s2"
    by (rule later_identify [OF later_refl])
  have tid: "the (fb_transactionId exampleFeedback) = ''txn_1''"
    by (simp add: exampleFeedback_def)
  show ?thesis
    using identifyUncertain_resolved [of "newFeedbackSystem 0" "[examplePrediction]" "[exampleTransaction]" "[]"
        exampleFeedback 0 "newFeedbackSystem 0"]
      identifyUncertain_resolved [of ?s2 "[examplePrediction]" "[exampleTransaction]" "[]"
        exampleFeedback 0 "newFeedbackSystem 0"]
      ok lt tid ex_identify
    by simp
qed


section \<open>Feedback: scheduling of model updates\<close>

lemma queueModelUpdate_mset:
  "mset (updateQueue (queueModelUpdate now batch ut prio s))
   = mset (updateQueue s)
     + {# \<lparr> feedbackBatch = batch, updateType = ut, priority = prio,
            scheduledTime = Some (now + (if prio = high then 0
                                         else if prio = medium then 300000 else 1800000)) \<rparr> #}"
  by (simp add: queueModelUpdate_def Let_def)

text \<open>
  What the source does when the calls return. A valid record with confidence above 0.9
  and evidence type \<open>bank_confirmation\<close> always returns (its timestamp is not read) and
  adds one high-priority request for itself, scheduled at the time of the call. A batch
  of at least five records whose submissions all return adds, on top of what they queued
  one by one, one medium-priority request for the batch, scheduled 300000 ms later.
\<close>

lemma scheduling_when_returned:
  "(\<not> missingRequiredFields feedback \<and> fb_confidence feedback > 0.9
      \<and> evidenceType feedback = bank_confirmation
    \<longrightarrow> snd (submitFeedback now feedback s) = Inr ()
        \<and> mset (updateQueue (fst (submitFeedback now feedback s)))
            = mset (updateQueue s)
              + {# \<lparr> feedbackBatch = [feedback], updateType = incremental,
                     priority = high, scheduledTime = Some now \<rparr> #})
   \<and> (snd (submitAll now batch s) = Inr () \<and> length batch \<ge> 5
    \<longrightarrow> snd (submitBatchFeedback now batch s) = Inr ()
        \<and> mset (updateQueue (fst (submitBatchFeedback now batch s)))
            = mset (updateQueue (fst (submitAll now batch s)))
              + {# \<lparr> feedbackBatch = batch, updateType = incremental,
                     priority = medium, scheduledTime = Some (now + 300000) \<rparr> #})"
proof (intro conjI impI)
  assume a: "\<not> missingRequiredFields feedback \<and> fb_confidence feedback > 0.9
      \<and> evidenceType feedback = bank_confirmation"
  then show "snd (submitFeedback now feedback s) = Inr ()"
    by (simp add: submitFeedback_result)
  show "mset (updateQueue (fst (submitFeedback now feedback s)))
            = mset (updateQueue s)
              + {# \<lparr> feedbackBatch = [feedback], updateType = incremental,
                     priority = high, scheduledTime = Some now \<rparr> #}"
    using a by (simp add: submitFeedback_def Let_def shouldTriggerImmediateUpdate_def queueModelUpdate_mset)
next
  assume b: "snd (submitAll now batch s) = Inr () \<and> length batch \<ge> 5"
  then obtain s' where sa: "submitAll now batch s = (s', Inr ())"
    by (cases "submitAll now batch s") auto
  show "snd (submitBatchFeedback now batch s) = Inr ()"
    using sa b by (simp add: submitBatchFeedback_def)
  show "mset (updateQueue (fst (submitBatchFeedback now batch s)))
            = mset (updateQueue (fst (submitAll now batch s)))
              + {# \<lparr> feedbackBatch = batch, updateType = incremental,
                     priority = medium, scheduledTime = Some (now + 300000) \<rparr> #}"
    using sa b by (simp add: submitBatchFeedback_def queueModelUpdate_mset)
qed

text \<open>
  With \<open>Date\<close> objects throughout (in the stored records and in the batch) the
  submissions of valid records all return.
\<close>

lemma submitFeedback_dates:
  assumes "\<not> missingRequiredFields feedback" "reviewTimestamp feedback \<noteq> None"
    "list_all (\<lambda>f. reviewTimestamp f \<noteq> None) (map snd (feedbackHistory s))"
  shows "snd (submitFeedback now feedback s) = Inr ()
         \<and> list_all (\<lambda>f. reviewTimestamp f \<noteq> None)
              (map snd (feedbackHistory (fst (submitFeedback now feedback s))))"
proof -
  have "list_all (\<lambda>f. reviewTimestamp f \<noteq> None) (map snd (AList.update k feedback al))"
    if "list_all (\<lambda>f. reviewTimestamp f \<noteq> None) (map snd al)" for k and al :: "(string \<times> FeedbackData) list"
    using that assms(2) by (induction al) auto
  then have d: "list_all (\<lambda>f. reviewTimestamp f \<noteq> None)
           (map snd (AList.update (the (fb_transactionId feedback)) feedback (feedbackHistory s)))"
    using assms(3) by blast
  show ?thesis
    using submitFeedback_result [OF assms(1), of now s] submitFeedback_state [OF assms(1), of now s] d
    by simp
qed

lemma submitAll_dates:
  "list_all (\<lambda>f. \<not> missingRequiredFields f \<and> reviewTimestamp f \<noteq> None) batch \<Longrightarrow>
   list_all (\<lambda>f. reviewTimestamp f \<noteq> None) (map snd (feedbackHistory s)) \<Longrightarrow>
   snd (submitAll now batch s) = Inr ()"
proof (induction batch arbitrary: s)
  case Nil
  then show ?case by simp
next
  case (Cons feedback rest)
  have f: "\<not> missingRequiredFields feedback" "reviewTimestamp feedback \<noteq> None"
    using Cons.prems(1) by simp_all
  have "snd (submitFeedback now feedback s) = Inr ()
        \<and> list_all (\<lambda>f. reviewTimestamp f \<noteq> None)
             (map snd (feedbackHistory (fst (submitFeedback now feedback s))))"
    by (rule submitFeedback_dates [OF f Cons.prems(2)])
  then obtain s' where sf: "submitFeedback now feedback s = (s', Inr ())"
    and d: "list_all (\<lambda>f. reviewTimestamp f \<noteq> None) (map snd (feedbackHistory s'))"
    by (cases "submitFeedback now feedback s") auto
  show ?case
    using sf Cons.IH [OF _ d] Cons.prems(1) by simp
qed

lemma scheduling_with_dates:
  assumes "list_all (\<lambda>f. \<not> missingRequiredFields f \<and> reviewTimestamp f \<noteq> None) batch"
    and "list_all (\<lambda>f. reviewTimestamp f \<noteq> None) (map snd (feedbackHistory s))"
    and "length batch \<ge> 5"
  shows "snd (submitBatchFeedback now batch s) = Inr ()
         \<and> mset (updateQueue (fst (submitBatchFeedback now batch s)))
             = mset (updateQueue (fst (submitAll now batch s)))
               + {# \<lparr> feedbackBatch = batch, updateType = incremental,
                      priority = medium, scheduledTime = Some (now + 300000) \<rparr> #}"
proof -
  have "snd (submitAll now batch s) = Inr ()"
    using assms(1,2) by (rule submitAll_dates)
  then show ?thesis
    using scheduling_when_returned [of _ now s batch] assms(3) by blast
qed

text \<open>
  C9, at the failing input. Five valid records of evidence type \<open>manual_review\<close>, as the
  route delivers them (\<open>reviewTimestamp\<close> not a \<open>Date\<close>), submitted as one batch to a new
  system: the first record is stored, its submission throws the TypeError when the
  timestamps are read, the batch call ends there, and the update queue stays empty. No
  medium-priority request is queued for this batch of five.
\<close>

theorem batch_update_lost:
  "length jsonBatch = 5
   \<and> list_all (\<lambda>f. \<not> missingRequiredFields f) jsonBatch
   \<and> snd (submitBatchFeedback 1000 jsonBatch (newFeedbackSystem 0)) = Inl TypeError
   \<and> updateQueue (fst (submitBatchFeedback 1000 jsonBatch (newFeedbackSystem 0))) = []
   \<and> map fst (feedbackHistory (fst (submitBatchFeedback 1000 jsonBatch (newFeedbackSystem 0))))
       = [''txn_1'']"
  by (simp add: jsonBatch_def jsonRecord_def submitBatchFeedback_def submitFeedback_def
      missingRequiredFields_def falsy_def shouldTriggerImmediateUpdate_def newFeedbackSystem_def
      Let_def)

text \<open>
  The same five records with \<open>Date\<close> timestamps, and a bank-confirmed record of confidence
  0.95 whose timestamp is not a \<open>Date\<close>: the batch queues its medium-priority request at
  301000, the single record its high-priority request at 1000.
\<close>

lemma scheduling_examples:
  "updateQueue (fst (submitFeedback 1000 (exampleFeedback\<lparr>reviewTimestamp := None\<rparr>) (newFeedbackSystem 0)))
     = [\<lparr> feedbackBatch = [exampleFeedback\<lparr>reviewTimestamp := None\<rparr>], updateType = incremental,
          priority = high, scheduledTime = Some 1000 \<rparr>]
   \<and> updateQueue (fst (submitBatchFeedback 1000
         (map (\<lambda>f. f\<lparr>reviewTimestamp := Some 0\<rparr>) jsonBatch) (newFeedbackSystem 0)))
     = [\<lparr> feedbackBatch = map (\<lambda>f. f\<lparr>reviewTimestamp := Some 0\<rparr>) jsonBatch, updateType = incremental,
          priority = medium, scheduledTime = Some 301000 \<rparr>]"
  by (simp add: jsonBatch_def jsonRecord_def exampleFeedback_def submitBatchFeedback_def
      submitFeedback_def missingRequiredFields_def falsy_def shouldTriggerImmediateUpdate_def
      newFeedbackSystem_def queueModelUpdate_def Let_def)

section \<open>Graph construction: independence of the input order\<close>

lemma addNode_inv: "graphInv st \<Longrightarrow> graphInv (addNode node st)"
  by (auto simp: graphInv_def addNode_def)

lemma addNode_edges: "g_edges (addNode node st) = g_edges st"
  by (simp add: addNode_def)

lemma addNode_ids:
  "graphInv st \<Longrightarrow> node_id ` set (g_nodes (addNode node st)) = insert (node_id node) (node_id ` set (g_nodes st))"
  by (auto simp: graphInv_def addNode_def)

lemma addNode_nodes:
  "set (g_nodes (addNode node st)) \<subseteq> insert node (set (g_nodes st))"
  by (auto simp: addNode_def)

lemma graphInv_edges: "graphInv (st\<lparr> g_edges := es \<rparr>) = graphInv st"
  by (simp add: graphInv_def)

lemma graphStep_inv: "graphInv st \<Longrightarrow> graphInv (graphStep st tx)"
  by (simp add: graphStep_def Let_def addNode_inv graphInv_edges)

lemma graphStep_edges: "g_edges (graphStep st tx) = g_edges st @ txEdges tx"
  by (simp add: graphStep_def Let_def addNode_edges)

lemma graphStep_ids:
  "graphInv st \<Longrightarrow>
   node_id ` set (g_nodes (graphStep st tx)) = node_id ` set (g_nodes st) \<union> node_id ` set (txNodes tx)"
  by (simp add: graphStep_def Let_def addNode_ids addNode_inv txNodes_def) blast

lemma graphStep_nodes:
  "set (g_nodes (graphStep st tx)) \<subseteq> set (g_nodes st) \<union> set (txNodes tx)"
proof -
  let ?s1 = "addNode (userNode tx) st"
  let ?s2 = "addNode (merchantNode tx) ?s1"
  let ?s3 = "addNode (deviceNode tx) ?s2"
  let ?s4 = "addNode (locationNode tx) ?s3"
  have "set (g_nodes ?s4) \<subseteq> insert (locationNode tx) (insert (deviceNode tx)
          (insert (merchantNode tx) (insert (userNode tx) (set (g_nodes st)))))"
    using addNode_nodes [of "userNode tx" st] addNode_nodes [of "merchantNode tx" ?s1]
      addNode_nodes [of "deviceNode tx" ?s2] addNode_nodes [of "locationNode tx" ?s3]
    by blast
  then show ?thesis by (auto simp: graphStep_def Let_def txNodes_def)
qed

lemma foldl_graphStep:
  "graphInv st \<Longrightarrow>
   graphInv (foldl graphStep st txs)
   \<and> g_edges (foldl graphStep st txs) = g_edges st @ concat (map txEdges txs)
   \<and> node_id ` set (g_nodes (foldl graphStep st txs))
       = node_id ` set (g_nodes st) \<union> node_id ` set (concat (map txNodes txs))
   \<and> set (g_nodes (foldl graphStep st txs)) \<subseteq> set (g_nodes st) \<union> set (concat (map txNodes txs))"
proof (induction txs arbitrary: st)
  case Nil
  then show ?case by simp
next
  case (Cons tx txs)
  have inv: "graphInv (graphStep st tx)"
    using Cons.prems by (rule graphStep_inv)
  show ?case
    using Cons.IH [OF inv] graphStep_edges [of st tx] graphStep_ids [OF Cons.prems, of tx]
      graphStep_nodes [of st tx]
    by auto
qed

lemma build_edges: "edges (buildTransactionGraph txs) = concat (map txEdges txs)"
  using foldl_graphStep [of "\<lparr> g_nodes = [], g_edges = [], nodeMap = Map.empty \<rparr>" txs]
  by (simp add: buildTransactionGraph_def Let_def graphInv_def)

lemma build_node_ids:
  "node_id ` set (nodes (buildTransactionGraph txs)) = node_id ` set (concat (map txNodes txs))"
  using foldl_graphStep [of "\<lparr> g_nodes = [], g_edges = [], nodeMap = Map.empty \<rparr>" txs]
  by (simp add: buildTransactionGraph_def Let_def graphInv_def)

lemma build_nodes_subset:
  "set (nodes (buildTransactionGraph txs)) \<subseteq> set (concat (map txNodes txs))"
  using foldl_graphStep [of "\<lparr> g_nodes = [], g_edges = [], nodeMap = Map.empty \<rparr>" txs]
  by (simp add: buildTransactionGraph_def Let_def graphInv_def)

lemma build_nodes_agree:
  assumes "agreeOnNodes txs"
  shows "set (nodes (buildTransactionGraph txs)) = set (concat (map txNodes txs))"
proof
  show "set (nodes (buildTransactionGraph txs)) \<subseteq> set (concat (map txNodes txs))"
    by (rule build_nodes_subset)
  show "set (concat (map txNodes txs)) \<subseteq> set (nodes (buildTransactionGraph txs))"
  proof
    fix c assume c: "c \<in> set (concat (map txNodes txs))"
    then have "node_id c \<in> node_id ` set (nodes (buildTransactionGraph txs))"
      using build_node_ids [of txs] by blast
    then obtain n where n: "n \<in> set (nodes (buildTransactionGraph txs))" "node_id n = node_id c"
      by auto
    have "n \<in> set (concat (map txNodes txs))"
      using n(1) build_nodes_subset [of txs] by blast
    then have "n = c"
      using assms c n(2) unfolding agreeOnNodes_def Let_def list_all_iff by blast
    then show "c \<in> set (nodes (buildTransactionGraph txs))" using n(1) by simp
  qed
qed

lemma agreeOnNodes_perm:
  "mset xs = mset ys \<Longrightarrow> agreeOnNodes xs \<Longrightarrow> agreeOnNodes ys"
  unfolding agreeOnNodes_def Let_def list_all_iff
  using mset_eq_setD [of xs ys] by simp

text \<open>
  First come, first kept: a node is in the graph exactly when it is the first of the
  candidate nodes, in the order in which the loop offers them, that has its id.
\<close>

lemma find_append_cases:
  "find P (xs @ ys) = (case find P xs of None \<Rightarrow> find P ys | Some x \<Rightarrow> Some x)"
  by (induction xs) auto

lemma addNode_first:
  assumes inv: "graphInv st"
    and fk: "\<forall>n. n \<in> set (g_nodes st) \<longleftrightarrow> find (\<lambda>c. node_id c = node_id n) cs = Some n"
  shows "\<forall>n. n \<in> set (g_nodes (addNode node st))
             \<longleftrightarrow> find (\<lambda>c. node_id c = node_id n) (cs @ [node]) = Some n"
proof (cases "nodeMap st (node_id node) = None")
  case True
  then have "node_id node \<notin> node_id ` set (g_nodes st)"
    using inv by (auto simp: graphInv_def)
  then have fresh: "find (\<lambda>c. node_id c = node_id node) cs = None"
    using fk by (cases "find (\<lambda>c. node_id c = node_id node) cs")
      (auto simp: find_Some_iff image_iff, metis nth_mem)
  show ?thesis
  proof
    fix n
    show "n \<in> set (g_nodes (addNode node st))
          \<longleftrightarrow> find (\<lambda>c. node_id c = node_id n) (cs @ [node]) = Some n"
    proof (cases "find (\<lambda>c. node_id c = node_id n) cs")
      case None
      then have "n \<notin> set (g_nodes st)" using fk by simp
      then show ?thesis using None True by (auto simp: addNode_def find_append_cases)
    next
      case (Some m)
      then have "node_id m = node_id n" by (auto simp: find_Some_iff)
      then have "node_id n \<noteq> node_id node" using Some fresh by auto
      then show ?thesis using Some True fk by (auto simp: addNode_def find_append_cases)
    qed
  qed
next
  case False
  then have "node_id node \<in> node_id ` set (g_nodes st)"
    using inv by (auto simp: graphInv_def)
  then obtain m where m: "find (\<lambda>c. node_id c = node_id node) cs = Some m"
    using fk by auto
  show ?thesis
  proof
    fix n
    show "n \<in> set (g_nodes (addNode node st))
          \<longleftrightarrow> find (\<lambda>c. node_id c = node_id n) (cs @ [node]) = Some n"
    proof (cases "find (\<lambda>c. node_id c = node_id n) cs")
      case None
      then have "node_id n \<noteq> node_id node" using m by auto
      then show ?thesis using None False fk by (auto simp: addNode_def find_append_cases)
    next
      case (Some k)
      then show ?thesis using False fk by (auto simp: addNode_def find_append_cases)
    qed
  qed
qed

lemma addNode_distinct:
  "graphInv st \<Longrightarrow> distinct (map node_id (g_nodes st)) \<Longrightarrow>
   distinct (map node_id (g_nodes (addNode node st)))"
  by (auto simp: graphInv_def addNode_def)

lemma graphStep_first:
  assumes inv: "graphInv st"
    and fk: "\<forall>n. n \<in> set (g_nodes st) \<longleftrightarrow> find (\<lambda>c. node_id c = node_id n) cs = Some n"
  shows "\<forall>n. n \<in> set (g_nodes (graphStep st tx))
             \<longleftrightarrow> find (\<lambda>c. node_id c = node_id n) (cs @ txNodes tx) = Some n"
proof -
  let ?s1 = "addNode (userNode tx) st"
  let ?s2 = "addNode (merchantNode tx) ?s1"
  let ?s3 = "addNode (deviceNode tx) ?s2"
  let ?s4 = "addNode (locationNode tx) ?s3"
  have i1: "graphInv ?s1" using inv by (rule addNode_inv)
  have i2: "graphInv ?s2" using i1 by (rule addNode_inv)
  have i3: "graphInv ?s3" using i2 by (rule addNode_inv)
  have f1: "\<forall>n. n \<in> set (g_nodes ?s1) \<longleftrightarrow> find (\<lambda>c. node_id c = node_id n) (cs @ [userNode tx]) = Some n"
    by (rule addNode_first [OF inv fk])
  have f2: "\<forall>n. n \<in> set (g_nodes ?s2)
              \<longleftrightarrow> find (\<lambda>c. node_id c = node_id n) ((cs @ [userNode tx]) @ [merchantNode tx]) = Some n"
    by (rule addNode_first [OF i1 f1])
  have f3: "\<forall>n. n \<in> set (g_nodes ?s3)
              \<longleftrightarrow> find (\<lambda>c. node_id c = node_id n)
                    (((cs @ [userNode tx]) @ [merchantNode tx]) @ [deviceNode tx]) = Some n"
    by (rule addNode_first [OF i2 f2])
  have f4: "\<forall>n. n \<in> set (g_nodes ?s4)
              \<longleftrightarrow> find (\<lambda>c. node_id c = node_id n)
                    ((((cs @ [userNode tx]) @ [merchantNode tx]) @ [deviceNode tx]) @ [locationNode tx]) = Some n"
    by (rule addNode_first [OF i3 f3])
  have g: "g_nodes (graphStep st tx) = g_nodes ?s4"
    by (simp add: graphStep_def Let_def)
  show ?thesis using f4 by (simp add: g txNodes_def)
qed

lemma graphStep_distinct:
  "graphInv st \<Longrightarrow> distinct (map node_id (g_nodes st)) \<Longrightarrow>
   distinct (map node_id (g_nodes (graphStep st tx)))"
  by (simp add: graphStep_def Let_def addNode_distinct addNode_inv)

lemma foldl_graphStep_first:
  "graphInv st \<Longrightarrow> distinct (map node_id (g_nodes st)) \<Longrightarrow>
   \<forall>n. n \<in> set (g_nodes st) \<longleftrightarrow> find (\<lambda>c. node_id c = node_id n) cs = Some n \<Longrightarrow>
   distinct (map node_id (g_nodes (foldl graphStep st txs)))
   \<and> (\<forall>n. n \<in> set (g_nodes (foldl graphStep st txs))
          \<longleftrightarrow> find (\<lambda>c. node_id c = node_id n) (cs @ concat (map txNodes txs)) = Some n)"
proof (induction txs arbitrary: st cs)
  case Nil
  then show ?case by simp
next
  case (Cons tx txs)
  have inv: "graphInv (graphStep st tx)"
    using Cons.prems(1) by (rule graphStep_inv)
  have d: "distinct (map node_id (g_nodes (graphStep st tx)))"
    using Cons.prems(1,2) by (rule graphStep_distinct)
  have f: "\<forall>n. n \<in> set (g_nodes (graphStep st tx))
             \<longleftrightarrow> find (\<lambda>c. node_id c = node_id n) (cs @ txNodes tx) = Some n"
    using Cons.prems(1,3) by (rule graphStep_first)
  show ?case
    using Cons.IH [OF inv d f] by simp
qed

lemma build_first:
  "distinct (map node_id (nodes (buildTransactionGraph txs)))
   \<and> (\<forall>n. n \<in> set (nodes (buildTransactionGraph txs))
          \<longleftrightarrow> find (\<lambda>c. node_id c = node_id n) (concat (map txNodes txs)) = Some n)"
  using foldl_graphStep_first [of "\<lparr> g_nodes = [], g_edges = [], nodeMap = Map.empty \<rparr>" "[]" txs]
  by (simp add: buildTransactionGraph_def Let_def graphInv_def)

lemma find_concat_first:
  "find P (concat (map f xs)) = Some n \<Longrightarrow>
   \<exists>before t after. xs = before @ t # after \<and> find P (f t) = Some n
      \<and> list_all (\<lambda>u. find P (f u) = None) before"
proof (induction xs)
  case Nil
  then show ?case by simp
next
  case (Cons x xs)
  show ?case
  proof (cases "find P (f x)")
    case (Some m)
    then have "m = n" using Cons.prems by (simp add: find_append_cases)
    then have "x # xs = [] @ x # xs \<and> find P (f x) = Some n \<and> list_all (\<lambda>u. find P (f u) = None) []"
      using Some by simp
    then show ?thesis by blast
  next
    case None
    then have "find P (concat (map f xs)) = Some n"
      using Cons.prems by (simp add: find_append_cases)
    then obtain before t after where b: "xs = before @ t # after" "find P (f t) = Some n"
        "list_all (\<lambda>u. find P (f u) = None) before"
      using Cons.IH by blast
    have "x # xs = (x # before) @ t # after \<and> find P (f t) = Some n
          \<and> list_all (\<lambda>u. find P (f u) = None) (x # before)"
      using b None by simp
    then show ?thesis by blast
  qed
qed

lemmas graph_eval =
  buildTransactionGraph_def graphStep_def addNode_def Let_def userNode_def merchantNode_def
  deviceNode_def locationNode_def locationId_def txEdges_def

text \<open>
  C7 (as amended). For a list of transactions and any permutation of it,
  \<open>buildTransactionGraph\<close> produces the same set of edges and the same set of node ids.
  The sets of nodes are the same when the transactions agree on their nodes. In general
  the graph has one node for each id, and the node kept for an id is the first of the
  candidate nodes with that id, in the order of the input (within a transaction: user,
  merchant, device, location): it is the one that the first transaction mentioning the
  id gives for it, so it depends on the order.
\<close>

theorem graph_reordering:
  "mset xs = mset ys \<Longrightarrow>
   set (edges (buildTransactionGraph xs)) = set (edges (buildTransactionGraph ys))
   \<and> node_id ` set (nodes (buildTransactionGraph xs)) = node_id ` set (nodes (buildTransactionGraph ys))
   \<and> (agreeOnNodes xs \<longrightarrow>
        set (nodes (buildTransactionGraph xs)) = set (nodes (buildTransactionGraph ys)))
   \<and> distinct (map node_id (nodes (buildTransactionGraph xs)))
   \<and> (\<forall>n. n \<in> set (nodes (buildTransactionGraph xs))
          \<longleftrightarrow> find (\<lambda>c. node_id c = node_id n) (concat (map txNodes xs)) = Some n)
   \<and> (\<forall>n \<in> set (nodes (buildTransactionGraph xs)).
          \<exists>before t after. xs = before @ t # after
            \<and> find (\<lambda>c. node_id c = node_id n) (txNodes t) = Some n
            \<and> (\<forall>u \<in> set before. node_id n \<notin> node_id ` set (txNodes u)))"
proof -
  assume p: "mset xs = mset ys"
  then have se: "set xs = set ys" by (rule mset_eq_setD)
  have e: "set (edges (buildTransactionGraph xs)) = set (edges (buildTransactionGraph ys))"
    using se by (simp add: build_edges)
  have i: "node_id ` set (nodes (buildTransactionGraph xs)) = node_id ` set (nodes (buildTransactionGraph ys))"
    using se by (simp add: build_node_ids)
  have n: "agreeOnNodes xs \<longrightarrow>
        set (nodes (buildTransactionGraph xs)) = set (nodes (buildTransactionGraph ys))"
  proof
    assume a: "agreeOnNodes xs"
    show "set (nodes (buildTransactionGraph xs)) = set (nodes (buildTransactionGraph ys))"
      using build_nodes_agree [OF a] build_nodes_agree [OF agreeOnNodes_perm [OF p a]] se by simp
  qed
  have d: "distinct (map node_id (nodes (buildTransactionGraph xs)))"
    using build_first [of xs] by simp
  have f: "\<forall>n. n \<in> set (nodes (buildTransactionGraph xs))
          \<longleftrightarrow> find (\<lambda>c. node_id c = node_id n) (concat (map txNodes xs)) = Some n"
    using build_first [of xs] by simp
  have t: "\<forall>n \<in> set (nodes (buildTransactionGraph xs)).
          \<exists>before t after. xs = before @ t # after
            \<and> find (\<lambda>c. node_id c = node_id n) (txNodes t) = Some n
            \<and> (\<forall>u \<in> set before. node_id n \<notin> node_id ` set (txNodes u))"
  proof
    fix n assume "n \<in> set (nodes (buildTransactionGraph xs))"
    then have "find (\<lambda>c. node_id c = node_id n) (concat (map txNodes xs)) = Some n"
      using f by simp
    then obtain before t after where b: "xs = before @ t # after"
        "find (\<lambda>c. node_id c = node_id n) (txNodes t) = Some n"
        "list_all (\<lambda>u. find (\<lambda>c. node_id c = node_id n) (txNodes u) = None) before"
      using find_concat_first [of "\<lambda>c. node_id c = node_id n" txNodes xs n] by blast
    have "\<forall>u \<in> set before. node_id n \<notin> node_id ` set (txNodes u)"
      using b(3) by (fastforce simp: list_all_iff find_None_iff)
    then show "\<exists>before t after. xs = before @ t # after
            \<and> find (\<lambda>c. node_id c = node_id n) (txNodes t) = Some n
            \<and> (\<forall>u \<in> set before. node_id n \<notin> node_id ` set (txNodes u))"
      using b(1,2) by blast
  qed
  show ?thesis
    apply (intro conjI)
         apply (rule e)
        apply (rule i)
       apply (rule n)
      apply (rule d)
     apply (rule f)
    apply (rule t)
    done
qed


text \<open>
  Two transactions name the merchant \<open>merch_005\<close> differently: the merchant node of the
  graph carries the name of whichever comes first, so the two orders give different node
  sets.
\<close>

theorem graph_reordering_counterexample:
  "mset [exampleTransaction, renamedMerchant] = mset [renamedMerchant, exampleTransaction]
   \<and> set (nodes (buildTransactionGraph [exampleTransaction, renamedMerchant]))
       \<noteq> set (nodes (buildTransactionGraph [renamedMerchant, exampleTransaction]))"
proof -
  have a: "merchantNode exampleTransaction
           \<in> set (nodes (buildTransactionGraph [exampleTransaction, renamedMerchant]))"
    by (simp add: graph_eval exampleTransaction_def renamedMerchant_def)
  have b: "merchantNode exampleTransaction
           \<notin> set (nodes (buildTransactionGraph [renamedMerchant, exampleTransaction]))"
    by (simp add: graph_eval exampleTransaction_def renamedMerchant_def)
  show ?thesis using a b by auto
qed

text \<open>
  Two transactions that agree on their nodes (they share only the device) give the same
  nodes and edges in both orders. Of the two transactions that name the merchant
  \<open>merch_005\<close> differently, the graph keeps the node of the first.
\<close>

theorem graph_reordering_witness:
  "mset [exampleTransaction, otherTransaction] = mset [otherTransaction, exampleTransaction]
   \<and> agreeOnNodes [exampleTransaction, otherTransaction]
   \<and> set (edges (buildTransactionGraph [exampleTransaction, otherTransaction]))
       = set (edges (buildTransactionGraph [otherTransaction, exampleTransaction]))
   \<and> set (nodes (buildTransactionGraph [exampleTransaction, otherTransaction]))
       = set (nodes (buildTransactionGraph [otherTransaction, exampleTransaction]))
   \<and> merchantNode exampleTransaction
       \<in> set (nodes (buildTransactionGraph [exampleTransaction, renamedMerchant]))
   \<and> find (\<lambda>c. node_id c = node_id (merchantNode exampleTransaction))
         (concat (map txNodes [exampleTransaction, renamedMerchant]))
       = Some (merchantNode exampleTransaction)"
proof -
  have p: "mset [exampleTransaction, otherTransaction] = mset [otherTransaction, exampleTransaction]"
    by simp
  have a: "agreeOnNodes [exampleTransaction, otherTransaction]"
    by (simp add: agreeOnNodes_def txNodes_def userNode_def merchantNode_def deviceNode_def
        locationNode_def locationId_def exampleTransaction_def otherTransaction_def)
  have q: "mset [exampleTransaction, renamedMerchant] = mset [renamedMerchant, exampleTransaction]"
    by simp
  have m: "merchantNode exampleTransaction
           \<in> set (nodes (buildTransactionGraph [exampleTransaction, renamedMerchant]))"
    by (simp add: graph_eval exampleTransaction_def renamedMerchant_def)
  have k: "find (\<lambda>c. node_id c = node_id (merchantNode exampleTransaction))
         (concat (map txNodes [exampleTransaction, renamedMerchant]))
       = Some (merchantNode exampleTransaction)"
    using graph_reordering [OF q] m by blast
  have s: "set (nodes (buildTransactionGraph [exampleTransaction, otherTransaction]))
       = set (nodes (buildTransactionGraph [otherTransaction, exampleTransaction]))
     \<and> set (edges (buildTransactionGraph [exampleTransaction, otherTransaction]))
       = set (edges (buildTransactionGraph [otherTransaction, exampleTransaction]))"
    using graph_reordering [OF p] a by blast
  show ?thesis using p a s m k by simp
qed

section \<open>Scoring endpoint: probability range and risk bands\<close>

lemma riskLevelOf_cases:
  "riskLevelOf p = high \<longleftrightarrow> p > 0.7"
  "riskLevelOf p = medium \<longleftrightarrow> p > 0.4 \<and> \<not> p > 0.7"
  "riskLevelOf p = low \<longleftrightarrow> \<not> p > 0.4"
  by (auto simp: riskLevelOf_def)

lemma adjustProbability_range:
  "0 \<le> q \<Longrightarrow> 0 \<le> adjustProbability q anomalies \<and> adjustProbability q anomalies \<le> 1"
  by (simp add: adjustProbability_def Let_def)

lemma roundCents_range: "0 \<le> x \<Longrightarrow> x \<le> 1 \<Longrightarrow> 0 \<le> roundCents x \<and> roundCents x \<le> 1"
proof -
  assume a: "0 \<le> x" "x \<le> 1"
  have "0 \<le> \<lfloor>x * 100 + 1 / 2\<rfloor>" using a by simp
  moreover have "\<lfloor>x * 100 + 1 / 2\<rfloor> \<le> 100"
  proof -
    have "x * 100 + 1 / 2 < 101" using a by simp
    then have "\<lfloor>x * 100 + 1 / 2\<rfloor> < 101" by (simp add: floor_less_iff)
    then show ?thesis by simp
  qed
  ultimately show ?thesis by (simp add: roundCents_def)
qed

lemma roundCents_above_high: "roundCents x > 0.7 \<Longrightarrow> x > 0.7"
proof -
  assume "roundCents x > 0.7"
  then have "real_of_int \<lfloor>x * 100 + 1 / 2\<rfloor> > 70" by (simp add: roundCents_def)
  then have "\<lfloor>x * 100 + 1 / 2\<rfloor> \<ge> 71" by linarith
  then have "x * 100 + 1 / 2 \<ge> 71" by (simp add: le_floor_iff)
  then show ?thesis by simp
qed

lemma roundCents_above_medium: "roundCents x > 0.4 \<Longrightarrow> x > 0.4"
proof -
  assume "roundCents x > 0.4"
  then have "real_of_int \<lfloor>x * 100 + 1 / 2\<rfloor> > 40" by (simp add: roundCents_def)
  then have "\<lfloor>x * 100 + 1 / 2\<rfloor> \<ge> 41" by linarith
  then have "x * 100 + 1 / 2 \<ge> 41" by (simp add: le_floor_iff)
  then show ?thesis by simp
qed

lemma roundCents_below_high: "roundCents x < 0.7 \<Longrightarrow> x < 0.7"
proof -
  assume "roundCents x < 0.7"
  then have "real_of_int \<lfloor>x * 100 + 1 / 2\<rfloor> < 70" by (simp add: roundCents_def)
  then have "\<lfloor>x * 100 + 1 / 2\<rfloor> < 70" by linarith
  then have "x * 100 + 1 / 2 < 70" by (simp add: floor_less_iff)
  then show ?thesis by simp
qed

lemma roundCents_below_medium: "roundCents x < 0.4 \<Longrightarrow> x < 0.4"
proof -
  assume "roundCents x < 0.4"
  then have "real_of_int \<lfloor>x * 100 + 1 / 2\<rfloor> < 40" by (simp add: roundCents_def)
  then have "\<lfloor>x * 100 + 1 / 2\<rfloor> < 40" by linarith
  then have "x * 100 + 1 / 2 < 40" by (simp add: floor_less_iff)
  then show ?thesis by simp
qed

lemma roundCents_near: "\<bar>roundCents x - x\<bar> \<le> 1 / 200"
proof -
  define n where "n = real_of_int \<lfloor>x * 100 + 1 / 2\<rfloor>"
  have "n \<le> x * 100 + 1 / 2" unfolding n_def by (rule of_int_floor_le)
  moreover have "x * 100 + 1 / 2 < n + 1" unfolding n_def by linarith
  ultimately have "\<bar>n / 100 - x\<bar> \<le> 1 / 200" by linarith
  then show ?thesis by (simp add: roundCents_def n_def)
qed

lemma predictFraud_range:
  "predictFraud now noise draw tx bio = Inr pr \<Longrightarrow>
   0 \<le> pred_fraudProbability pr \<and> pred_fraudProbability pr \<le> 1"
  by (auto simp: predictFraud_def Let_def split: option.splits)

lemma scoreTransaction_Ok:
  assumes "snd (scoreTransaction p now rnd noise draw transaction biometric recent) = Ok resp"
  shows "\<exists>tx bio anomalies pr.
           transaction = Some tx \<and> biometric = Some bio
           \<and> snd (processBiometricData p bio rnd now) = Inr anomalies
           \<and> predictFraud now noise draw tx bio = Inr pr
           \<and> resp_fraudProbability resp
               = roundCents (adjustProbability (pred_fraudProbability pr) anomalies)
           \<and> resp_riskLevel resp
               = riskLevelOf (adjustProbability (pred_fraudProbability pr) anomalies)"
proof -
  from assms obtain tx bio where tb: "transaction = Some tx" "biometric = Some bio"
    by (cases transaction; cases biometric) (simp_all add: scoreTransaction_def)
  obtain p' r where pb: "processBiometricData p bio rnd now = (p', r)"
    by (cases "processBiometricData p bio rnd now")
  from assms tb pb obtain anomalies where r: "r = Inr anomalies"
    by (cases r) (simp_all add: scoreTransaction_def)
  from assms tb pb r obtain pr where pf: "predictFraud now noise draw tx bio = Inr pr"
    by (cases "predictFraud now noise draw tx bio") (simp_all add: scoreTransaction_def Let_def)
  let ?q = "adjustProbability (pred_fraudProbability pr) anomalies"
  have "resp_fraudProbability resp = roundCents ?q \<and> resp_riskLevel resp = riskLevelOf ?q"
    using assms tb pb r pf by (auto simp: scoreTransaction_def Let_def)
  then show ?thesis using tb pb r pf by simp
qed

text \<open>
  C1 (as amended). Every verdict that the single-transaction endpoint returns has a
  \<open>fraudProbability\<close> in [0,1]: it is the adjusted probability (the scorer's probability
  of the transaction, raised by 0.2 for each high and 0.1 for each medium biometric
  anomaly of the sample, capped at 1), rounded to two decimals, so the two differ by at
  most 0.005. The \<open>riskLevel\<close> follows the bands on the adjusted probability before the
  rounding: high when it exceeds 0.7, medium when it exceeds 0.4 but not 0.7, low
  otherwise. On the returned probability this gives high when it exceeds 0.7, medium
  when it lies strictly between 0.4 and 0.7, and low when it is below 0.4; a returned 0.7
  can come with high or medium, a returned 0.4 with medium or low.
\<close>

theorem verdict_bands:
  assumes "snd (scoreTransaction p now rnd noise draw transaction biometric recent) = Ok resp"
  shows "(\<exists>tx bio anomalies pr.
            transaction = Some tx \<and> biometric = Some bio
            \<and> snd (processBiometricData p bio rnd now) = Inr anomalies
            \<and> predictFraud now noise draw tx bio = Inr pr
            \<and> 0 \<le> adjustProbability (pred_fraudProbability pr) anomalies
            \<and> adjustProbability (pred_fraudProbability pr) anomalies \<le> 1
            \<and> resp_fraudProbability resp
                = roundCents (adjustProbability (pred_fraudProbability pr) anomalies)
            \<and> \<bar>resp_fraudProbability resp
                 - adjustProbability (pred_fraudProbability pr) anomalies\<bar> \<le> 1 / 200
            \<and> resp_riskLevel resp
                = (if adjustProbability (pred_fraudProbability pr) anomalies > 0.7 then high
                   else if adjustProbability (pred_fraudProbability pr) anomalies > 0.4 then medium
                   else low))
         \<and> 0 \<le> resp_fraudProbability resp \<and> resp_fraudProbability resp \<le> 1
         \<and> (resp_fraudProbability resp > 0.7 \<longrightarrow> resp_riskLevel resp = high)
         \<and> (resp_fraudProbability resp > 0.4 \<and> resp_fraudProbability resp < 0.7
                \<longrightarrow> resp_riskLevel resp = medium)
         \<and> (resp_fraudProbability resp < 0.4 \<longrightarrow> resp_riskLevel resp = low)"
proof -
  obtain tx bio anomalies pr where o: "transaction = Some tx" "biometric = Some bio"
      "snd (processBiometricData p bio rnd now) = Inr anomalies"
      "predictFraud now noise draw tx bio = Inr pr"
    and rf: "resp_fraudProbability resp
             = roundCents (adjustProbability (pred_fraudProbability pr) anomalies)"
    and rl: "resp_riskLevel resp
             = riskLevelOf (adjustProbability (pred_fraudProbability pr) anomalies)"
    using scoreTransaction_Ok [OF assms] by blast
  define q where "q = adjustProbability (pred_fraudProbability pr) anomalies"
  have q: "0 \<le> q" "q \<le> 1"
    using predictFraud_range [OF o(4)] adjustProbability_range [of "pred_fraudProbability pr" anomalies]
    by (simp_all add: q_def)
  have rf': "resp_fraudProbability resp = roundCents q" using rf by (simp add: q_def)
  have rl': "resp_riskLevel resp = riskLevelOf q" using rl by (simp add: q_def)
  have a: "0 \<le> resp_fraudProbability resp \<and> resp_fraudProbability resp \<le> 1"
    using q rf' roundCents_range by simp
  have b: "\<bar>resp_fraudProbability resp - q\<bar> \<le> 1 / 200"
    using rf' roundCents_near by simp
  have c: "resp_fraudProbability resp > 0.7 \<longrightarrow> resp_riskLevel resp = high"
  proof
    assume h: "resp_fraudProbability resp > 0.7"
    have "q > 0.7" using h rf' roundCents_above_high [of q] by simp
    then have "riskLevelOf q = high" using riskLevelOf_cases(1) [of q] by simp
    then show "resp_riskLevel resp = high" using rl' by simp
  qed
  have d: "resp_fraudProbability resp > 0.4 \<and> resp_fraudProbability resp < 0.7
           \<longrightarrow> resp_riskLevel resp = medium"
  proof
    assume h: "resp_fraudProbability resp > 0.4 \<and> resp_fraudProbability resp < 0.7"
    have "q > 0.4" using h rf' roundCents_above_medium [of q] by simp
    moreover have "q < 0.7" using h rf' roundCents_below_high [of q] by simp
    ultimately have "riskLevelOf q = medium" using riskLevelOf_cases(2) [of q] by simp
    then show "resp_riskLevel resp = medium" using rl' by simp
  qed
  have e: "resp_fraudProbability resp < 0.4 \<longrightarrow> resp_riskLevel resp = low"
  proof
    assume h: "resp_fraudProbability resp < 0.4"
    have "q < 0.4" using h rf' roundCents_below_medium [of q] by simp
    then have "riskLevelOf q = low" using riskLevelOf_cases(3) [of q] by simp
    then show "resp_riskLevel resp = low" using rl' by simp
  qed
  have f: "resp_riskLevel resp = (if q > 0.7 then high else if q > 0.4 then medium else low)"
    using rl' by (simp add: riskLevelOf_def)
  have x: "\<exists>tx bio anomalies pr.
            transaction = Some tx \<and> biometric = Some bio
            \<and> snd (processBiometricData p bio rnd now) = Inr anomalies
            \<and> predictFraud now noise draw tx bio = Inr pr
            \<and> 0 \<le> adjustProbability (pred_fraudProbability pr) anomalies
            \<and> adjustProbability (pred_fraudProbability pr) anomalies \<le> 1
            \<and> resp_fraudProbability resp
                = roundCents (adjustProbability (pred_fraudProbability pr) anomalies)
            \<and> \<bar>resp_fraudProbability resp
                 - adjustProbability (pred_fraudProbability pr) anomalies\<bar> \<le> 1 / 200
            \<and> resp_riskLevel resp
                = (if adjustProbability (pred_fraudProbability pr) anomalies > 0.7 then high
                   else if adjustProbability (pred_fraudProbability pr) anomalies > 0.4 then medium
                   else low)"
    using o q rf' b f unfolding q_def by blast
  show ?thesis
    apply (intro conjI)
         apply (rule x)
        apply (rule conjunct1 [OF a])
       apply (rule conjunct2 [OF a])
      apply (rule c)
     apply (rule d)
    apply (rule e)
    done
qed

lemma example_no_anomalies:
  "snd (processBiometricData exampleProcessor exampleSample rnd now) = Inr []"
  by (simp add: processBiometricData_def profileFor_def exampleProcessor_def exampleSample_def
      exampleProfile_def exampleKeystrokes_def exampleMouse_def exampleSensors_def
      analyzeKeystrokeDynamics_def analyzeMouseMovements_def analyzeDeviceSensors_def
      keystrokeAnomalies_def mouseAnomalies_def deviceAnomalies_def deviationAnomaly_def
      relativeDeviation_def average_def jssub_def classifyMovementPattern_def calculateVariance_def
      calculateVectorDeviation_def orientationDeviation_def jslt_def Let_def)

lemma example_prediction:
  "predictFraud 43200000 noise draw retailTransaction exampleSample
   = Inr \<lparr> pred_transactionId = ''txn_5'',
           pred_fraudProbability = max 0 (min 1 (0.7 + noise * 0.2)),
           pred_riskLevel = riskLevelOf (max 0 (min 1 (0.7 + noise * 0.2))),
           pred_explanation = [HighTransactionAmount 6000],
           pred_confidence = draw * 0.3 + 0.7 \<rparr>"
  by (simp add: predictFraud_def computeFraudScore_def generateExplanation_def getHours_def
      retailTransaction_def exampleSample_def exampleKeystrokes_def Let_def)

lemma example_response:
  "snd (scoreTransaction exampleProcessor 43200000 rnd noise draw
          (Some retailTransaction) (Some exampleSample) None)
   = Ok \<lparr> resp_transactionId = ''txn_5'',
          resp_fraudProbability = roundCents (max 0 (min 1 (0.7 + noise * 0.2))),
          resp_riskLevel = riskLevelOf (max 0 (min 1 (0.7 + noise * 0.2))),
          resp_explanation = [HighTransactionAmount 6000],
          resp_biometricAnomalies = 0,
          resp_graphNodes = 0,
          resp_confidence = draw * 0.3 + 0.7 \<rparr>"
proof -
  obtain p' where pb: "processBiometricData exampleProcessor exampleSample rnd 43200000 = (p', Inr [])"
    using example_no_anomalies [of rnd 43200000]
    by (cases "processBiometricData exampleProcessor exampleSample rnd 43200000") auto
  have g: "nodes (buildTransactionGraph []) = []"
    by (simp add: buildTransactionGraph_def)
  have t: "tx_id retailTransaction = ''txn_5''"
    by (simp add: retailTransaction_def)
  show ?thesis
    by (simp add: scoreTransaction_def pb example_prediction Let_def adjustProbability_def g t)
qed

text \<open>
  Amount 6000 at a retail merchant, scored at noon with the noise draw 0.02 and no
  anomaly: the adjusted probability is 0.704, so the level is high, and the response
  carries the rounded 0.70, which does not exceed 0.7.
\<close>

theorem verdict_bands_counterexample:
  "snd (scoreTransaction exampleProcessor 43200000 (\<lambda>k. 0) (1 / 50) (1 / 2)
          (Some retailTransaction) (Some exampleSample) None)
   = Ok \<lparr> resp_transactionId = ''txn_5'',
          resp_fraudProbability = 7 / 10,
          resp_riskLevel = high,
          resp_explanation = [HighTransactionAmount 6000],
          resp_biometricAnomalies = 0,
          resp_graphNodes = 0,
          resp_confidence = 17 / 20 \<rparr>"
  by (simp add: example_response roundCents_def riskLevelOf_def)

text \<open>
  The same input with the noise draw 0.5: probability 0.8, level high. With the noise
  draw 0 the adjusted probability is 0.7 itself, which does not exceed 0.7: the level is
  medium, and the response carries 0.70 as in the case above.
\<close>

theorem verdict_bands_witness:
  "snd (scoreTransaction exampleProcessor 43200000 (\<lambda>k. 0) (1 / 2) (1 / 2)
          (Some retailTransaction) (Some exampleSample) None)
   = Ok \<lparr> resp_transactionId = ''txn_5'',
          resp_fraudProbability = 8 / 10,
          resp_riskLevel = high,
          resp_explanation = [HighTransactionAmount 6000],
          resp_biometricAnomalies = 0,
          resp_graphNodes = 0,
          resp_confidence = 17 / 20 \<rparr>
   \<and> (0::real) \<le> 8 / 10 \<and> (8 / 10 :: real) \<le> 1 \<and> (8 / 10 :: real) > 0.7
   \<and> snd (scoreTransaction exampleProcessor 43200000 (\<lambda>k. 0) 0 (1 / 2)
          (Some retailTransaction) (Some exampleSample) None)
   = Ok \<lparr> resp_transactionId = ''txn_5'',
          resp_fraudProbability = 7 / 10,
          resp_riskLevel = medium,
          resp_explanation = [HighTransactionAmount 6000],
          resp_biometricAnomalies = 0,
          resp_graphNodes = 0,
          resp_confidence = 17 / 20 \<rparr>
   \<and> (\<exists>pr. predictFraud 43200000 0 (1 / 2) retailTransaction exampleSample = Inr pr
         \<and> adjustProbability (pred_fraudProbability pr) [] = 7 / 10)"
proof -
  have r: "snd (scoreTransaction exampleProcessor 43200000 (\<lambda>k. 0) (1 / 2) (1 / 2)
          (Some retailTransaction) (Some exampleSample) None)
   = Ok \<lparr> resp_transactionId = ''txn_5'',
          resp_fraudProbability = 8 / 10,
          resp_riskLevel = high,
          resp_explanation = [HighTransactionAmount 6000],
          resp_biometricAnomalies = 0,
          resp_graphNodes = 0,
          resp_confidence = 17 / 20 \<rparr>"
    by (simp add: example_response roundCents_def riskLevelOf_def)
  have b: "snd (scoreTransaction exampleProcessor 43200000 (\<lambda>k. 0) 0 (1 / 2)
          (Some retailTransaction) (Some exampleSample) None)
   = Ok \<lparr> resp_transactionId = ''txn_5'',
          resp_fraudProbability = 7 / 10,
          resp_riskLevel = medium,
          resp_explanation = [HighTransactionAmount 6000],
          resp_biometricAnomalies = 0,
          resp_graphNodes = 0,
          resp_confidence = 17 / 20 \<rparr>"
    by (simp add: example_response roundCents_def riskLevelOf_def)
  have q: "\<exists>pr. predictFraud 43200000 0 (1 / 2) retailTransaction exampleSample = Inr pr
         \<and> adjustProbability (pred_fraudProbability pr) [] = 7 / 10"
    by (simp add: example_prediction adjustProbability_def)
  have n: "(0::real) \<le> 8 / 10 \<and> (8 / 10 :: real) \<le> 1 \<and> (8 / 10 :: real) > 0.7"
    by simp
  show ?thesis
    using verdict_bands [OF r] verdict_bands [OF b] r b q n
    apply -
    apply (intro conjI)
         apply assumption
        apply (rule conjunct1 [OF n])
       apply (rule conjunct1 [OF conjunct2 [OF n]])
      apply (rule conjunct2 [OF conjunct2 [OF n]])
     apply (rule b)
    apply (rule q)
    done
qed

text \<open>
  At the lower boundary: amount 2000 at the same merchant with the noise draw 0.5 has the
  adjusted probability 0.4, level low; with the noise draw 0.52 it is 0.404, level
  medium. Both responses carry 0.40.
\<close>

lemma lower_boundary:
  "snd (scoreTransaction exampleProcessor 43200000 (\<lambda>k. 0) (1 / 2) (1 / 2)
          (Some (retailTransaction\<lparr>amount := 2000\<rparr>)) (Some exampleSample) None)
   = Ok \<lparr> resp_transactionId = ''txn_5'',
          resp_fraudProbability = 4 / 10,
          resp_riskLevel = low,
          resp_explanation = [HighTransactionAmount 2000],
          resp_biometricAnomalies = 0,
          resp_graphNodes = 0,
          resp_confidence = 17 / 20 \<rparr>
   \<and> snd (scoreTransaction exampleProcessor 43200000 (\<lambda>k. 0) (13 / 25) (1 / 2)
          (Some (retailTransaction\<lparr>amount := 2000\<rparr>)) (Some exampleSample) None)
   = Ok \<lparr> resp_transactionId = ''txn_5'',
          resp_fraudProbability = 4 / 10,
          resp_riskLevel = medium,
          resp_explanation = [HighTransactionAmount 2000],
          resp_biometricAnomalies = 0,
          resp_graphNodes = 0,
          resp_confidence = 17 / 20 \<rparr>"
proof -
  obtain p' where pb: "processBiometricData exampleProcessor exampleSample (\<lambda>k. 0) 43200000 = (p', Inr [])"
    using example_no_anomalies [of "\<lambda>k. 0" 43200000]
    by (cases "processBiometricData exampleProcessor exampleSample (\<lambda>k. 0) 43200000") auto
  have g: "nodes (buildTransactionGraph []) = []"
    by (simp add: buildTransactionGraph_def)
  have pf: "predictFraud 43200000 noise (1 / 2) (retailTransaction\<lparr>amount := 2000\<rparr>) exampleSample
   = Inr \<lparr> pred_transactionId = ''txn_5'',
           pred_fraudProbability = max 0 (min 1 (0.3 + noise * 0.2)),
           pred_riskLevel = riskLevelOf (max 0 (min 1 (0.3 + noise * 0.2))),
           pred_explanation = [HighTransactionAmount 2000],
           pred_confidence = 17 / 20 \<rparr>" for noise
    by (simp add: predictFraud_def computeFraudScore_def generateExplanation_def getHours_def
        retailTransaction_def exampleSample_def exampleKeystrokes_def Let_def)
  have t: "tx_id (retailTransaction\<lparr>amount := 2000\<rparr>) = ''txn_5''"
    by (simp add: retailTransaction_def)
  show ?thesis
    by (simp add: scoreTransaction_def pb pf Let_def adjustProbability_def g t roundCents_def
        riskLevelOf_def)
qed

section \<open>Fraud scoring: the base score\<close>

lemma predictFraud_InrD:
  "predictFraud now noise draw tx bio = Inr pr \<Longrightarrow>
   \<exists>ks. keystrokeDynamics bio = Some ks
     \<and> pred_fraudProbability pr = max 0 (min 1 (computeFraudScore now noise tx))
     \<and> pred_riskLevel pr = riskLevelOf (pred_fraudProbability pr)
     \<and> pred_explanation pr = generateExplanation now tx ks (pred_fraudProbability pr)"
  by (auto simp: predictFraud_def Let_def split: option.splits)

text \<open>
  C4 (as amended). The base score is the sum of the rule contributions: 0.3 for an amount
  over 1000, another 0.4 for an amount over 5000, 0.2 when the hour of the clock at the
  time of scoring is before 6 or after 22 (the timestamp of the transaction is not
  read), 0.3 for the category \<open>atm\<close> with an amount over 500, and a noise term in
  [0, 0.2); the probability is the score clipped to [0,1]. A transaction with amount
  6000 and category \<open>atm\<close> that is scored at hour 2 gets the risk level high and an
  explanation with a high-amount entry and an unusual-time entry.
\<close>

theorem base_score:
  "computeFraudScore now noise tx
     = (if amount tx > 1000 then 0.3 else 0)
       + (if amount tx > 5000 then 0.4 else 0)
       + (if getHours now < 6 \<or> getHours now > 22 then 0.2 else 0)
       + (if category (merchant tx) = ''atm'' \<and> amount tx > 500 then 0.3 else 0)
       + noise * 0.2
   \<and> (0 \<le> noise \<and> noise < 1 \<longrightarrow> 0 \<le> noise * 0.2 \<and> noise * 0.2 < 0.2)
   \<and> (predictFraud now noise draw tx bio = Inr pr \<longrightarrow>
        pred_fraudProbability pr = max 0 (min 1 (computeFraudScore now noise tx)))
   \<and> (amount tx = 6000 \<and> category (merchant tx) = ''atm'' \<and> getHours now = 2 \<and> 0 \<le> noise
        \<and> predictFraud now noise draw tx bio = Inr pr \<longrightarrow>
        pred_riskLevel pr = high
        \<and> HighTransactionAmount 6000 \<in> set (pred_explanation pr)
        \<and> UnusualTime 2 \<in> set (pred_explanation pr))"
proof (intro conjI impI)
  show "computeFraudScore now noise tx
     = (if amount tx > 1000 then 0.3 else 0)
       + (if amount tx > 5000 then 0.4 else 0)
       + (if getHours now < 6 \<or> getHours now > 22 then 0.2 else 0)
       + (if category (merchant tx) = ''atm'' \<and> amount tx > 500 then 0.3 else 0)
       + noise * 0.2"
    by (simp add: computeFraudScore_def Let_def)
next
  assume "0 \<le> noise \<and> noise < 1"
  then show "0 \<le> noise * 0.2" "noise * 0.2 < 0.2" by simp_all
next
  assume "predictFraud now noise draw tx bio = Inr pr"
  then show "pred_fraudProbability pr = max 0 (min 1 (computeFraudScore now noise tx))"
    using predictFraud_InrD by blast
next
  assume a: "amount tx = 6000 \<and> category (merchant tx) = ''atm'' \<and> getHours now = 2 \<and> 0 \<le> noise
        \<and> predictFraud now noise draw tx bio = Inr pr"
  then obtain ks where d: "pred_fraudProbability pr = max 0 (min 1 (computeFraudScore now noise tx))"
      "pred_riskLevel pr = riskLevelOf (pred_fraudProbability pr)"
      "pred_explanation pr = generateExplanation now tx ks (pred_fraudProbability pr)"
    using predictFraud_InrD [of now noise draw tx bio pr] by blast
  have "computeFraudScore now noise tx = 1.2 + noise * 0.2"
    using a by (simp add: computeFraudScore_def Let_def)
  then have p1: "pred_fraudProbability pr = 1"
    using a d(1) by simp
  show "pred_riskLevel pr = high"
    using d(2) p1 by (simp add: riskLevelOf_def)
  show "HighTransactionAmount 6000 \<in> set (pred_explanation pr)"
    using a d(3) by (simp add: generateExplanation_def Let_def)
  show "UnusualTime 2 \<in> set (pred_explanation pr)"
    using a d(3) by (simp add: generateExplanation_def Let_def)
qed

text \<open>
  A transaction stamped 02:00, of amount 6000 at an ATM, scored at 14:00 (with the noise
  draw 0): the base score is 0.3 + 0.4 + 0.3 with no night contribution, and the
  explanation has no unusual-time entry.
\<close>

theorem base_score_counterexample:
  "map_option getHours (tx_timestamp exampleTransaction) = Some 2
   \<and> amount exampleTransaction = 6000
   \<and> category (merchant exampleTransaction) = ''atm''
   \<and> computeFraudScore 50400000 0 exampleTransaction = 1
   \<and> predictFraud 50400000 0 (1 / 2) exampleTransaction exampleSample
       = Inr \<lparr> pred_transactionId = ''txn_2'', pred_fraudProbability = 1, pred_riskLevel = high,
               pred_explanation = [HighTransactionAmount 6000, LargeATMWithdrawal 6000],
               pred_confidence = 17 / 20 \<rparr>"
  by (simp add: getHours_def exampleTransaction_def computeFraudScore_def predictFraud_def
      generateExplanation_def riskLevelOf_def exampleSample_def exampleKeystrokes_def Let_def)

text \<open>
  The same transaction scored at 02:00 with the noise draw 0.5: score 1.3, level high,
  and both entries in the explanation.
\<close>

theorem base_score_witness:
  "(0::real) \<le> 1 / 2 \<and> (1 / 2 :: real) < 1
   \<and> amount exampleTransaction = 6000 \<and> category (merchant exampleTransaction) = ''atm''
   \<and> getHours 7200000 = 2
   \<and> predictFraud 7200000 (1 / 2) (1 / 2) exampleTransaction exampleSample
       = Inr \<lparr> pred_transactionId = ''txn_2'', pred_fraudProbability = 1, pred_riskLevel = high,
               pred_explanation = [HighTransactionAmount 6000, UnusualTime 2, LargeATMWithdrawal 6000],
               pred_confidence = 17 / 20 \<rparr>
   \<and> computeFraudScore 7200000 (1 / 2) exampleTransaction = 13 / 10"
proof -
  let ?pr = "\<lparr> pred_transactionId = ''txn_2'', pred_fraudProbability = 1, pred_riskLevel = high,
               pred_explanation = [HighTransactionAmount 6000, UnusualTime 2, LargeATMWithdrawal 6000],
               pred_confidence = 17 / 20 \<rparr>"
  have h: "getHours 7200000 = 2" by (simp add: getHours_def)
  have t: "amount exampleTransaction = 6000 \<and> category (merchant exampleTransaction) = ''atm''"
    by (simp add: exampleTransaction_def)
  have pf: "predictFraud 7200000 (1 / 2) (1 / 2) exampleTransaction exampleSample = Inr ?pr"
    by (simp add: getHours_def exampleTransaction_def computeFraudScore_def predictFraud_def
      generateExplanation_def riskLevelOf_def exampleSample_def exampleKeystrokes_def Let_def)
  show ?thesis
    using base_score [of 7200000 "1 / 2" exampleTransaction "1 / 2" exampleSample ?pr] h t pf
    by simp
qed

section \<open>Batch endpoint: failure isolation\<close>

lemma processItems_Cons:
  "processItems p now rnd noise draw bios i (tx # rest)
   = (fst (processItems (fst (processItem p now (rnd i) (noise i) (draw i) tx (biometricAt bios i)))
             now rnd noise draw bios (i + 1) rest),
      snd (processItem p now (rnd i) (noise i) (draw i) tx (biometricAt bios i))
      # snd (processItems (fst (processItem p now (rnd i) (noise i) (draw i) tx (biometricAt bios i)))
               now rnd noise draw bios (i + 1) rest))"
  by (simp add: Let_def split: prod.splits)

lemma processItems_length:
  "length (snd (processItems p now rnd noise draw bios i txs)) = length txs"
  by (induction txs arbitrary: p i) (simp_all add: processItems_Cons del: processItems.simps(2))

lemma processItems_nth:
  "k < length txs \<Longrightarrow>
   snd (processItems p now rnd noise draw bios i txs) ! k
   = snd (processItem (fst (processItems p now rnd noise draw bios i (take k txs)))
            now (rnd (i + k)) (noise (i + k)) (draw (i + k)) (txs ! k) (biometricAt bios (i + k)))"
proof (induction txs arbitrary: p i k)
  case Nil
  then show ?case by simp
next
  case (Cons tx txs)
  let ?p' = "fst (processItem p now (rnd i) (noise i) (draw i) tx (biometricAt bios i))"
  show ?case
  proof (cases k)
    case 0
    then show ?thesis by (simp add: processItems_Cons del: processItems.simps(2))
  next
    case (Suc j)
    then have j: "j < length txs" using Cons.prems by simp
    show ?thesis
      using Cons.IH [OF j, of ?p' "i + 1"] Suc
      by (simp add: processItems_Cons del: processItems.simps(2))
  qed
qed

lemma processingThrows_iff:
  "processingThrows p now rnd noise draw tx bio
   \<longleftrightarrow> keystrokeDynamics bio = None \<or> mouseMovements bio = None \<or> deviceSensors bio = None"
  by (auto simp: processingThrows_def processBiometricData_def predictFraud_def Let_def
      analyzeKeystrokeDynamics_def analyzeMouseMovements_def analyzeDeviceSensors_def
      split: option.splits sum.splits)

lemma processItem_throws:
  "processingThrows p now rnd noise draw tx bio \<Longrightarrow>
   snd (processItem p now rnd noise draw tx (Some bio)) = degraded (tx_id tx) ''Processing failed''"
  by (auto simp: processingThrows_def processItem_def Let_def split: prod.splits sum.splits)

lemma processItem_normal:
  "\<not> processingThrows p now rnd noise draw tx bio \<Longrightarrow>
   \<exists>anomalies pr.
     snd (processBiometricData p bio rnd now) = Inr anomalies
     \<and> predictFraud now noise draw tx bio = Inr pr
     \<and> snd (processItem p now rnd noise draw tx (Some bio))
         = \<lparr> br_transactionId = tx_id tx, br_error = None,
             br_fraudProbability = roundCents (adjustProbability (pred_fraudProbability pr) anomalies),
             br_riskLevel = riskLevelOf (adjustProbability (pred_fraudProbability pr) anomalies),
             br_explanation = Some (pred_explanation pr
                                    @ map (\<lambda>anomaly. Biometric (description anomaly)) anomalies),
             br_biometricAnomalies = Some (length anomalies),
             br_confidence = Some (pred_confidence pr) \<rparr>"
  by (auto simp: processingThrows_def processItem_def Let_def split: prod.splits sum.splits)

lemma processItem_missing:
  "snd (processItem p now rnd noise draw tx None) = degraded (tx_id tx) ''Missing biometric data''"
  by (simp add: processItem_def)

lemma scoreBatch_Ok:
  "txs \<noteq> [] \<Longrightarrow>
   snd (scoreBatch p now rnd noise draw (Some txs) bios recent)
   = Ok \<lparr> results = snd (processItems p now rnd noise draw bios 0 txs),
          summary = summarize (length txs) (snd (processItems p now rnd noise draw bios 0 txs)) \<rparr>"
  by (simp add: scoreBatch_def Let_def split: prod.splits)


lemma degraded_fields:
  "br_fraudProbability (degraded tid message) = 0.5"
  "br_riskLevel (degraded tid message) = medium"
  "br_error (degraded tid message) = Some message"
  by (simp_all add: degraded_def)

lemma batch_item:
  assumes k: "k < length txs"
  shows "snd (processItems p now rnd noise draw bios 0 txs) ! k
         = snd (processItem (processorBefore p now rnd noise draw bios txs k)
                  now (rnd k) (noise k) (draw k) (txs ! k) (biometricAt bios k))"
  using processItems_nth [OF k, of p now rnd noise draw bios 0]
  by (simp add: processorBefore_def)

lemma batch_item_error:
  assumes k: "k < length txs"
  shows "\<not> falsy (br_error (snd (processItems p now rnd noise draw bios 0 txs) ! k))
         \<longleftrightarrow> (biometricAt bios k = None
              \<or> (\<exists>bio. biometricAt bios k = Some bio
                    \<and> processingThrows (processorBefore p now rnd noise draw bios txs k)
                          now (rnd k) (noise k) (draw k) (txs ! k) bio))"
proof (cases "biometricAt bios k")
  case None
  then show ?thesis
    using batch_item [OF k, of p now rnd noise draw bios]
    by (simp add: processItem_missing degraded_fields falsy_def)
next
  case (Some bio)
  let ?pk = "processorBefore p now rnd noise draw bios txs k"
  show ?thesis
  proof (cases "processingThrows ?pk now (rnd k) (noise k) (draw k) (txs ! k) bio")
    case True
    then show ?thesis
      using batch_item [OF k, of p now rnd noise draw bios] Some processItem_throws [OF True]
      by (simp add: degraded_fields falsy_def)
  next
    case False
    then show ?thesis
      using batch_item [OF k, of p now rnd noise draw bios] Some processItem_normal [OF False]
      by (auto simp: falsy_def)
  qed
qed

lemma count_by_index:
  "length (filter P xs) = card {k. k < length xs \<and> P (xs ! k)}"
  by (simp add: length_filter_conv_card)

text \<open>
  C5. A batch with at least one transaction always answers with one result per
  transaction. An item whose processing throws (which happens exactly when its own
  sample lacks one of its three groups) gets the default result: \<open>fraudProbability\<close> 0.5,
  \<open>riskLevel\<close> medium and \<open>error\<close> set; so does an item without a sample. Every other
  item gets its normal verdict, computed from its own inputs and the processor as the
  items before it left it. The \<open>errors\<close> count of the summary is the number of items
  with a default result.
\<close>

theorem batch_isolation:
  assumes "txs \<noteq> []"
  shows "\<exists>rs. snd (scoreBatch p now rnd noise draw (Some txs) bios recent)
                = Ok \<lparr> results = rs, summary = summarize (length txs) rs \<rparr>
          \<and> length rs = length txs
          \<and> (\<forall>k < length txs. \<forall>bio.
                biometricAt bios k = Some bio \<longrightarrow>
                (if processingThrows (processorBefore p now rnd noise draw bios txs k)
                      now (rnd k) (noise k) (draw k) (txs ! k) bio
                 then rs ! k = degraded (tx_id (txs ! k)) ''Processing failed''
                      \<and> br_fraudProbability (rs ! k) = 0.5
                      \<and> br_riskLevel (rs ! k) = medium
                      \<and> br_error (rs ! k) = Some ''Processing failed''
                 else br_error (rs ! k) = None
                      \<and> (\<exists>anomalies pr.
                            snd (processBiometricData (processorBefore p now rnd noise draw bios txs k)
                                   bio (rnd k) now) = Inr anomalies
                            \<and> predictFraud now (noise k) (draw k) (txs ! k) bio = Inr pr
                            \<and> br_fraudProbability (rs ! k)
                                = roundCents (adjustProbability (pred_fraudProbability pr) anomalies)
                            \<and> br_riskLevel (rs ! k)
                                = riskLevelOf (adjustProbability (pred_fraudProbability pr) anomalies)
                            \<and> br_explanation (rs ! k)
                                = Some (pred_explanation pr
                                        @ map (\<lambda>anomaly. Biometric (description anomaly)) anomalies))))
          \<and> (\<forall>k < length txs. \<forall>bio.
                biometricAt bios k = Some bio \<longrightarrow>
                (processingThrows (processorBefore p now rnd noise draw bios txs k)
                    now (rnd k) (noise k) (draw k) (txs ! k) bio
                 \<longleftrightarrow> keystrokeDynamics bio = None \<or> mouseMovements bio = None
                      \<or> deviceSensors bio = None))
          \<and> (\<forall>k < length txs. biometricAt bios k = None \<longrightarrow>
                rs ! k = degraded (tx_id (txs ! k)) ''Missing biometric data'')
          \<and> errors (summarize (length txs) rs)
              = card {k. k < length txs
                        \<and> (biometricAt bios k = None
                           \<or> (\<exists>bio. biometricAt bios k = Some bio
                                 \<and> processingThrows (processorBefore p now rnd noise draw bios txs k)
                                       now (rnd k) (noise k) (draw k) (txs ! k) bio))}"
proof -
  let ?rs = "snd (processItems p now rnd noise draw bios 0 txs)"
  have len: "length ?rs = length txs"
    by (rule processItems_length)
  have ok: "snd (scoreBatch p now rnd noise draw (Some txs) bios recent)
            = Ok \<lparr> results = ?rs, summary = summarize (length txs) ?rs \<rparr>"
    using assms by (rule scoreBatch_Ok)
  have present: "\<forall>k < length txs. \<forall>bio.
                biometricAt bios k = Some bio \<longrightarrow>
                (if processingThrows (processorBefore p now rnd noise draw bios txs k)
                      now (rnd k) (noise k) (draw k) (txs ! k) bio
                 then ?rs ! k = degraded (tx_id (txs ! k)) ''Processing failed''
                      \<and> br_fraudProbability (?rs ! k) = 0.5
                      \<and> br_riskLevel (?rs ! k) = medium
                      \<and> br_error (?rs ! k) = Some ''Processing failed''
                 else br_error (?rs ! k) = None
                      \<and> (\<exists>anomalies pr.
                            snd (processBiometricData (processorBefore p now rnd noise draw bios txs k)
                                   bio (rnd k) now) = Inr anomalies
                            \<and> predictFraud now (noise k) (draw k) (txs ! k) bio = Inr pr
                            \<and> br_fraudProbability (?rs ! k)
                                = roundCents (adjustProbability (pred_fraudProbability pr) anomalies)
                            \<and> br_riskLevel (?rs ! k)
                                = riskLevelOf (adjustProbability (pred_fraudProbability pr) anomalies)
                            \<and> br_explanation (?rs ! k)
                                = Some (pred_explanation pr
                                        @ map (\<lambda>anomaly. Biometric (description anomaly)) anomalies)))"
  proof (intro allI impI)
    fix k bio
    assume k: "k < length txs" and b: "biometricAt bios k = Some bio"
    let ?pk = "processorBefore p now rnd noise draw bios txs k"
    have item: "?rs ! k = snd (processItem ?pk now (rnd k) (noise k) (draw k) (txs ! k) (Some bio))"
      using batch_item [OF k, of p now rnd noise draw bios] b by simp
    show "if processingThrows ?pk now (rnd k) (noise k) (draw k) (txs ! k) bio
                 then ?rs ! k = degraded (tx_id (txs ! k)) ''Processing failed''
                      \<and> br_fraudProbability (?rs ! k) = 0.5
                      \<and> br_riskLevel (?rs ! k) = medium
                      \<and> br_error (?rs ! k) = Some ''Processing failed''
                 else br_error (?rs ! k) = None
                      \<and> (\<exists>anomalies pr.
                            snd (processBiometricData ?pk bio (rnd k) now) = Inr anomalies
                            \<and> predictFraud now (noise k) (draw k) (txs ! k) bio = Inr pr
                            \<and> br_fraudProbability (?rs ! k)
                                = roundCents (adjustProbability (pred_fraudProbability pr) anomalies)
                            \<and> br_riskLevel (?rs ! k)
                                = riskLevelOf (adjustProbability (pred_fraudProbability pr) anomalies)
                            \<and> br_explanation (?rs ! k)
                                = Some (pred_explanation pr
                                        @ map (\<lambda>anomaly. Biometric (description anomaly)) anomalies))"
    proof (cases "processingThrows ?pk now (rnd k) (noise k) (draw k) (txs ! k) bio")
      case True
      then show ?thesis
        using item processItem_throws [OF True] by (simp add: degraded_fields)
    next
      case False
      obtain anomalies pr where n:
        "snd (processBiometricData ?pk bio (rnd k) now) = Inr anomalies"
        "predictFraud now (noise k) (draw k) (txs ! k) bio = Inr pr"
        "snd (processItem ?pk now (rnd k) (noise k) (draw k) (txs ! k) (Some bio))
         = \<lparr> br_transactionId = tx_id (txs ! k), br_error = None,
             br_fraudProbability = roundCents (adjustProbability (pred_fraudProbability pr) anomalies),
             br_riskLevel = riskLevelOf (adjustProbability (pred_fraudProbability pr) anomalies),
             br_explanation = Some (pred_explanation pr
                                    @ map (\<lambda>anomaly. Biometric (description anomaly)) anomalies),
             br_biometricAnomalies = Some (length anomalies),
             br_confidence = Some (pred_confidence pr) \<rparr>"
        using processItem_normal [OF False] by blast
      show ?thesis
        using False item n by simp
    qed
  qed
  have missing: "\<forall>k < length txs. biometricAt bios k = None \<longrightarrow>
                ?rs ! k = degraded (tx_id (txs ! k)) ''Missing biometric data''"
    using batch_item [of _ txs p now rnd noise draw bios] by (simp add: processItem_missing)
  have "errors (summarize (length txs) ?rs)
        = card {k. k < length ?rs \<and> \<not> falsy (br_error (?rs ! k))}"
    by (simp add: summarize_def count_by_index)
  also have "{k. k < length ?rs \<and> \<not> falsy (br_error (?rs ! k))}
        = {k. k < length txs
              \<and> (biometricAt bios k = None
                 \<or> (\<exists>bio. biometricAt bios k = Some bio
                       \<and> processingThrows (processorBefore p now rnd noise draw bios txs k)
                             now (rnd k) (noise k) (draw k) (txs ! k) bio))}"
    using batch_item_error [of _ txs p now rnd noise draw bios] len by auto
  finally have count: "errors (summarize (length txs) ?rs)
        = card {k. k < length txs
              \<and> (biometricAt bios k = None
                 \<or> (\<exists>bio. biometricAt bios k = Some bio
                       \<and> processingThrows (processorBefore p now rnd noise draw bios txs k)
                             now (rnd k) (noise k) (draw k) (txs ! k) bio))}" .
  have own: "\<forall>k < length txs. \<forall>bio.
                biometricAt bios k = Some bio \<longrightarrow>
                (processingThrows (processorBefore p now rnd noise draw bios txs k)
                    now (rnd k) (noise k) (draw k) (txs ! k) bio
                 \<longleftrightarrow> keystrokeDynamics bio = None \<or> mouseMovements bio = None
                      \<or> deviceSensors bio = None)"
    by (simp add: processingThrows_iff)
  show ?thesis
    using ok len present own missing count by blast
qed


lemma example_quiet:
  "userProfiles p ''user_001'' = Some exampleProfile \<Longrightarrow>
   snd (processBiometricData p exampleSample rnd now) = Inr []"
  by (simp add: processBiometricData_def profileFor_def exampleSample_def
      exampleProfile_def exampleKeystrokes_def exampleMouse_def exampleSensors_def
      analyzeKeystrokeDynamics_def analyzeMouseMovements_def analyzeDeviceSensors_def
      keystrokeAnomalies_def mouseAnomalies_def deviceAnomalies_def deviationAnomaly_def
      relativeDeviation_def average_def jssub_def classifyMovementPattern_def calculateVariance_def
      calculateVectorDeviation_def orientationDeviation_def jslt_def Let_def)

lemma broken_keeps_profile:
  "userProfiles (fst (processItem exampleProcessor now rnd noise draw tx (Some brokenSample))) ''user_001''
   = Some exampleProfile"
  by (simp add: processItem_def processBiometricData_def profileFor_def brokenSample_def
      exampleSample_def exampleProcessor_def analyzeKeystrokeDynamics_def analyzeMouseMovements_def
      Let_def)

lemma processItem_value:
  "snd (processBiometricData p bio rnd now) = Inr anomalies \<Longrightarrow>
   predictFraud now noise draw tx bio = Inr pr \<Longrightarrow>
   snd (processItem p now rnd noise draw tx (Some bio))
   = \<lparr> br_transactionId = tx_id tx, br_error = None,
       br_fraudProbability = roundCents (adjustProbability (pred_fraudProbability pr) anomalies),
       br_riskLevel = riskLevelOf (adjustProbability (pred_fraudProbability pr) anomalies),
       br_explanation = Some (pred_explanation pr
                              @ map (\<lambda>anomaly. Biometric (description anomaly)) anomalies),
       br_biometricAnomalies = Some (length anomalies),
       br_confidence = Some (pred_confidence pr) \<rparr>"
  by (auto simp: processItem_def Let_def split: prod.splits sum.splits)

text \<open>
  A batch of two: the first sample lacks its mouse group and its item gets the default
  result; the second item gets its normal verdict; the summary counts one error.
\<close>

theorem batch_isolation_witness:
  "[retailTransaction, exampleTransaction] \<noteq> []
   \<and> processingThrows exampleProcessor 43200000 (\<lambda>k. 0) 0 (1 / 2) retailTransaction brokenSample
   \<and> snd (scoreBatch exampleProcessor 43200000 (\<lambda>i k. 0) (\<lambda>i. 0) (\<lambda>i. 1 / 2)
            (Some [retailTransaction, exampleTransaction]) [Some brokenSample, Some exampleSample] None)
       = Ok \<lparr> results =
                [ degraded ''txn_5'' ''Processing failed'',
                  \<lparr> br_transactionId = ''txn_2'', br_error = None, br_fraudProbability = 1,
                    br_riskLevel = high,
                    br_explanation = Some [HighTransactionAmount 6000, LargeATMWithdrawal 6000],
                    br_biometricAnomalies = Some 0, br_confidence = Some (17 / 20) \<rparr> ],
              summary = \<lparr> totalTransactions = 2, highRisk = 1, mediumRisk = 1, lowRisk = 0,
                          errors = 1 \<rparr> \<rparr>"
proof -
  let ?txs = "[retailTransaction, exampleTransaction]"
  let ?bios = "[Some brokenSample, Some exampleSample]"
  let ?p1 = "fst (processItem exampleProcessor 43200000 (\<lambda>k. 0) 0 (1 / 2) retailTransaction (Some brokenSample))"
  have ne: "?txs \<noteq> []" by simp
  have thr: "processingThrows exampleProcessor 43200000 (\<lambda>k. 0) 0 (1 / 2) retailTransaction brokenSample"
    by (simp add: processingThrows_iff brokenSample_def)
  have r0: "snd (processItem exampleProcessor 43200000 (\<lambda>k. 0) 0 (1 / 2) retailTransaction (Some brokenSample))
            = degraded ''txn_5'' ''Processing failed''"
    using processItem_throws [OF thr] by (simp add: retailTransaction_def)
  have pb: "snd (processBiometricData ?p1 exampleSample (\<lambda>k. 0) 43200000) = Inr []"
    by (rule example_quiet [OF broken_keeps_profile])
  have pf: "predictFraud 43200000 0 (1 / 2) exampleTransaction exampleSample
       = Inr \<lparr> pred_transactionId = ''txn_2'', pred_fraudProbability = 1, pred_riskLevel = high,
               pred_explanation = [HighTransactionAmount 6000, LargeATMWithdrawal 6000],
               pred_confidence = 17 / 20 \<rparr>"
    by (simp add: getHours_def exampleTransaction_def computeFraudScore_def predictFraud_def
      generateExplanation_def riskLevelOf_def exampleSample_def exampleKeystrokes_def Let_def)
  have t: "tx_id exampleTransaction = ''txn_2''" by (simp add: exampleTransaction_def)
  have r1: "snd (processItem ?p1 43200000 (\<lambda>k. 0) 0 (1 / 2) exampleTransaction (Some exampleSample))
            = \<lparr> br_transactionId = ''txn_2'', br_error = None, br_fraudProbability = 1,
                    br_riskLevel = high,
                    br_explanation = Some [HighTransactionAmount 6000, LargeATMWithdrawal 6000],
                    br_biometricAnomalies = Some 0, br_confidence = Some (17 / 20) \<rparr>"
    using processItem_value [OF pb pf]
    by (simp add: t adjustProbability_def roundCents_def riskLevelOf_def Let_def)
  have rs: "snd (processItems exampleProcessor 43200000 (\<lambda>i k. 0) (\<lambda>i. 0) (\<lambda>i. 1 / 2) ?bios 0 ?txs)
            = [ degraded ''txn_5'' ''Processing failed'',
                  \<lparr> br_transactionId = ''txn_2'', br_error = None, br_fraudProbability = 1,
                    br_riskLevel = high,
                    br_explanation = Some [HighTransactionAmount 6000, LargeATMWithdrawal 6000],
                    br_biometricAnomalies = Some 0, br_confidence = Some (17 / 20) \<rparr> ]"
    using r0 r1 by (simp add: processItems_Cons biometricAt_def del: processItems.simps(2))
  have sm: "summarize (length ?txs) [ degraded ''txn_5'' ''Processing failed'',
                  \<lparr> br_transactionId = ''txn_2'', br_error = None, br_fraudProbability = 1,
                    br_riskLevel = high,
                    br_explanation = Some [HighTransactionAmount 6000, LargeATMWithdrawal 6000],
                    br_biometricAnomalies = Some 0, br_confidence = Some (17 / 20) \<rparr> ]
            = \<lparr> totalTransactions = 2, highRisk = 1, mediumRisk = 1, lowRisk = 0, errors = 1 \<rparr>"
    by (simp add: summarize_def degraded_def falsy_def)
  have final: "snd (scoreBatch exampleProcessor 43200000 (\<lambda>i k. 0) (\<lambda>i. 0) (\<lambda>i. 1 / 2)
            (Some ?txs) ?bios None)
       = Ok \<lparr> results =
                [ degraded ''txn_5'' ''Processing failed'',
                  \<lparr> br_transactionId = ''txn_2'', br_error = None, br_fraudProbability = 1,
                    br_riskLevel = high,
                    br_explanation = Some [HighTransactionAmount 6000, LargeATMWithdrawal 6000],
                    br_biometricAnomalies = Some 0, br_confidence = Some (17 / 20) \<rparr> ],
              summary = \<lparr> totalTransactions = 2, highRisk = 1, mediumRisk = 1, lowRisk = 0,
                          errors = 1 \<rparr> \<rparr>"
    by (simp only: scoreBatch_Ok [OF ne] rs sm)
  show ?thesis
    using batch_isolation [OF ne, of exampleProcessor 43200000 "\<lambda>i k. 0" "\<lambda>i. 0" "\<lambda>i. 1 / 2" ?bios None]
      ne thr final
    apply -
    apply (intro conjI)
      apply assumption+
    done
qed

section \<open>Biometrics: the device-sensor channel\<close>

lemma sumSquaredDiff_finite:
  "foldl (\<lambda>sum (val, b). jsadd sum (jsmul (jssub (Num val) b) (jssub (Num val) b)))
     (Num a) (zip current (map Num bs))
   = Num (a + squaredDistance current bs)"
proof (induction current arbitrary: a bs)
  case Nil
  then show ?case by (simp add: squaredDistance_def)
next
  case (Cons c cs)
  show ?case
  proof (cases bs)
    case Nil
    then show ?thesis by (simp add: squaredDistance_def)
  next
    case (Cons b bs')
    then show ?thesis
      using Cons.IH [of "a + (c - b) * (c - b)" bs']
      by (simp add: squaredDistance_def jssub_def add.assoc)
  qed
qed

lemma squaredDistance_nonneg: "0 \<le> squaredDistance current bs"
  unfolding squaredDistance_def
  by (rule sum_list_nonneg) auto

lemma calculateVectorDeviation_finite:
  assumes "length current = length bs" and "current \<noteq> []"
  shows "calculateVectorDeviation current (map Num bs)
         = Num (sqrt (squaredDistance current bs / real (length current)))"
proof -
  have nn: "\<not> squaredDistance current bs / real (length current) < 0"
    using squaredDistance_nonneg [of current bs] by (simp add: not_less)
  have len: "real (length current) \<noteq> 0"
    using assms(2) by simp
  have "calculateVectorDeviation current (map Num bs)
        = jssqrt (jsdiv (Num (squaredDistance current bs)) (Num (real (length current))))"
    using assms(1) sumSquaredDiff_finite [of 0 current bs]
    by (simp add: calculateVectorDeviation_def Let_def)
  also have "\<dots> = jssqrt (Num (squaredDistance current bs / real (length current)))"
    using len by simp
  also have "\<dots> = Num (sqrt (squaredDistance current bs / real (length current)))"
    using nn by simp
  finally show ?thesis .
qed

lemma deviationAnomaly_finite:
  "deviationAnomaly ty (Num d) threshold highThreshold descr
   = (if d > threshold
      then [\<lparr> an_type = ty, severity = (if d > highThreshold then high else medium),
              description = descr, an_confidence = Num (min 0.95 d), deviationScore = Num d \<rparr>]
      else [])"
  by (simp add: deviationAnomaly_def jsmin_def min_def)


text \<open>
  C8 (as amended). For the device-sensor channel, the accelerometer and gyroscope
  deviations are the root mean square of the differences between the observed components
  and the baseline components, not divided by the baseline (and the constant 1 when the
  two vectors differ in length); each is an anomaly when above 0.5, of high severity
  when above 0.8 and medium otherwise. The orientation deviation is the plain difference
  \<open>|observed - preference| / 360\<close>, not a circular one, and is a low-severity anomaly when
  above 0.3.
\<close>

theorem device_channel:
  "(deviceSensors data = Some ds
      \<and> accelerometerBaseline (deviceProfile profile) = map Num ab
      \<and> length (accelerometer ds) = length ab \<and> accelerometer ds \<noteq> []
      \<and> gyroscopeBaseline (deviceProfile profile) = map Num gb
      \<and> length (gyroscope ds) = length gb \<and> gyroscope ds \<noteq> []
    \<longrightarrow> analyzeDeviceSensors data profile
        = Inr ((let d = sqrt (squaredDistance (accelerometer ds) ab / real (length ab))
                in if d > 0.5
                   then [\<lparr> an_type = device, severity = (if d > 0.8 then high else medium),
                           description = UnusualDeviceMovement,
                           an_confidence = Num (min 0.95 d), deviationScore = Num d \<rparr>]
                   else [])
               @ (let d = sqrt (squaredDistance (gyroscope ds) gb / real (length gb))
                  in if d > 0.5
                     then [\<lparr> an_type = device, severity = (if d > 0.8 then high else medium),
                             description = UnusualDeviceRotation,
                             an_confidence = Num (min 0.95 d), deviationScore = Num d \<rparr>]
                     else [])
               @ (let d = \<bar>orientation ds - orientationPreference (deviceProfile profile)\<bar> / 360
                  in if d > 0.3
                     then [\<lparr> an_type = device, severity = low, description = OrientationDiffers,
                             an_confidence = Num 0.6, deviationScore = Num d \<rparr>]
                     else [])))
   \<and> (length current \<noteq> length baseline \<longrightarrow> calculateVectorDeviation current baseline = Num 1)"
proof (intro conjI impI)
  assume a: "deviceSensors data = Some ds
      \<and> accelerometerBaseline (deviceProfile profile) = map Num ab
      \<and> length (accelerometer ds) = length ab \<and> accelerometer ds \<noteq> []
      \<and> gyroscopeBaseline (deviceProfile profile) = map Num gb
      \<and> length (gyroscope ds) = length gb \<and> gyroscope ds \<noteq> []"
  have acc: "calculateVectorDeviation (accelerometer ds) (map Num ab)
             = Num (sqrt (squaredDistance (accelerometer ds) ab / real (length ab)))"
    using a calculateVectorDeviation_finite [of "accelerometer ds" ab] by simp
  have gyr: "calculateVectorDeviation (gyroscope ds) (map Num gb)
             = Num (sqrt (squaredDistance (gyroscope ds) gb / real (length gb)))"
    using a calculateVectorDeviation_finite [of "gyroscope ds" gb] by simp
  show "analyzeDeviceSensors data profile
        = Inr ((let d = sqrt (squaredDistance (accelerometer ds) ab / real (length ab))
                in if d > 0.5
                   then [\<lparr> an_type = device, severity = (if d > 0.8 then high else medium),
                           description = UnusualDeviceMovement,
                           an_confidence = Num (min 0.95 d), deviationScore = Num d \<rparr>]
                   else [])
               @ (let d = sqrt (squaredDistance (gyroscope ds) gb / real (length gb))
                  in if d > 0.5
                     then [\<lparr> an_type = device, severity = (if d > 0.8 then high else medium),
                             description = UnusualDeviceRotation,
                             an_confidence = Num (min 0.95 d), deviationScore = Num d \<rparr>]
                     else [])
               @ (let d = \<bar>orientation ds - orientationPreference (deviceProfile profile)\<bar> / 360
                  in if d > 0.3
                     then [\<lparr> an_type = device, severity = low, description = OrientationDiffers,
                             an_confidence = Num 0.6, deviationScore = Num d \<rparr>]
                     else []))"
    using a
    by (simp add: analyzeDeviceSensors_def deviceAnomalies_def acc gyr deviationAnomaly_finite
        orientationDeviation_def Let_def)
next
  assume "length current \<noteq> length baseline"
  then show "calculateVectorDeviation current baseline = Num 1"
    by (simp add: calculateVectorDeviation_def)
qed

text \<open>
  Accelerometer (1, 1, 1) against the baseline (0, 0, 0): deviation 1, an anomaly of high
  severity. Vectors of different lengths: deviation 1.
\<close>

theorem device_channel_witness:
  "deviceSensors (exampleSample\<lparr> deviceSensors := Some tiltedSensors \<rparr>) = Some tiltedSensors
   \<and> accelerometerBaseline (deviceProfile exampleProfile) = map Num [0, 0, 0]
   \<and> length (accelerometer tiltedSensors) = length [0 :: real, 0, 0] \<and> accelerometer tiltedSensors \<noteq> []
   \<and> gyroscopeBaseline (deviceProfile exampleProfile) = map Num [0, 0, 0]
   \<and> length (gyroscope tiltedSensors) = length [0 :: real, 0, 0] \<and> gyroscope tiltedSensors \<noteq> []
   \<and> analyzeDeviceSensors (exampleSample\<lparr> deviceSensors := Some tiltedSensors \<rparr>) exampleProfile
       = Inr [\<lparr> an_type = device, severity = high, description = UnusualDeviceMovement,
                an_confidence = Num 0.95, deviationScore = Num 1 \<rparr>]
   \<and> length ([] :: real list) \<noteq> length [Num 0, Num 0, Num 0]
   \<and> calculateVectorDeviation [] [Num 0, Num 0, Num 0] = Num 1"
proof -
  have h: "deviceSensors (exampleSample\<lparr> deviceSensors := Some tiltedSensors \<rparr>) = Some tiltedSensors
   \<and> accelerometerBaseline (deviceProfile exampleProfile) = map Num [0, 0, 0]
   \<and> length (accelerometer tiltedSensors) = length [0 :: real, 0, 0] \<and> accelerometer tiltedSensors \<noteq> []
   \<and> gyroscopeBaseline (deviceProfile exampleProfile) = map Num [0, 0, 0]
   \<and> length (gyroscope tiltedSensors) = length [0 :: real, 0, 0] \<and> gyroscope tiltedSensors \<noteq> []"
    by (simp add: exampleSample_def exampleProfile_def tiltedSensors_def)
  have v: "squaredDistance (accelerometer tiltedSensors) [0, 0, 0] = 3"
      "squaredDistance (gyroscope tiltedSensors) [0, 0, 0] = 0"
      "orientation tiltedSensors = 90" "orientationPreference (deviceProfile exampleProfile) = 90"
    by (simp_all add: squaredDistance_def tiltedSensors_def exampleProfile_def)
  have n: "length ([] :: real list) \<noteq> length [Num 0, Num 0, Num 0]" by simp
  show ?thesis
    using device_channel [of "exampleSample\<lparr> deviceSensors := Some tiltedSensors \<rparr>" tiltedSensors
        exampleProfile "[0, 0, 0]" "[0, 0, 0]" "[]" "[Num 0, Num 0, Num 0]"] h n
    by (simp add: v)
qed

text \<open>
  Accelerometer 0.2 in each axis against a baseline of 0.1: the relative deviation is 1,
  but the code computes 0.1 and reports nothing. Orientation 350 against a preference of
  10: 20 degrees apart on the circle (1/18 of it), but the code computes 340/360 and
  reports the anomaly.
\<close>

theorem device_channel_counterexample:
  "spec_relativeRmsDeviation [2 / 10, 2 / 10, 2 / 10] [1 / 10, 1 / 10, 1 / 10] = 1
   \<and> spec_circularDeviation 350 10 = 1 / 18
   \<and> deviceAnomalies
         \<lparr> accelerometer = [2 / 10, 2 / 10, 2 / 10], gyroscope = [0, 0, 0], orientation = 350 \<rparr>
         \<lparr> orientationPreference = 10,
           accelerometerBaseline = [Num (1 / 10), Num (1 / 10), Num (1 / 10)],
           gyroscopeBaseline = [Num 0, Num 0, Num 0],
           deviceStability = 8 / 10, handedness = right_handed \<rparr>
       = [\<lparr> an_type = device, severity = low, description = OrientationDiffers,
            an_confidence = Num (6 / 10), deviationScore = Num (17 / 18) \<rparr>]"
proof -
  have s: "sqrt (1 / 100) = 1 / 10"
    by (rule real_sqrt_unique) (simp_all add: power2_eq_square)
  have a: "spec_relativeRmsDeviation [2 / 10, 2 / 10, 2 / 10] [1 / 10, 1 / 10, 1 / 10] = 1"
    by (simp add: spec_relativeRmsDeviation_def)
  have b: "spec_circularDeviation 350 10 = 1 / 18"
    by (simp add: spec_circularDeviation_def Let_def)
  have c: "calculateVectorDeviation [2 / 10, 2 / 10, 2 / 10] [Num (1 / 10), Num (1 / 10), Num (1 / 10)]
           = Num (1 / 10)"
    using calculateVectorDeviation_finite [of "[2 / 10, 2 / 10, 2 / 10]" "[1 / 10, 1 / 10, 1 / 10]"] s
    by (simp add: squaredDistance_def)
  have d: "calculateVectorDeviation [0, 0, 0] [Num 0, Num 0, Num 0] = Num 0"
    using calculateVectorDeviation_finite [of "[0, 0, 0]" "[0, 0, 0]"]
    by (simp add: squaredDistance_def)
  show ?thesis
    using a b c d
    by (simp add: deviceAnomalies_def deviationAnomaly_def orientationDeviation_def Let_def)
qed

section \<open>Biometrics: scoring before the profile update\<close>

lemma upt_3: "[0..<3] = [0, 1, 2]"
  by (simp add: upt_rec)

lemma emaVector_long:
  assumes "3 \<le> length baseline"
  shows "length (emaVector alpha baseline current) = length baseline"
    and "i < 3 \<Longrightarrow> emaVector alpha baseline current ! i = ema alpha (baseline ! i) (readSample current i)"
    and "3 \<le> i \<Longrightarrow> emaVector alpha baseline current ! i = baseline ! i"
proof -
  have l: "baseline \<noteq> []" "Suc 0 < length baseline" "2 < length baseline"
    using assms by auto
  show "length (emaVector alpha baseline current) = length baseline"
    using l by (simp add: emaVector_def upt_3 writeBaseline_def readBaseline_def)
  show "emaVector alpha baseline current ! i = ema alpha (baseline ! i) (readSample current i)" if "i < 3"
  proof -
    from that consider "i = 0" | "i = 1" | "i = 2" by linarith
    then show ?thesis
      using l by cases (simp_all add: emaVector_def upt_3 writeBaseline_def readBaseline_def)
  qed
  show "emaVector alpha baseline current ! i = baseline ! i" if "3 \<le> i"
    using l that by (simp add: emaVector_def upt_3 writeBaseline_def readBaseline_def)
qed

lemma processBiometricData_present:
  assumes "keystrokeDynamics data = Some ks" "mouseMovements data = Some ms"
    "deviceSensors data = Some ds"
  shows "snd (processBiometricData p data rnd now)
         = Inr (keystrokeAnomalies ks (keystrokeProfile (profileFor p data rnd now))
                @ mouseAnomalies ms (mouseProfile (profileFor p data rnd now))
                @ deviceAnomalies ds (deviceProfile (profileFor p data rnd now)))"
    and "userProfiles (fst (processBiometricData p data rnd now)) (bio_userId data)
         = Some (updateUserProfile ks ms ds now (profileFor p data rnd now))"
  using assms
  by (simp_all add: processBiometricData_def analyzeKeystrokeDynamics_def analyzeMouseMovements_def
      analyzeDeviceSensors_def Let_def)

text \<open>
  C6 (as amended). For a sample with its three groups, the anomalies are those of the
  three analyses run against the profile as it was before the call (the stored one, or a
  fresh baseline). The profile stored afterwards has the exponential moving average with
  learning rate 0.1 in \<open>avgDwellTime\<close>, \<open>avgFlightTime\<close>, \<open>preferredTypingSpeed\<close>,
  \<open>avgVelocity\<close>, \<open>avgAcceleration\<close> and the first three components of
  \<open>accelerometerBaseline\<close> and \<open>gyroscopeBaseline\<close>; \<open>sessionCount\<close> is one higher and
  \<open>confidence\<close> is \<open>min 0.95 (confidence + 0.01)\<close>. The other numeric baseline fields
  (the two variances, the rhythm and pressure arrays, \<open>preferredClickSpeed\<close>,
  \<open>scrollBehavior\<close>, \<open>orientationPreference\<close>, \<open>deviceStability\<close>) stay as they were.
\<close>

theorem profile_update:
  assumes "keystrokeDynamics data = Some ks" "mouseMovements data = Some ms"
    "deviceSensors data = Some ds" "pre = profileFor p data rnd now"
  shows "\<exists>post.
      snd (processBiometricData p data rnd now)
        = Inr (keystrokeAnomalies ks (keystrokeProfile pre) @ mouseAnomalies ms (mouseProfile pre)
               @ deviceAnomalies ds (deviceProfile pre))
    \<and> userProfiles (fst (processBiometricData p data rnd now)) (bio_userId data) = Some post
    \<and> avgDwellTime (keystrokeProfile post)
        = ema (1 / 10) (avgDwellTime (keystrokeProfile pre)) (average (dwellTimes ks))
    \<and> avgFlightTime (keystrokeProfile post)
        = ema (1 / 10) (avgFlightTime (keystrokeProfile pre)) (average (flightTimes ks))
    \<and> preferredTypingSpeed (keystrokeProfile post)
        = ema (1 / 10) (preferredTypingSpeed (keystrokeProfile pre)) (Num (typingSpeed ks))
    \<and> avgVelocity (mouseProfile post)
        = ema (1 / 10) (avgVelocity (mouseProfile pre)) (average (velocity ms))
    \<and> avgAcceleration (mouseProfile post)
        = ema (1 / 10) (avgAcceleration (mouseProfile pre)) (average (acceleration ms))
    \<and> (3 \<le> length (accelerometerBaseline (deviceProfile pre)) \<longrightarrow>
         (\<forall>i < 3. accelerometerBaseline (deviceProfile post) ! i
            = ema (1 / 10) (accelerometerBaseline (deviceProfile pre) ! i) (readSample (accelerometer ds) i)))
    \<and> (3 \<le> length (gyroscopeBaseline (deviceProfile pre)) \<longrightarrow>
         (\<forall>i < 3. gyroscopeBaseline (deviceProfile post) ! i
            = ema (1 / 10) (gyroscopeBaseline (deviceProfile pre) ! i) (readSample (gyroscope ds) i)))
    \<and> sessionCount post = sessionCount pre + 1
    \<and> prof_confidence post = min 0.95 (prof_confidence pre + 0.01)
    \<and> dwellTimeVariance (keystrokeProfile post) = dwellTimeVariance (keystrokeProfile pre)
    \<and> flightTimeVariance (keystrokeProfile post) = flightTimeVariance (keystrokeProfile pre)
    \<and> typingRhythm (keystrokeProfile post) = typingRhythm (keystrokeProfile pre)
    \<and> keyPressurePattern (keystrokeProfile post) = keyPressurePattern (keystrokeProfile pre)
    \<and> clickRhythm (mouseProfile post) = clickRhythm (mouseProfile pre)
    \<and> preferredClickSpeed (mouseProfile post) = preferredClickSpeed (mouseProfile pre)
    \<and> scrollBehavior (mouseProfile post) = scrollBehavior (mouseProfile pre)
    \<and> orientationPreference (deviceProfile post) = orientationPreference (deviceProfile pre)
    \<and> deviceStability (deviceProfile post) = deviceStability (deviceProfile pre)"
proof -
  let ?post = "updateUserProfile ks ms ds now pre"
  have a: "snd (processBiometricData p data rnd now)
        = Inr (keystrokeAnomalies ks (keystrokeProfile pre) @ mouseAnomalies ms (mouseProfile pre)
               @ deviceAnomalies ds (deviceProfile pre))"
    using processBiometricData_present(1) [OF assms(1-3)] assms(4) by simp
  have b: "userProfiles (fst (processBiometricData p data rnd now)) (bio_userId data) = Some ?post"
    using processBiometricData_present(2) [OF assms(1-3)] assms(4) by simp
  have scalars: "avgDwellTime (keystrokeProfile ?post)
        = ema (1 / 10) (avgDwellTime (keystrokeProfile pre)) (average (dwellTimes ks))
    \<and> avgFlightTime (keystrokeProfile ?post)
        = ema (1 / 10) (avgFlightTime (keystrokeProfile pre)) (average (flightTimes ks))
    \<and> preferredTypingSpeed (keystrokeProfile ?post)
        = ema (1 / 10) (preferredTypingSpeed (keystrokeProfile pre)) (Num (typingSpeed ks))
    \<and> avgVelocity (mouseProfile ?post)
        = ema (1 / 10) (avgVelocity (mouseProfile pre)) (average (velocity ms))
    \<and> avgAcceleration (mouseProfile ?post)
        = ema (1 / 10) (avgAcceleration (mouseProfile pre)) (average (acceleration ms))
    \<and> sessionCount ?post = sessionCount pre + 1
    \<and> prof_confidence ?post = min 0.95 (prof_confidence pre + 0.01)"
    by (simp add: updateUserProfile_def Let_def)
  have vectors: "accelerometerBaseline (deviceProfile ?post)
        = emaVector (1 / 10) (accelerometerBaseline (deviceProfile pre)) (accelerometer ds)
      \<and> gyroscopeBaseline (deviceProfile ?post)
        = emaVector (1 / 10) (gyroscopeBaseline (deviceProfile pre)) (gyroscope ds)"
    by (simp add: updateUserProfile_def Let_def)
  have acc: "3 \<le> length (accelerometerBaseline (deviceProfile pre)) \<longrightarrow>
         (\<forall>i < 3. accelerometerBaseline (deviceProfile ?post) ! i
            = ema (1 / 10) (accelerometerBaseline (deviceProfile pre) ! i) (readSample (accelerometer ds) i))"
    using vectors emaVector_long(2) by simp
  have gyr: "3 \<le> length (gyroscopeBaseline (deviceProfile pre)) \<longrightarrow>
         (\<forall>i < 3. gyroscopeBaseline (deviceProfile ?post) ! i
            = ema (1 / 10) (gyroscopeBaseline (deviceProfile pre) ! i) (readSample (gyroscope ds) i))"
    using vectors emaVector_long(2) by simp
  have same: "dwellTimeVariance (keystrokeProfile ?post) = dwellTimeVariance (keystrokeProfile pre)
    \<and> flightTimeVariance (keystrokeProfile ?post) = flightTimeVariance (keystrokeProfile pre)
    \<and> typingRhythm (keystrokeProfile ?post) = typingRhythm (keystrokeProfile pre)
    \<and> keyPressurePattern (keystrokeProfile ?post) = keyPressurePattern (keystrokeProfile pre)
    \<and> clickRhythm (mouseProfile ?post) = clickRhythm (mouseProfile pre)
    \<and> preferredClickSpeed (mouseProfile ?post) = preferredClickSpeed (mouseProfile pre)
    \<and> scrollBehavior (mouseProfile ?post) = scrollBehavior (mouseProfile pre)
    \<and> orientationPreference (deviceProfile ?post) = orientationPreference (deviceProfile pre)
    \<and> deviceStability (deviceProfile ?post) = deviceStability (deviceProfile pre)"
    by (simp add: updateUserProfile_def Let_def)
  show ?thesis
    using a b scalars acc gyr same by blast
qed


lemma drift_groups:
  "keystrokeDynamics driftSample = Some \<lparr> dwellTimes = [200, 200], flightTimes = [80], typingSpeed = 60 \<rparr>"
  "mouseMovements driftSample = Some \<lparr> velocity = [400, 400], acceleration = [200, 200], clickPatterns = [350] \<rparr>"
  "deviceSensors driftSample = Some \<lparr> accelerometer = [0, 0, 0], gyroscope = [0, 0, 0], orientation = 180 \<rparr>"
  "exampleProfile = profileFor exampleProcessor driftSample (\<lambda>k. 0) 0"
  "bio_userId driftSample = ''user_001''"
  by (simp_all add: driftSample_def exampleSample_def profileFor_def exampleProcessor_def)

lemma drift_anomalies:
  "keystrokeAnomalies \<lparr> dwellTimes = [200, 200], flightTimes = [80], typingSpeed = 60 \<rparr>
     (keystrokeProfile exampleProfile)
   = [\<lparr> an_type = keystroke, severity = high,
        description = UnusualKeyDwellTime (Num 200) (Num 100),
        an_confidence = Num (95 / 100), deviationScore = Num 1 \<rparr>]"
  "mouseAnomalies \<lparr> velocity = [400, 400], acceleration = [200, 200], clickPatterns = [350] \<rparr>
     (mouseProfile exampleProfile) = []"
  "deviceAnomalies \<lparr> accelerometer = [0, 0, 0], gyroscope = [0, 0, 0], orientation = 180 \<rparr>
     (deviceProfile exampleProfile) = []"
  by (simp_all add: exampleProfile_def keystrokeAnomalies_def mouseAnomalies_def deviceAnomalies_def
      deviationAnomaly_def relativeDeviation_def average_def jssub_def jsmin_def
      classifyMovementPattern_def calculateVariance_def calculateVectorDeviation_def
      orientationDeviation_def jslt_def Let_def)

text \<open>
  A sample averaging 200 ms of dwell time against a baseline of 100 ms: the anomaly is of
  high severity and reports the baseline 100 of before the update; the profile stored
  afterwards has 110, one more session and the confidence 0.91.
\<close>

theorem profile_update_witness:
  "keystrokeDynamics driftSample = Some \<lparr> dwellTimes = [200, 200], flightTimes = [80], typingSpeed = 60 \<rparr>
   \<and> mouseMovements driftSample
       = Some \<lparr> velocity = [400, 400], acceleration = [200, 200], clickPatterns = [350] \<rparr>
   \<and> deviceSensors driftSample
       = Some \<lparr> accelerometer = [0, 0, 0], gyroscope = [0, 0, 0], orientation = 180 \<rparr>
   \<and> exampleProfile = profileFor exampleProcessor driftSample (\<lambda>k. 0) 0
   \<and> avgDwellTime (keystrokeProfile exampleProfile) = Num 100
   \<and> snd (processBiometricData exampleProcessor driftSample (\<lambda>k. 0) 0)
       = Inr [\<lparr> an_type = keystroke, severity = high,
                description = UnusualKeyDwellTime (Num 200) (Num 100),
                an_confidence = Num (95 / 100), deviationScore = Num 1 \<rparr>]
   \<and> map_option (\<lambda>post. (avgDwellTime (keystrokeProfile post), sessionCount post, prof_confidence post))
         (userProfiles (fst (processBiometricData exampleProcessor driftSample (\<lambda>k. 0) 0)) ''user_001'')
       = Some (Num 110, 61, 91 / 100)"
proof -
  obtain post where post:
    "snd (processBiometricData exampleProcessor driftSample (\<lambda>k. 0) 0)
       = Inr (keystrokeAnomalies \<lparr> dwellTimes = [200, 200], flightTimes = [80], typingSpeed = 60 \<rparr>
                (keystrokeProfile exampleProfile)
              @ mouseAnomalies \<lparr> velocity = [400, 400], acceleration = [200, 200], clickPatterns = [350] \<rparr>
                  (mouseProfile exampleProfile)
              @ deviceAnomalies \<lparr> accelerometer = [0, 0, 0], gyroscope = [0, 0, 0], orientation = 180 \<rparr>
                  (deviceProfile exampleProfile))"
    "userProfiles (fst (processBiometricData exampleProcessor driftSample (\<lambda>k. 0) 0)) (bio_userId driftSample)
       = Some post"
    "avgDwellTime (keystrokeProfile post)
       = ema (1 / 10) (avgDwellTime (keystrokeProfile exampleProfile))
           (average (dwellTimes \<lparr> dwellTimes = [200, 200], flightTimes = [80], typingSpeed = 60 \<rparr>))"
    "sessionCount post = sessionCount exampleProfile + 1"
    "prof_confidence post = min 0.95 (prof_confidence exampleProfile + 0.01)"
    using profile_update [OF drift_groups(1-4)] by blast
  have v: "avgDwellTime (keystrokeProfile exampleProfile) = Num 100"
      "sessionCount exampleProfile = 60" "prof_confidence exampleProfile = 9 / 10"
    by (simp_all add: exampleProfile_def)
  have d: "avgDwellTime (keystrokeProfile post) = Num 110"
    using post(3) v(1) by (simp add: ema_def average_def)
  show ?thesis
    using drift_groups post(1,2,4,5) d v by (simp add: drift_anomalies)
qed

text \<open>
  The same sample has orientation 180 and a click interval of 350, the profile an
  orientation preference of 90 and a click speed of 250: both are as before after the
  update, where a moving average would have stored 99 and 260.
\<close>

theorem profile_update_counterexample:
  "deviceSensors driftSample
     = Some \<lparr> accelerometer = [0, 0, 0], gyroscope = [0, 0, 0], orientation = 180 \<rparr>
   \<and> mouseMovements driftSample
       = Some \<lparr> velocity = [400, 400], acceleration = [200, 200], clickPatterns = [350] \<rparr>
   \<and> map_option (\<lambda>pre. (orientationPreference (deviceProfile pre), preferredClickSpeed (mouseProfile pre)))
         (userProfiles exampleProcessor ''user_001'')
       = Some (90, 250)
   \<and> map_option (\<lambda>post. (orientationPreference (deviceProfile post), preferredClickSpeed (mouseProfile post)))
         (userProfiles (fst (processBiometricData exampleProcessor driftSample (\<lambda>k. 0) 0)) ''user_001'')
       = Some (90, 250)
   \<and> (1 - 1 / 10) * 90 + (1 / 10) * 180 \<noteq> (90 :: real)
   \<and> (1 - 1 / 10) * 250 + (1 / 10) * 350 \<noteq> (250 :: real)"
proof -
  have "userProfiles (fst (processBiometricData exampleProcessor driftSample (\<lambda>k. 0) 0)) ''user_001''
        = Some (updateUserProfile
                  \<lparr> dwellTimes = [200, 200], flightTimes = [80], typingSpeed = 60 \<rparr>
                  \<lparr> velocity = [400, 400], acceleration = [200, 200], clickPatterns = [350] \<rparr>
                  \<lparr> accelerometer = [0, 0, 0], gyroscope = [0, 0, 0], orientation = 180 \<rparr>
                  0 exampleProfile)"
    using processBiometricData_present(2) [OF drift_groups(1-3), of exampleProcessor "\<lambda>k. 0" 0]
      drift_groups(4,5) by simp
  then show ?thesis
    using drift_groups(2,3)
    by (simp add: updateUserProfile_def Let_def exampleProfile_def exampleProcessor_def)
qed

section \<open>Biometrics: where NaN can arise\<close>

lemma isFinite_iff: "isFinite x \<longleftrightarrow> (\<exists>a. x = Num a)"
  by (cases x) simp_all

lemma finiteNonzero_iff: "finiteNonzero x \<longleftrightarrow> (\<exists>a. x = Num a \<and> a \<noteq> 0)"
  by (cases x) (simp_all add: finiteNonzero_def)

lemma all_finite_iff: "list_all isFinite xs \<longleftrightarrow> (\<exists>rs. xs = map Num rs)"
proof
  assume "list_all isFinite xs"
  then show "\<exists>rs. xs = map Num rs"
  proof (induction xs)
    case Nil
    then show ?case by simp
  next
    case (Cons x xs)
    then obtain a rs where "x = Num a" "xs = map Num rs"
      by (auto simp: isFinite_iff)
    then have "x # xs = map Num (a # rs)" by simp
    then show ?case by (rule exI)
  qed
next
  assume "\<exists>rs. xs = map Num rs"
  then show "list_all isFinite xs" by (auto simp: list_all_iff)
qed

lemma average_finite: "xs \<noteq> [] \<Longrightarrow> average xs = Num (sum_list xs / real (length xs))"
  by (simp add: average_def)

lemma average_empty: "average [] = NaN"
  by (simp add: average_def)

lemma relativeDeviation_finite:
  "b \<noteq> 0 \<Longrightarrow> relativeDeviation (Num a) (Num b) = Num (\<bar>a - b\<bar> / b)"
  by (simp add: relativeDeviation_def jssub_def)

lemma relativeDeviation_NaN: "relativeDeviation NaN b = NaN"
  by (simp add: relativeDeviation_def jssub_def)

lemma foldl_jsadd_finite:
  "foldl jsadd (Num a) (map (\<lambda>v. Num (f v)) xs) = Num (a + sum_list (map f xs))"
  by (induction xs arbitrary: a) (simp_all add: add.assoc)

lemma calculateVariance_finite:
  assumes "xs \<noteq> []"
  shows "isFinite (calculateVariance xs)"
proof -
  let ?m = "sum_list xs / real (length xs)"
  have "calculateVariance xs
        = jsdiv (foldl jsadd (Num 0) (map (\<lambda>v. Num ((v - ?m) * (v - ?m))) xs)) (Num (real (length xs)))"
    using assms by (simp add: calculateVariance_def average_finite jssub_def Let_def)
  also have "\<dots> = Num ((0 + sum_list (map (\<lambda>v. (v - ?m) * (v - ?m)) xs)) / real (length xs))"
    using assms by (simp only: foldl_jsadd_finite) simp
  finally show ?thesis by simp
qed

lemma ema_finite: "ema alpha (Num a) (Num b) = Num ((1 - alpha) * a + alpha * b)"
  by (simp add: ema_def)

lemma ema_NaN: "ema alpha old NaN = NaN"
  by (cases "jsmul (Num (1 - alpha)) old") (simp_all add: ema_def)


lemma calculateVectorDeviation_isFinite:
  assumes "list_all isFinite baseline" "baseline \<noteq> []"
  shows "isFinite (calculateVectorDeviation current baseline)"
proof (cases "length current = length baseline")
  case False
  then show ?thesis by (simp add: calculateVectorDeviation_def)
next
  case True
  obtain bs where bs: "baseline = map Num bs"
    using assms(1) all_finite_iff by blast
  have "current \<noteq> []" using True assms(2) by auto
  then show ?thesis
    using calculateVectorDeviation_finite [of current bs] True bs by simp
qed

lemma deviationAnomaly_isFinite:
  "isFinite d \<Longrightarrow>
   list_all (\<lambda>a. isFinite (deviationScore a) \<and> isFinite (an_confidence a))
     (deviationAnomaly ty d threshold highThreshold descr)"
  by (auto simp: isFinite_iff deviationAnomaly_finite)

lemma sessionNumbers_finite:
  assumes "soundProfile profile" "dwellTimes ks \<noteq> []" "flightTimes ks \<noteq> []"
    "velocity ms \<noteq> []" "acceleration ms \<noteq> []" "clickPatterns ms \<noteq> []"
  shows "list_all isFinite (sessionNumbers ks ms ds profile)"
proof -
  obtain d f t v a where b:
    "avgDwellTime (keystrokeProfile profile) = Num d" "d \<noteq> 0"
    "avgFlightTime (keystrokeProfile profile) = Num f" "f \<noteq> 0"
    "preferredTypingSpeed (keystrokeProfile profile) = Num t" "t \<noteq> 0"
    "avgVelocity (mouseProfile profile) = Num v" "v \<noteq> 0"
    "avgAcceleration (mouseProfile profile) = Num a" "a \<noteq> 0"
    using assms(1) unfolding soundProfile_def finiteNonzero_iff by blast
  have c: "preferredClickSpeed (mouseProfile profile) \<noteq> 0"
    using assms(1) by (simp add: soundProfile_def)
  have acc: "isFinite (calculateVectorDeviation (accelerometer ds) (accelerometerBaseline (deviceProfile profile)))"
    using assms(1) by (intro calculateVectorDeviation_isFinite) (auto simp: soundProfile_def)
  have gyr: "isFinite (calculateVectorDeviation (gyroscope ds) (gyroscopeBaseline (deviceProfile profile)))"
    using assms(1) by (intro calculateVectorDeviation_isFinite) (auto simp: soundProfile_def)
  show ?thesis
    using assms(2-6) b c acc gyr
    by (simp add: sessionNumbers_def average_finite relativeDeviation_finite clickDeviation_def
        calculateVariance_finite)
qed

lemma anomalies_finite:
  assumes "soundProfile profile" "dwellTimes ks \<noteq> []" "flightTimes ks \<noteq> []"
    "velocity ms \<noteq> []" "acceleration ms \<noteq> []"
  shows "list_all (\<lambda>a. isFinite (deviationScore a) \<and> isFinite (an_confidence a))
           (keystrokeAnomalies ks (keystrokeProfile profile) @ mouseAnomalies ms (mouseProfile profile)
            @ deviceAnomalies ds (deviceProfile profile))"
proof -
  obtain d f t v a where b:
    "avgDwellTime (keystrokeProfile profile) = Num d" "d \<noteq> 0"
    "avgFlightTime (keystrokeProfile profile) = Num f" "f \<noteq> 0"
    "preferredTypingSpeed (keystrokeProfile profile) = Num t" "t \<noteq> 0"
    "avgVelocity (mouseProfile profile) = Num v" "v \<noteq> 0"
    "avgAcceleration (mouseProfile profile) = Num a" "a \<noteq> 0"
    using assms(1) unfolding soundProfile_def finiteNonzero_iff by blast
  have acc: "isFinite (calculateVectorDeviation (accelerometer ds) (accelerometerBaseline (deviceProfile profile)))"
    using assms(1) by (intro calculateVectorDeviation_isFinite) (auto simp: soundProfile_def)
  have gyr: "isFinite (calculateVectorDeviation (gyroscope ds) (gyroscopeBaseline (deviceProfile profile)))"
    using assms(1) by (intro calculateVectorDeviation_isFinite) (auto simp: soundProfile_def)
  have k: "list_all (\<lambda>a. isFinite (deviationScore a) \<and> isFinite (an_confidence a))
             (keystrokeAnomalies ks (keystrokeProfile profile))"
    using assms(2,3) b
    by (simp add: keystrokeAnomalies_def Let_def average_finite relativeDeviation_finite
        deviationAnomaly_isFinite)
  have m: "list_all (\<lambda>a. isFinite (deviationScore a) \<and> isFinite (an_confidence a))
             (mouseAnomalies ms (mouseProfile profile))"
    using assms(4,5) b
    by (simp add: mouseAnomalies_def Let_def average_finite relativeDeviation_finite
        deviationAnomaly_isFinite)
  have dv: "list_all (\<lambda>a. isFinite (deviationScore a) \<and> isFinite (an_confidence a))
             (deviceAnomalies ds (deviceProfile profile))"
    using acc gyr
    by (simp add: deviceAnomalies_def Let_def deviationAnomaly_isFinite)
  show ?thesis using k m dv by simp
qed

lemma emaVector_isFinite:
  assumes "list_all isFinite baseline" "3 \<le> length baseline" "3 \<le> length current"
  shows "list_all isFinite (emaVector alpha baseline current)"
proof -
  have "isFinite (emaVector alpha baseline current ! i)" if i: "i < length baseline" for i
  proof (cases "i < 3")
    case True
    obtain b where b: "baseline ! i = Num b"
      using assms(1) i by (auto simp: list_all_length isFinite_iff)
    have "readSample current i = Num (current ! i)"
      using True assms(3) by (simp add: readSample_def)
    then show ?thesis
      using emaVector_long(2) [OF assms(2) True, of alpha current] b by (simp add: ema_finite)
  next
    case False
    then have "emaVector alpha baseline current ! i = baseline ! i"
      using emaVector_long(3) [OF assms(2), of i alpha current] by simp
    then show ?thesis using assms(1) i by (simp add: list_all_length)
  qed
  then show ?thesis
    using emaVector_long(1) [OF assms(2), of alpha current] by (simp add: list_all_length)
qed

lemma stored_finite:
  assumes "soundProfile profile" "dwellTimes ks \<noteq> []" "flightTimes ks \<noteq> []"
    "velocity ms \<noteq> []" "acceleration ms \<noteq> []"
    "3 \<le> length (accelerometer ds)" "3 \<le> length (gyroscope ds)"
  shows "list_all isFinite (storedNumbers (updateUserProfile ks ms ds now profile))"
proof -
  obtain d f t v a where b:
    "avgDwellTime (keystrokeProfile profile) = Num d" "d \<noteq> 0"
    "avgFlightTime (keystrokeProfile profile) = Num f" "f \<noteq> 0"
    "preferredTypingSpeed (keystrokeProfile profile) = Num t" "t \<noteq> 0"
    "avgVelocity (mouseProfile profile) = Num v" "v \<noteq> 0"
    "avgAcceleration (mouseProfile profile) = Num a" "a \<noteq> 0"
    using assms(1) unfolding soundProfile_def finiteNonzero_iff by blast
  have acc: "list_all isFinite (emaVector (1 / 10) (accelerometerBaseline (deviceProfile profile)) (accelerometer ds))"
    using assms(1,6) by (intro emaVector_isFinite) (auto simp: soundProfile_def)
  have gyr: "list_all isFinite (emaVector (1 / 10) (gyroscopeBaseline (deviceProfile profile)) (gyroscope ds))"
    using assms(1,7) by (intro emaVector_isFinite) (auto simp: soundProfile_def)
  show ?thesis
    using assms(2-5) b acc gyr
    by (simp add: storedNumbers_def updateUserProfile_def Let_def average_finite ema_finite)
qed


text \<open>
  C10 (as amended). The averages divide by the lengths of \<open>dwellTimes\<close>, \<open>flightTimes\<close>,
  \<open>velocity\<close>, \<open>acceleration\<close> and \<open>clickPatterns\<close> with no guard. When these five arrays
  are not empty, the accelerometer and gyroscope readings have at least three
  components, and the profile has finite baselines with non-zero divisors, then every
  session aggregate, every deviation, every score of an anomaly and every number that the
  update stores is a finite number (so not NaN). An empty \<open>dwellTimes\<close>, \<open>flightTimes\<close>,
  \<open>velocity\<close> or \<open>acceleration\<close> array makes its average NaN and the update stores NaN in
  the profile field of that average. An empty \<open>clickPatterns\<close> array makes the click
  average and the click deviation NaN, and nothing more: the stored profile does not
  depend on \<open>clickPatterns\<close>.
\<close>

theorem nan_freedom:
  "(soundProfile profile
      \<and> dwellTimes ks \<noteq> [] \<and> flightTimes ks \<noteq> [] \<and> velocity ms \<noteq> []
      \<and> acceleration ms \<noteq> [] \<and> clickPatterns ms \<noteq> []
      \<and> 3 \<le> length (accelerometer ds) \<and> 3 \<le> length (gyroscope ds)
    \<longrightarrow> list_all isFinite (sessionNumbers ks ms ds profile)
        \<and> list_all (\<lambda>a. isFinite (deviationScore a) \<and> isFinite (an_confidence a))
              (keystrokeAnomalies ks (keystrokeProfile profile) @ mouseAnomalies ms (mouseProfile profile)
               @ deviceAnomalies ds (deviceProfile profile))
        \<and> list_all isFinite (storedNumbers (updateUserProfile ks ms ds now profile)))
   \<and> (dwellTimes ks = [] \<longrightarrow>
         average (dwellTimes ks) = NaN
         \<and> avgDwellTime (keystrokeProfile (updateUserProfile ks ms ds now profile)) = NaN)
   \<and> (flightTimes ks = [] \<longrightarrow>
         average (flightTimes ks) = NaN
         \<and> avgFlightTime (keystrokeProfile (updateUserProfile ks ms ds now profile)) = NaN)
   \<and> (velocity ms = [] \<longrightarrow>
         average (velocity ms) = NaN
         \<and> avgVelocity (mouseProfile (updateUserProfile ks ms ds now profile)) = NaN)
   \<and> (acceleration ms = [] \<longrightarrow>
         average (acceleration ms) = NaN
         \<and> avgAcceleration (mouseProfile (updateUserProfile ks ms ds now profile)) = NaN)
   \<and> (clickPatterns ms = [] \<longrightarrow>
         average (clickPatterns ms) = NaN \<and> clickDeviation ms (mouseProfile profile) = NaN)
   \<and> updateUserProfile ks (ms\<lparr> clickPatterns := cs \<rparr>) ds now profile
       = updateUserProfile ks ms ds now profile"
proof (intro conjI impI)
  assume h: "soundProfile profile
      \<and> dwellTimes ks \<noteq> [] \<and> flightTimes ks \<noteq> [] \<and> velocity ms \<noteq> []
      \<and> acceleration ms \<noteq> [] \<and> clickPatterns ms \<noteq> []
      \<and> 3 \<le> length (accelerometer ds) \<and> 3 \<le> length (gyroscope ds)"
  show "list_all isFinite (sessionNumbers ks ms ds profile)"
    using h by (intro sessionNumbers_finite) simp_all
  show "list_all (\<lambda>a. isFinite (deviationScore a) \<and> isFinite (an_confidence a))
              (keystrokeAnomalies ks (keystrokeProfile profile) @ mouseAnomalies ms (mouseProfile profile)
               @ deviceAnomalies ds (deviceProfile profile))"
    using h by (intro anomalies_finite) simp_all
  show "list_all isFinite (storedNumbers (updateUserProfile ks ms ds now profile))"
    using h by (intro stored_finite) simp_all
next
  assume "dwellTimes ks = []"
  then show "average (dwellTimes ks) = NaN"
    "avgDwellTime (keystrokeProfile (updateUserProfile ks ms ds now profile)) = NaN"
    by (simp_all add: average_empty updateUserProfile_def Let_def ema_NaN)
next
  assume "flightTimes ks = []"
  then show "average (flightTimes ks) = NaN"
    "avgFlightTime (keystrokeProfile (updateUserProfile ks ms ds now profile)) = NaN"
    by (simp_all add: average_empty updateUserProfile_def Let_def ema_NaN)
next
  assume "velocity ms = []"
  then show "average (velocity ms) = NaN"
    "avgVelocity (mouseProfile (updateUserProfile ks ms ds now profile)) = NaN"
    by (simp_all add: average_empty updateUserProfile_def Let_def ema_NaN)
next
  assume "acceleration ms = []"
  then show "average (acceleration ms) = NaN"
    "avgAcceleration (mouseProfile (updateUserProfile ks ms ds now profile)) = NaN"
    by (simp_all add: average_empty updateUserProfile_def Let_def ema_NaN)
next
  assume "clickPatterns ms = []"
  then show "average (clickPatterns ms) = NaN" "clickDeviation ms (mouseProfile profile) = NaN"
    by (simp_all add: average_empty clickDeviation_def relativeDeviation_NaN)
next
  show "updateUserProfile ks (ms\<lparr> clickPatterns := cs \<rparr>) ds now profile
       = updateUserProfile ks ms ds now profile"
    by (simp add: updateUserProfile_def Let_def)
qed

text \<open>
  A profile that \<open>generateBaselineProfile\<close> has just made is in order, whatever the
  draws in [0, 1) are.
\<close>

lemma generated_profile_sound:
  "\<forall>k. 0 \<le> rnd k \<Longrightarrow> soundProfile (generateBaselineProfile uid rnd now)"
proof -
  assume r: "\<forall>k. 0 \<le> rnd k"
  have "0 \<le> rnd 0 * 40" "0 \<le> rnd 1 * 30" "0 \<le> rnd 14 * 35" "0 \<le> rnd 20 * 200"
    "0 \<le> rnd 21 * 100" "0 \<le> rnd 28 * 100"
    using r by simp_all
  then show ?thesis
    by (simp add: soundProfile_def finiteNonzero_def generateBaselineProfile_def list_all_iff)
qed

lemma example_sound: "soundProfile exampleProfile"
  by (simp add: soundProfile_def finiteNonzero_def exampleProfile_def)

text \<open>
  With the five arrays non-empty and a profile in order, an empty accelerometer reading
  stores NaN in the three components of the accelerometer baseline. With an empty
  \<open>clickPatterns\<close> array the click average is NaN and the stored numbers are all finite.
\<close>

theorem nan_freedom_counterexample:
  "soundProfile exampleProfile
   \<and> dwellTimes exampleKeystrokes \<noteq> [] \<and> flightTimes exampleKeystrokes \<noteq> []
   \<and> velocity exampleMouse \<noteq> [] \<and> acceleration exampleMouse \<noteq> []
   \<and> clickPatterns exampleMouse \<noteq> []
   \<and> accelerometerBaseline (deviceProfile
         (updateUserProfile exampleKeystrokes exampleMouse (exampleSensors\<lparr> accelerometer := [] \<rparr>)
            0 exampleProfile))
       = [NaN, NaN, NaN]
   \<and> average (clickPatterns (exampleMouse\<lparr> clickPatterns := [] \<rparr>)) = NaN
   \<and> storedNumbers
         (updateUserProfile exampleKeystrokes (exampleMouse\<lparr> clickPatterns := [] \<rparr>) exampleSensors
            0 exampleProfile)
       = [Num 100, Num 80, Num 60, Num 400, Num 200, Num 0, Num 0, Num 0, Num 0, Num 0, Num 0]"
proof -
  have a: "dwellTimes exampleKeystrokes \<noteq> [] \<and> flightTimes exampleKeystrokes \<noteq> []
     \<and> velocity exampleMouse \<noteq> [] \<and> acceleration exampleMouse \<noteq> []
     \<and> clickPatterns exampleMouse \<noteq> []"
    by (simp add: exampleKeystrokes_def exampleMouse_def)
  have b: "accelerometerBaseline (deviceProfile
         (updateUserProfile exampleKeystrokes exampleMouse (exampleSensors\<lparr> accelerometer := [] \<rparr>)
            0 exampleProfile))
       = [NaN, NaN, NaN]"
    by (simp add: exampleProfile_def updateUserProfile_def emaVector_def upt_3 writeBaseline_def
        readBaseline_def readSample_def ema_def Let_def)
  have c: "average (clickPatterns (exampleMouse\<lparr> clickPatterns := [] \<rparr>)) = NaN"
    by (simp add: average_def)
  have d: "storedNumbers
         (updateUserProfile exampleKeystrokes (exampleMouse\<lparr> clickPatterns := [] \<rparr>) exampleSensors
            0 exampleProfile)
       = [Num 100, Num 80, Num 60, Num 400, Num 200, Num 0, Num 0, Num 0, Num 0, Num 0, Num 0]"
    by (simp add: exampleKeystrokes_def exampleMouse_def exampleSensors_def
      exampleProfile_def updateUserProfile_def emaVector_def upt_3 writeBaseline_def readBaseline_def
      readSample_def ema_def average_def storedNumbers_def Let_def)
  show ?thesis using example_sound a b c d by simp
qed

text \<open>
  The example sample against the example profile, and the same with the four averaged
  arrays and \<open>clickPatterns\<close> empty.
\<close>

theorem nan_freedom_witness:
  "soundProfile exampleProfile
   \<and> dwellTimes exampleKeystrokes \<noteq> [] \<and> flightTimes exampleKeystrokes \<noteq> []
   \<and> velocity exampleMouse \<noteq> [] \<and> acceleration exampleMouse \<noteq> []
   \<and> clickPatterns exampleMouse \<noteq> []
   \<and> 3 \<le> length (accelerometer exampleSensors) \<and> 3 \<le> length (gyroscope exampleSensors)
   \<and> list_all isFinite (sessionNumbers exampleKeystrokes exampleMouse exampleSensors exampleProfile)
   \<and> list_all isFinite
         (storedNumbers (updateUserProfile exampleKeystrokes exampleMouse exampleSensors 0 exampleProfile))
   \<and> dwellTimes emptyKeystrokes = [] \<and> flightTimes emptyKeystrokes = []
   \<and> velocity emptyMouse = [] \<and> acceleration emptyMouse = [] \<and> clickPatterns emptyMouse = []
   \<and> avgDwellTime (keystrokeProfile
         (updateUserProfile emptyKeystrokes emptyMouse exampleSensors 0 exampleProfile)) = NaN
   \<and> avgFlightTime (keystrokeProfile
         (updateUserProfile emptyKeystrokes emptyMouse exampleSensors 0 exampleProfile)) = NaN
   \<and> avgVelocity (mouseProfile
         (updateUserProfile emptyKeystrokes emptyMouse exampleSensors 0 exampleProfile)) = NaN
   \<and> avgAcceleration (mouseProfile
         (updateUserProfile emptyKeystrokes emptyMouse exampleSensors 0 exampleProfile)) = NaN
   \<and> clickDeviation emptyMouse (mouseProfile exampleProfile) = NaN"
proof -
  have h: "soundProfile exampleProfile
      \<and> dwellTimes exampleKeystrokes \<noteq> [] \<and> flightTimes exampleKeystrokes \<noteq> []
      \<and> velocity exampleMouse \<noteq> [] \<and> acceleration exampleMouse \<noteq> []
      \<and> clickPatterns exampleMouse \<noteq> []
      \<and> 3 \<le> length (accelerometer exampleSensors) \<and> 3 \<le> length (gyroscope exampleSensors)"
    by (simp add: example_sound exampleKeystrokes_def exampleMouse_def exampleSensors_def)
  have e: "dwellTimes emptyKeystrokes = [] \<and> flightTimes emptyKeystrokes = []
      \<and> velocity emptyMouse = [] \<and> acceleration emptyMouse = [] \<and> clickPatterns emptyMouse = []"
    by (simp add: emptyKeystrokes_def emptyMouse_def)
  show ?thesis
    using nan_freedom [of exampleProfile exampleKeystrokes exampleMouse exampleSensors 0 "[]"]
      nan_freedom [of exampleProfile emptyKeystrokes emptyMouse exampleSensors 0 "[]"] h e
    by simp
qed

end
